theory Spec2Isabelle
  imports Complex_Main
begin

section \<open>JavaScript values and strings\<close>

text \<open>
  A JavaScript string is a sequence of UTF-16 code units; a code unit is modelled as an
  integer. \<open>js\<close> writes an ASCII literal as such a sequence. Scores are JavaScript numbers;
  they are modelled as rationals, so every sum and comparison of the detector is exact.
\<close>

type_synonym jschar = int
type_synonym jsstring = "jschar list"

definition js :: "string \<Rightarrow> jsstring" where
  "js s = map of_char s"

datatype jsval =
    JUndefined
  | JNull
  | JBool bool
  | JNum rat
  | JNaN
  | JStr jsstring
  | JArr "jsval list"
  | JObj

datatype reason = ListNotArray | QueryNotString | NotAFunction

datatype error = TypeError reason

text \<open>
  The parts of the runtime that consult Unicode tables or print and parse numbers are not
  code of the repository. They are a parameter of the model: every function that needs
  them takes the tables as its first argument, and every general theorem holds for all
  tables. \<open>toUpperCase1\<close> is the single-code-unit upper-case mapping that the regular
  expression flag \<open>i\<close> uses on code units above 127.
\<close>

record unicode =
  toLowerCase :: "jsstring \<Rightarrow> jsstring"
  toUpperCase1 :: "jschar \<Rightarrow> jschar"
  normalizeNFKD :: "jsstring \<Rightarrow> jsstring"
  normalizeNFKC :: "jsstring \<Rightarrow> jsstring"
  numberToString :: "rat \<Rightarrow> jsstring"
  parseFloat :: "jsstring \<Rightarrow> rat option"

definition ascii_upper :: "jschar \<Rightarrow> jschar" where
  "ascii_upper c = (if c < 97 then c else if 122 < c then c else c - 32)"

definition ascii_lower :: "jschar \<Rightarrow> jschar" where
  "ascii_lower c = (if c < 65 then c else if 90 < c then c else c + 32)"

text \<open>
  The tables restricted to ASCII: on a string of code units below 128 lower-casing maps
  \<open>A-Z\<close> to \<open>a-z\<close> and both normal forms are the identity, as in every JavaScript
  runtime. The concrete runs below are on ASCII texts and use these tables; none of them
  prints or parses a number, and the two last fields are placeholders.
\<close>

definition ascii_tables :: unicode where
  "ascii_tables = \<lparr> toLowerCase = map ascii_lower, toUpperCase1 = (\<lambda>c. c),
     normalizeNFKD = (\<lambda>s. s), normalizeNFKC = (\<lambda>s. s),
     numberToString = (\<lambda>r. []), parseFloat = (\<lambda>s. None) \<rparr>"

fun in_ranges :: "jschar \<Rightarrow> (jschar \<times> jschar) list \<Rightarrow> bool" where
  "in_ranges c [] = False"
| "in_ranges c ((lo, hi) # rs) =
     (if c < lo then in_ranges c rs else if hi < c then in_ranges c rs else True)"

text \<open>Character classes are lists of code-unit ranges; \<open>rg\<close> and \<open>sg\<close> write them from ASCII.\<close>

fun rg :: "string \<Rightarrow> (jschar \<times> jschar) list" where
  "rg (a # b # cs) = (of_char a, of_char b) # rg cs"
| "rg cs = []"

definition sg :: "string \<Rightarrow> (jschar \<times> jschar) list" where
  "sg cs = map (\<lambda>c. (of_char c, of_char c)) cs"

text \<open>\<open>\s\<close>: white space and line terminators; \<open>\w\<close>; \<open>\d\<close>.\<close>

definition cs_space :: "(jschar \<times> jschar) list" where
  "cs_space = [(9, 13), (32, 32), (160, 160), (5760, 5760), (8192, 8202), (8232, 8233),
     (8239, 8239), (8287, 8287), (12288, 12288), (65279, 65279)]"

definition cs_word :: "(jschar \<times> jschar) list" where
  "cs_word = [(97, 122), (65, 90), (48, 57), (95, 95)]"

definition cs_digit :: "(jschar \<times> jschar) list" where
  "cs_digit = [(48, 57)]"

definition cs_alpha :: "(jschar \<times> jschar) list" where
  "cs_alpha = [(97, 122), (65, 90)]"

definition isWhiteSpace :: "jschar \<Rightarrow> bool" where
  "isWhiteSpace c = in_ranges c cs_space"

definition isWordChar :: "jschar \<Rightarrow> bool" where
  "isWordChar c = in_ranges c cs_word"

definition isLineTerminator :: "jschar \<Rightarrow> bool" where
  "isLineTerminator c = in_ranges c [(10, 10), (13, 13), (8232, 8233)]"

subsection \<open>String methods\<close>

definition trim :: "jsstring \<Rightarrow> jsstring" where
  "trim s = rev (dropWhile isWhiteSpace (rev (dropWhile isWhiteSpace s)))"

fun startsWith :: "jsstring \<Rightarrow> jsstring \<Rightarrow> bool" where
  "startsWith s [] = True"
| "startsWith [] (c # cs) = False"
| "startsWith (x # xs) (c # cs) = (if x = c then startsWith xs cs else False)"

fun includes_str :: "jsstring \<Rightarrow> jsstring \<Rightarrow> bool" where
  "includes_str [] t = (t = [])"
| "includes_str (x # xs) t = (if startsWith (x # xs) t then True else includes_str xs t)"

text \<open>
  \<open>s.replace(p, t)\<close> with a string pattern replaces the first occurrence of \<open>p\<close>; in the
  replacement \<open>$$\<close>, \<open>$&\<close>, \<open>$`\<close> and \<open>$'\<close> are expanded (there are no captures).
\<close>

fun getSubstitution :: "jsstring \<Rightarrow> jsstring \<Rightarrow> jsstring \<Rightarrow> jsstring \<Rightarrow> jsstring" where
  "getSubstitution m pre post [] = []"
| "getSubstitution m pre post [c] = [c]"
| "getSubstitution m pre post (c # d # t) =
     (if c = 36 then
        (if d = 36 then 36 # getSubstitution m pre post t
         else if d = 38 then m @ getSubstitution m pre post t
         else if d = 96 then pre @ getSubstitution m pre post t
         else if d = 39 then post @ getSubstitution m pre post t
         else c # getSubstitution m pre post (d # t))
      else c # getSubstitution m pre post (d # t))"

fun replace_str_from :: "jsstring \<Rightarrow> jsstring \<Rightarrow> jsstring \<Rightarrow> jsstring \<Rightarrow> jsstring" where
  "replace_str_from pre [] p t =
     (if p = [] then rev pre @ getSubstitution p (rev pre) [] t else rev pre)"
| "replace_str_from pre (x # xs) p t =
     (if startsWith (x # xs) p
      then rev pre @ getSubstitution p (rev pre) (drop (length p) (x # xs)) t
           @ drop (length p) (x # xs)
      else replace_str_from (x # pre) xs p t)"

definition replace_str :: "jsstring \<Rightarrow> jsstring \<Rightarrow> jsstring \<Rightarrow> jsstring" where
  "replace_str s p t = replace_str_from [] s p t"

text \<open>\<open>s.split(c)\<close> for a one-character separator.\<close>

fun split_char :: "jschar \<Rightarrow> jsstring \<Rightarrow> jsstring \<Rightarrow> jsstring list" where
  "split_char c cur [] = [rev cur]"
| "split_char c cur (x # xs) =
     (if x = c then rev cur # split_char c [] xs else split_char c (x # cur) xs)"

fun join :: "jsstring \<Rightarrow> jsstring list \<Rightarrow> jsstring" where
  "join sep [] = []"
| "join sep [s] = s"
| "join sep (s # t # ss) = s @ sep @ join sep (t # ss)"

text \<open>The elements of a \<open>Set\<close> in insertion order: the first occurrence of each value.\<close>

fun uniq :: "'a list \<Rightarrow> 'a list \<Rightarrow> 'a list" where
  "uniq seen [] = rev seen"
| "uniq seen (x # xs) = (if x \<in> set seen then uniq seen xs else uniq (x # seen) xs)"

definition set_of :: "'a list \<Rightarrow> 'a list" where
  "set_of xs = uniq [] xs"

text \<open>\<open>parseFloat(x.toFixed(n))\<close>: the nearest multiple of \<open>10^-n\<close>, a tie going up.\<close>

definition toFixed :: "nat \<Rightarrow> rat \<Rightarrow> rat" where
  "toFixed n x =
     (if x < 0 then - (of_int \<lfloor>- x * 10 ^ n + 1 / 2\<rfloor> / 10 ^ n)
      else of_int \<lfloor>x * 10 ^ n + 1 / 2\<rfloor> / 10 ^ n)"

section \<open>Regular expressions\<close>

text \<open>
  The syntax of the regular expressions the detector uses, and the backtracking matcher
  of ECMAScript on them: alternatives in order, greedy and lazy quantifiers, capture
  groups and back references, \<open>\b\<close>, negative lookahead and \<open>$\<close>. The matcher is first
  order: the continuation is a stack of frames.
\<close>

datatype rx =
    Eps
  | Lit jsstring
  | Dot
  | Set bool "(jschar \<times> jschar) list"
  | Seq rx rx
  | Alt rx rx
  | Rep nat "nat option" bool rx
  | Grp nat rx
  | Ref nat
  | WordB
  | NLook rx
  | Eos

fun cat :: "rx list \<Rightarrow> rx" where
  "cat [] = Eps"
| "cat [r] = r"
| "cat (r # s # rs) = Seq r (cat (s # rs))"

fun alts :: "rx list \<Rightarrow> rx" where
  "alts [] = Eps"
| "alts [r] = r"
| "alts (r # s # rs) = Alt r (alts (s # rs))"

definition str :: "string \<Rightarrow> rx" where
  "str s = Lit (js s)"

definition strs :: "string list \<Rightarrow> rx" where
  "strs ss = alts (map str ss)"

definition opt :: "rx \<Rightarrow> rx" where
  "opt r = Rep 0 (Some 1) True r"

definition star :: "rx \<Rightarrow> rx" where
  "star r = Rep 0 None True r"

definition plus_rx :: "rx \<Rightarrow> rx" where
  "plus_rx r = Rep 1 None True r"

definition lazy_star :: "rx \<Rightarrow> rx" where
  "lazy_star r = Rep 0 None False r"

definition rep :: "nat \<Rightarrow> nat \<Rightarrow> rx \<Rightarrow> rx" where
  "rep m n r = Rep m (Some n) True r"

definition atleast :: "nat \<Rightarrow> rx \<Rightarrow> rx" where
  "atleast m r = Rep m None True r"

definition cls :: "(jschar \<times> jschar) list \<Rightarrow> rx" where
  "cls rs = Set False rs"

definition ncls :: "(jschar \<times> jschar) list \<Rightarrow> rx" where
  "ncls rs = Set True rs"

definition sp :: rx where "sp = cls cs_space"
definition wd :: rx where "wd = cls cs_word"
definition dg :: rx where "dg = cls cs_digit"
definition al :: rx where "al = cls cs_alpha"

text \<open>
  Canonicalisation under the flag \<open>i\<close> (without \<open>u\<close>): a code unit is compared by its
  upper case, and a code unit above 127 is never mapped to one below 128.
\<close>

definition canonicalize :: "unicode \<Rightarrow> jschar \<Rightarrow> jschar" where
  "canonicalize U c = (if c < 128 then ascii_upper c
     else (let u = toUpperCase1 U c in if u < 128 then c else u))"

definition char_eq :: "unicode \<Rightarrow> bool \<Rightarrow> jschar \<Rightarrow> jschar \<Rightarrow> bool" where
  "char_eq U ic a b =
     (if a = b then True else if ic then canonicalize U a = canonicalize U b else False)"

text \<open>
  Every class that the detector uses under the flag \<open>i\<close> has only ASCII members or
  members without case, so membership under \<open>i\<close> is membership of either ASCII case.
\<close>

definition in_set :: "bool \<Rightarrow> jschar \<Rightarrow> (jschar \<times> jschar) list \<Rightarrow> bool" where
  "in_set ic c rs =
     (if in_ranges c rs then True
      else if ic then
        (if in_ranges c [(97, 122)] then in_ranges (c - 32) rs
         else if in_ranges c [(65, 90)] then in_ranges (c + 32) rs
         else False)
      else False)"

datatype mstate =
  MState (pos: int) (prv: "jschar option") (acc: jsstring) (rest: jsstring)
    (caps: "(nat \<times> jsstring option) list")

datatype frame = FRx rx | FChk int rx | FCap nat int

fun wordAt :: "jschar option \<Rightarrow> bool" where
  "wordAt None = False"
| "wordAt (Some c) = isWordChar c"

fun nxt :: "jsstring \<Rightarrow> jschar option" where
  "nxt [] = None"
| "nxt (c # cs) = Some c"

fun lit_match :: "unicode \<Rightarrow> bool \<Rightarrow> jsstring \<Rightarrow> mstate \<Rightarrow> mstate option" where
  "lit_match U ic [] s = Some s"
| "lit_match U ic (c # cs) (MState i p a [] cp) = None"
| "lit_match U ic (c # cs) (MState i p a (x # xs) cp) =
     (if char_eq U ic c x then lit_match U ic cs (MState (i + 1) (Some x) (x # a) xs cp)
      else None)"

primrec groups :: "rx \<Rightarrow> nat list" where
  "groups Eps = []"
| "groups (Lit s) = []"
| "groups Dot = []"
| "groups (Set n rs) = []"
| "groups (Seq a b) = groups a @ groups b"
| "groups (Alt a b) = groups a @ groups b"
| "groups (Rep lo hi g a) = groups a"
| "groups (Grp i a) = i # groups a"
| "groups (Ref i) = []"
| "groups WordB = []"
| "groups (NLook a) = groups a"
| "groups Eos = []"

fun reset_caps ::
  "nat list \<Rightarrow> (nat \<times> jsstring option) list \<Rightarrow> (nat \<times> jsstring option) list" where
  "reset_caps [] cp = cp"
| "reset_caps (i # gs) cp = (i, None) # reset_caps gs cp"

fun cap_lookup :: "(nat \<times> jsstring option) list \<Rightarrow> nat \<Rightarrow> jsstring option" where
  "cap_lookup [] i = None"
| "cap_lookup ((j, v) # cs) i = (if i = j then v else cap_lookup cs i)"

fun dec :: "nat option \<Rightarrow> nat option" where
  "dec None = None"
| "dec (Some h) = Some (h - 1)"

text \<open>The weights that bound the matcher's recursion.\<close>

primrec rxw :: "rx \<Rightarrow> nat" where
  "rxw Eps = 1"
| "rxw (Lit s) = 1"
| "rxw Dot = 1"
| "rxw (Set n rs) = 1"
| "rxw (Seq a b) = Suc (rxw a + rxw b)"
| "rxw (Alt a b) = Suc (rxw a + rxw b)"
| "rxw (Rep lo hi g a) = Suc lo * (rxw a + 2)"
| "rxw (Grp i a) = rxw a + 2"
| "rxw (Ref i) = 1"
| "rxw WordB = 1"
| "rxw (NLook a) = Suc (rxw a)"
| "rxw Eos = 1"

fun frw :: "int \<Rightarrow> frame \<Rightarrow> nat" where
  "frw p (FRx r) = rxw r"
| "frw p (FChk q r) = (if p = q then 0 else Suc (rxw r))"
| "frw p (FCap i q) = 1"

definition stw :: "int \<Rightarrow> frame list \<Rightarrow> nat" where
  "stw p fs = sum_list (map (frw p) fs)"

text \<open>
  \<open>run U ic k s\<close> matches the frames \<open>k\<close> from the state \<open>s\<close> and returns the final state
  of the first successful path. A repetition with minimum 0 rejects an iteration that
  consumed nothing (frame \<open>FChk\<close>), as the ECMAScript RepeatMatcher does; the captures of
  the repeated part are reset at each iteration.
\<close>

function (sequential) run :: "unicode \<Rightarrow> bool \<Rightarrow> frame list \<Rightarrow> mstate \<Rightarrow> mstate option" where
  "run U ic [] s = Some s"
| "run U ic (FRx Eps # k) s = run U ic k s"
| "run U ic (FRx (Lit l) # k) s =
     (case lit_match U ic l s of None \<Rightarrow> None | Some s' \<Rightarrow> run U ic k s')"
| "run U ic (FRx Dot # k) (MState i p a [] cp) = None"
| "run U ic (FRx Dot # k) (MState i p a (c # r) cp) =
     (if isLineTerminator c then None else run U ic k (MState (i + 1) (Some c) (c # a) r cp))"
| "run U ic (FRx (Set neg rs) # k) (MState i p a [] cp) = None"
| "run U ic (FRx (Set neg rs) # k) (MState i p a (c # r) cp) =
     (if in_set ic c rs = neg then None
      else run U ic k (MState (i + 1) (Some c) (c # a) r cp))"
| "run U ic (FRx (Seq x y) # k) s = run U ic (FRx x # FRx y # k) s"
| "run U ic (FRx (Alt x y) # k) s =
     (case run U ic (FRx x # k) s of Some z \<Rightarrow> Some z | None \<Rightarrow> run U ic (FRx y # k) s)"
| "run U ic (FRx (Rep lo hi g x) # k) (MState i p a r cp) =
     (if hi = Some 0 then run U ic k (MState i p a r cp)
      else if lo \<noteq> 0 then
        run U ic (FRx x # FRx (Rep (lo - 1) (dec hi) g x) # k)
          (MState i p a r (reset_caps (groups x) cp))
      else if g then
        (case run U ic (FRx x # FChk i (Rep 0 (dec hi) g x) # k)
                (MState i p a r (reset_caps (groups x) cp)) of
           Some z \<Rightarrow> Some z
         | None \<Rightarrow> run U ic k (MState i p a r cp))
      else
        (case run U ic k (MState i p a r cp) of
           Some z \<Rightarrow> Some z
         | None \<Rightarrow> run U ic (FRx x # FChk i (Rep 0 (dec hi) g x) # k)
                     (MState i p a r (reset_caps (groups x) cp))))"
| "run U ic (FChk q x # k) (MState i p a r cp) =
     (if i = q then None else run U ic (FRx x # k) (MState i p a r cp))"
| "run U ic (FRx (Grp n x) # k) (MState i p a r cp) =
     run U ic (FRx x # FCap n i # k) (MState i p a r cp)"
| "run U ic (FCap n q # k) (MState i p a r cp) =
     run U ic k (MState i p a r ((n, Some (rev (take (nat (i - q)) a))) # cp))"
| "run U ic (FRx (Ref n) # k) (MState i p a r cp) =
     (case cap_lookup cp n of
        None \<Rightarrow> run U ic k (MState i p a r cp)
      | Some t \<Rightarrow>
          (case lit_match U ic t (MState i p a r cp) of
             None \<Rightarrow> None
           | Some s' \<Rightarrow> run U ic k s'))"
| "run U ic (FRx WordB # k) (MState i p a r cp) =
     (if wordAt p = wordAt (nxt r) then None else run U ic k (MState i p a r cp))"
| "run U ic (FRx (NLook x) # k) s =
     (case run U ic [FRx x] s of None \<Rightarrow> run U ic k s | Some y \<Rightarrow> None)"
| "run U ic (FRx Eos # k) (MState i p a [] cp) = run U ic k (MState i p a [] cp)"
| "run U ic (FRx Eos # k) (MState i p a (c # r) cp) = None"
  by pat_completeness auto
termination
proof -
  have shorter: "s' = s \<or> length (rest s') < length (rest s)"
    if "lit_match U ic l s = Some s'" for U ic l s s'
    using that by (induction U ic l s rule: lit_match.induct) (auto split: if_splits)
  show ?thesis
    by (relation "measures [\<lambda>(U, ic, fs, s). length (rest s), \<lambda>(U, ic, fs, s). stw (pos s) fs]")
       (auto simp: stw_def dest: shorter)
qed

text \<open>
  A match attempted at one position; \<open>p\<close> is the code unit pre the position. The
  result is the matched text and the captures (the first entry of an index is current).
\<close>

type_synonym captures = "(nat \<times> jsstring option) list"

definition try_at ::
  "unicode \<Rightarrow> bool \<Rightarrow> rx \<Rightarrow> jschar option \<Rightarrow> jsstring \<Rightarrow> (jsstring \<times> captures) option" where
  "try_at U ic r p xs =
     (case run U ic [FRx r] (MState 0 p [] xs []) of
        None \<Rightarrow> None
      | Some y \<Rightarrow> Some (rev (acc y), caps y))"

text \<open>The text of capture \<open>i\<close>; a group that did not take part gives the empty string.\<close>

definition cap :: "captures \<Rightarrow> nat \<Rightarrow> jsstring" where
  "cap cs i = (case cap_lookup cs i of None \<Rightarrow> [] | Some t \<Rightarrow> t)"

text \<open>
  \<open>scan\<close> is the loop of a global regular expression over a string (\<open>match\<close>,
  \<open>matchAll\<close> and \<open>replace\<close> with the flag \<open>g\<close>): the leftmost match from the current
  position, then on from its end, one code unit further post an empty match. The
  result lists the code units outside matches and the matches, in order.
\<close>

datatype seg = Txt jschar | Mat jsstring captures

fun scan :: "unicode \<Rightarrow> bool \<Rightarrow> rx \<Rightarrow> jschar option \<Rightarrow> nat \<Rightarrow> jsstring \<Rightarrow> seg list" where
  "scan U ic r p skip [] =
     (if skip = 0 then (case try_at U ic r p [] of None \<Rightarrow> [] | Some (t, cs) \<Rightarrow> [Mat t cs])
      else [])"
| "scan U ic r p skip (x # xs) =
     (if skip \<noteq> 0 then scan U ic r (Some x) (skip - 1) xs
      else case try_at U ic r p (x # xs) of
             None \<Rightarrow> Txt x # scan U ic r (Some x) 0 xs
           | Some (t, cs) \<Rightarrow>
               if t = [] then Mat t cs # Txt x # scan U ic r (Some x) 0 xs
               else Mat t cs # scan U ic r (Some x) (length t - 1) xs)"

fun matches_of :: "seg list \<Rightarrow> jsstring list" where
  "matches_of [] = []"
| "matches_of (Txt c # gs) = matches_of gs"
| "matches_of (Mat t cs # gs) = t # matches_of gs"

fun captures_of :: "seg list \<Rightarrow> captures list" where
  "captures_of [] = []"
| "captures_of (Txt c # gs) = captures_of gs"
| "captures_of (Mat t cs # gs) = cs # captures_of gs"

fun replace_segs :: "(jsstring \<Rightarrow> captures \<Rightarrow> jsstring) \<Rightarrow> seg list \<Rightarrow> jsstring" where
  "replace_segs f [] = []"
| "replace_segs f (Txt c # gs) = c # replace_segs f gs"
| "replace_segs f (Mat t cs # gs) = f t cs @ replace_segs f gs"

text \<open>
  \<open>s.match(r)\<close> with the flag \<open>g\<close>: the list of matched texts; JavaScript returns
  \<open>null\<close> where this list is empty.
\<close>

definition match_all :: "unicode \<Rightarrow> bool \<Rightarrow> rx \<Rightarrow> jsstring \<Rightarrow> jsstring list" where
  "match_all U ic r s = matches_of (scan U ic r None 0 s)"

definition replace_all ::
  "unicode \<Rightarrow> bool \<Rightarrow> rx \<Rightarrow> (jsstring \<Rightarrow> captures \<Rightarrow> jsstring) \<Rightarrow> jsstring \<Rightarrow> jsstring" where
  "replace_all U ic r f s = replace_segs f (scan U ic r None 0 s)"

text \<open>\<open>r.exec(s)\<close> from the start of \<open>s\<close>: the leftmost match.\<close>

fun exec_from ::
  "unicode \<Rightarrow> bool \<Rightarrow> rx \<Rightarrow> jschar option \<Rightarrow> jsstring \<Rightarrow> (jsstring \<times> captures) option" where
  "exec_from U ic r p [] = try_at U ic r p []"
| "exec_from U ic r p (x # xs) =
     (case try_at U ic r p (x # xs) of
        None \<Rightarrow> exec_from U ic r (Some x) xs
      | Some m \<Rightarrow> Some m)"

definition exec :: "unicode \<Rightarrow> bool \<Rightarrow> rx \<Rightarrow> jsstring \<Rightarrow> (jsstring \<times> captures) option" where
  "exec U ic r s = exec_from U ic r None s"

definition test :: "unicode \<Rightarrow> bool \<Rightarrow> rx \<Rightarrow> jsstring \<Rightarrow> bool" where
  "test U ic r s = (exec U ic r s \<noteq> None)"

text \<open>\<open>s.split(r)\<close> for a regular expression that matches no empty string.\<close>

fun split_segs :: "jsstring \<Rightarrow> seg list \<Rightarrow> jsstring list" where
  "split_segs cur [] = [rev cur]"
| "split_segs cur (Txt c # gs) = split_segs (c # cur) gs"
| "split_segs cur (Mat t cs # gs) = rev cur # split_segs [] gs"

definition split_rx :: "unicode \<Rightarrow> bool \<Rightarrow> rx \<Rightarrow> jsstring \<Rightarrow> jsstring list" where
  "split_rx U ic r s = split_segs [] (scan U ic r None 0 s)"

text \<open>\<open>s.replace(r, f)\<close> without the flag \<open>g\<close>: the leftmost match is replaced.\<close>

fun replace_first_from ::
  "unicode \<Rightarrow> bool \<Rightarrow> rx \<Rightarrow> (jsstring \<Rightarrow> captures \<Rightarrow> jsstring) \<Rightarrow> jschar option \<Rightarrow> jsstring \<Rightarrow>
     jsstring \<Rightarrow> jsstring" where
  "replace_first_from U ic r f p pre [] =
     (case try_at U ic r p [] of None \<Rightarrow> rev pre | Some (t, cs) \<Rightarrow> rev pre @ f t cs)"
| "replace_first_from U ic r f p pre (x # xs) =
     (case try_at U ic r p (x # xs) of
        None \<Rightarrow> replace_first_from U ic r f (Some x) (x # pre) xs
      | Some (t, cs) \<Rightarrow> rev pre @ f t cs @ drop (length t) (x # xs))"

definition replace_first ::
  "unicode \<Rightarrow> bool \<Rightarrow> rx \<Rightarrow> (jsstring \<Rightarrow> captures \<Rightarrow> jsstring) \<Rightarrow> jsstring \<Rightarrow> jsstring" where
  "replace_first U ic r f s = replace_first_from U ic r f None [] s"

section \<open>The regular expressions of the detector\<close>

text \<open>
  Each definition is the expression of \<^verbatim>\<open>src/dist/detector.js\<close> quoted above it; the
  flag \<open>i\<close> is the Boolean given to the matcher where the expression is used.
\<close>

text \<open>\<open>rx_diacritics\<close>: the class of U+0300 to U+036F, flag g.\<close>

definition rx_diacritics :: rx where
  "rx_diacritics =
     cls [(768, 879)]"

text \<open>\<^verbatim>\<open>/[^a-zA-Z0-9\s\.,!?]/g\<close>\<close>

definition asciiGarbageRegex :: rx where
  "asciiGarbageRegex =
     ncls (rg ''azAZ09'' @ cs_space @ sg ''.,!?'')"

text \<open>\<^verbatim>\<open>/(.)\1{3,}/g\<close>\<close>

definition rx_repeated_chars :: rx where
  "rx_repeated_chars =
     cat [Grp 1 Dot, atleast 3 (Ref 1)]"

text \<open>\<^verbatim>\<open>/\b\w+\b/g\<close>\<close>

definition rx_words :: rx where
  "rx_words =
     cat [WordB, plus_rx wd, WordB]"

text \<open>\<^verbatim>\<open>/\s+/g\<close>\<close>

definition rx_spaces :: rx where
  "rx_spaces =
     plus_rx sp"

text \<open>\<^verbatim>\<open>/(\w)\s*\.\s*(\w)/g\<close>\<close>

definition rx_dot_between :: rx where
  "rx_dot_between =
     cat [Grp 1 wd, star sp, str ''.'', star sp, Grp 2 wd]"

text \<open>\<^verbatim>\<open>/(\w)[\s.*_\-|+=:;,']+(\w)/g\<close>\<close>

definition rx_sep_between :: rx where
  "rx_sep_between =
     cat [Grp 1 wd, plus_rx (cls (cs_space @ sg ''.*_-|+=:;,'' @ [(39, 39)])), Grp 2 wd]"

text \<open>\<^verbatim>\<open>/\s+(\w)\s+(\w)\s+(\w)\s+/g\<close>\<close>

definition rx_spaced_triplet :: rx where
  "rx_spaced_triplet =
     cat [plus_rx sp, Grp 1 wd, plus_rx sp, Grp 2 wd, plus_rx sp, Grp 3 wd, plus_rx sp]"

text \<open>\<^verbatim>\<open>/\b([a-zA-Z]{1,3})\s+([a-zA-Z]{1,3})\b/g\<close>\<close>

definition rx_short_pair :: rx where
  "rx_short_pair =
     cat [WordB, Grp 1 (rep 1 3 al), plus_rx sp, Grp 2 (rep 1 3 al), WordB]"

text \<open>\<^verbatim>\<open>/\b([a-zA-Z]{1,3})\s+([a-zA-Z]{1,3})\s+([a-zA-Z]{1,3})\b/g\<close>\<close>

definition rx_short_triple :: rx where
  "rx_short_triple =
     cat [WordB, Grp 1 (rep 1 3 al), plus_rx sp, Grp 2 (rep 1 3 al), plus_rx sp,
       Grp 3 (rep 1 3 al), WordB]"

text \<open>\<^verbatim>\<open>/\b\w+\.(com|net|io|xyz|site|online|id|org|gz|en|uk|int|edu|gov|ren|xin|[A-Z]?[a-zA-Z_+-]{2,8})/gi\<close>\<close>

definition rx_url_1 :: rx where
  "rx_url_1 =
     cat [WordB, plus_rx wd, str ''.'', Grp 1 (alts [str ''com'', str ''net'', str ''io'',
       str ''xyz'', str ''site'', str ''online'', str ''id'', str ''org'', str ''gz'',
       str ''en'', str ''uk'', str ''int'', str ''edu'', str ''gov'', str ''ren'', str ''xin'',
       cat [opt (cls (rg ''AZ'')), rep 2 8 (cls (rg ''azAZ'' @ sg ''_+-''))]])]"

text \<open>\<^verbatim>\<open>/\bbit\.ly\/\w+/gi\<close>\<close>

definition rx_url_2 :: rx where
  "rx_url_2 =
     cat [WordB, str ''bit.ly/'', plus_rx wd]"

text \<open>\<^verbatim>\<open>/\w+\s*\.\s*\w+\s*\/\s*\w+/gi\<close>\<close>

definition rx_url_3 :: rx where
  "rx_url_3 =
     cat [plus_rx wd, star sp, str ''.'', star sp, plus_rx wd, star sp, str ''/'', star sp,
       plus_rx wd]"

text \<open>\<^verbatim>\<open>/h\s*t\s*t\s*p\s*s?/gi\<close>\<close>

definition rx_url_4 :: rx where
  "rx_url_4 =
     cat [str ''h'', star sp, str ''t'', star sp, str ''t'', star sp, str ''p'', star sp,
       opt (str ''s'')]"

text \<open>\<^verbatim>\<open>/w\s*w\s*w\s*\.\s*\w+/gi\<close>\<close>

definition rx_url_5 :: rx where
  "rx_url_5 =
     cat [str ''w'', star sp, str ''w'', star sp, str ''w'', star sp, str ''.'', star sp,
       plus_rx wd]"

text \<open>\<^verbatim>\<open>/\b(?:t(?:\.)?me|t(?:\.)?ly|is\.gd|goo\.gl|v\.gd|bit\.ly|tinyurl)/gi\<close>\<close>

definition rx_url_6 :: rx where
  "rx_url_6 =
     cat [WordB, alts [cat [str ''t'', opt (str ''.''), str ''me''], cat [str ''t'',
       opt (str ''.''), str ''ly''], str ''is.gd'', str ''goo.gl'', str ''v.gd'',
       str ''bit.ly'', str ''tinyurl'']]"

text \<open>\<^verbatim>\<open>/\bwa\.me\/\d+/gi\<close>\<close>

definition rx_url_7 :: rx where
  "rx_url_7 =
     cat [WordB, str ''wa.me/'', plus_rx dg]"

text \<open>\<^verbatim>\<open>/\bt(?:\.)?g\/\w+/gi\<close>\<close>

definition rx_url_8 :: rx where
  "rx_url_8 =
     cat [WordB, str ''t'', opt (str ''.''), str ''g/'', plus_rx wd]"

text \<open>\<^verbatim>\<open>/\blink(?:\.)?in\/bio/gi\<close>\<close>

definition rx_url_9 :: rx where
  "rx_url_9 =
     cat [WordB, str ''link'', opt (str ''.''), str ''in/bio'']"

text \<open>\<^verbatim>\<open>/\b([a-zA-Z0-9_-]+)[\s.*_\-|+=:;]+([a-zA-Z]{2,5})\b/g\<close>\<close>

definition domainPattern :: rx where
  "domainPattern =
     cat [WordB, Grp 1 (plus_rx (cls (rg ''azAZ09'' @ sg ''_-''))),
       plus_rx (cls (cs_space @ sg ''.*_-|+=:;'')), Grp 2 (rep 2 5 al), WordB]"

text \<open>\<^verbatim>\<open>/\s+$/\<close>\<close>

definition rx_trailing_space :: rx where
  "rx_trailing_space =
     cat [plus_rx sp, Eos]"

text \<open>\<^verbatim>\<open>/\b(?:bet(?:ting)?|wager|casino|poker|slot|roulette|jackpot|gambling)\b/i\<close>\<close>

definition rx_en_1 :: rx where
  "rx_en_1 =
     cat [WordB, alts [cat [str ''bet'', opt (str ''ting'')], str ''wager'', str ''casino'',
       str ''poker'', str ''slot'', str ''roulette'', str ''jackpot'', str ''gambling''], WordB]"

text \<open>\<^verbatim>\<open>/\b(?:online\s+gaming|sports\s+betting|odds|bookmaker|bookie)\b/i\<close>\<close>

definition rx_en_2 :: rx where
  "rx_en_2 =
     cat [WordB, alts [cat [str ''online'', plus_rx sp, str ''gaming''], cat [str ''sports'',
       plus_rx sp, str ''betting''], str ''odds'', str ''bookmaker'', str ''bookie''], WordB]"

text \<open>\<^verbatim>\<open>/\b(?:deposit|withdraw|bonus|free\s+spin|vip\s+member|promo\s+code)\b/i\<close>\<close>

definition rx_en_3 :: rx where
  "rx_en_3 =
     cat [WordB, alts [str ''deposit'', str ''withdraw'', str ''bonus'', cat [str ''free'',
       plus_rx sp, str ''spin''], cat [str ''vip'', plus_rx sp, str ''member''],
       cat [str ''promo'', plus_rx sp, str ''code'']], WordB]"

text \<open>\<^verbatim>\<open>/\b(?:judi|togel|gacor|maxwin|slot|toto|rolet|kasino|bandar)\b/i\<close>\<close>

definition rx_id_1 :: rx where
  "rx_id_1 =
     cat [WordB, strs [''judi'', ''togel'', ''gacor'', ''maxwin'', ''slot'', ''toto'',
       ''rolet'', ''kasino'', ''bandar''], WordB]"

text \<open>\<^verbatim>\<open>/\b(?:taruhan|pasang|daftar|situs|bo|link\s+alternatif|akun|member)\b/i\<close>\<close>

definition rx_id_2 :: rx where
  "rx_id_2 =
     cat [WordB, alts [str ''taruhan'', str ''pasang'', str ''daftar'', str ''situs'',
       str ''bo'', cat [str ''link'', plus_rx sp, str ''alternatif''], str ''akun'',
       str ''member''], WordB]"

text \<open>\<^verbatim>\<open>/\b(?:menang|jackpot|deposit|withdraw|bonus|spin|prediksi|bocoran)\b/i\<close>\<close>

definition rx_id_3 :: rx where
  "rx_id_3 =
     cat [WordB, strs [''menang'', ''jackpot'', ''deposit'', ''withdraw'', ''bonus'', ''spin'',
       ''prediksi'', ''bocoran''], WordB]"

text \<open>\<open>rx_zh_1\<close>: the first Chinese pattern, flag i (literals as code units).\<close>

definition rx_zh_1 :: rx where
  "rx_zh_1 =
     cat [WordB, alts [Lit [21338, 24425], Lit [36172, 22330], Lit [36172, 21338], Lit [25237,
       27880], Lit [32769, 34382, 26426], Lit [36718, 30424], Lit [25169, 20811], Lit [30334,
       23478, 20048]], WordB]"

text \<open>\<open>rx_zh_2\<close>: the second Chinese pattern, flag i (literals as code units).\<close>

definition rx_zh_2 :: rx where
  "rx_zh_2 =
     cat [WordB, alts [Lit [25276, 27880], Lit [19979, 27880], Lit [36820, 27700], Lit [24425,
       37329], Lit [22870, 37329], Lit [20248, 24800], Lit [20813, 36153, 26059, 36716]], WordB]"

text \<open>\<open>rx_vi_1\<close>: the first Vietnamese pattern, flag i (letters above 127 as code units).\<close>

definition rx_vi_1 :: rx where
  "rx_vi_1 =
     cat [WordB, alts [cat [Lit (js ''c'' @ [225]), plus_rx sp, Lit (js ''c'' @ [432,
       7907] @ js ''c'')], cat [Lit ([273, 225] @ js ''nh''), plus_rx sp,
       Lit (js ''b'' @ [7841] @ js ''c'')], cat [Lit (js ''s'' @ [242] @ js ''ng''),
       plus_rx sp, Lit (js ''b'' @ [7841] @ js ''c'')], str ''khe'',
       cat [Lit (js ''x'' @ [7893]), plus_rx sp, Lit (js ''s'' @ [7889])],
       Lit (js ''c'' @ [432, 7907] @ js ''c'')], WordB]"

text \<open>\<open>rx_vi_2\<close>: the second Vietnamese pattern, flag i (letters above 127 as code units).\<close>

definition rx_vi_2 :: rx where
  "rx_vi_2 =
     cat [WordB, alts [cat [Lit (js ''ti'' @ [7873] @ js ''n''), plus_rx sp,
       Lit (js ''th'' @ [432, 7903] @ js ''ng'')], cat [str ''quay'', plus_rx sp,
       Lit (js ''mi'' @ [7877] @ js ''n''), plus_rx sp, Lit (js ''ph'' @ [237])],
       cat [Lit ([273, 7863] @ js ''t''), plus_rx sp, Lit (js ''c'' @ [432, 7907] @ js ''c'')],
       Lit (js ''tr'' @ [250] @ js ''ng'')], WordB]"

text \<open>\<open>rx_th_1\<close>: the first Thai pattern, flag i (literals as code units).\<close>

definition rx_th_1 :: rx where
  "rx_th_1 =
     cat [WordB, alts [Lit [3585, 3634, 3619, 3614, 3609, 3633, 3609], Lit [3588, 3634, 3626,
       3636, 3650, 3609], Lit [3626, 3621, 3655, 3629, 3605], Lit [3614, 3609, 3633, 3609],
       Lit [3648, 3604, 3636, 3617, 3614, 3633, 3609], Lit [3649, 3607, 3591]], WordB]"

text \<open>\<open>rx_th_2\<close>: the second Thai pattern, flag i (literals as code units).\<close>

definition rx_th_2 :: rx where
  "rx_th_2 =
     cat [WordB, alts [Lit [3650, 3610, 3609, 3633, 3626], Lit [3615, 3619, 3637, 3626, 3611,
       3636, 3609], Lit [3606, 3629, 3609, 3648, 3591, 3636, 3609], Lit [3613, 3634, 3585,
       3648, 3591, 3636, 3609], Lit [3626, 3617, 3633, 3588, 3619]], WordB]"

text \<open>\<^verbatim>\<open>/[0-9!&@#$?+*_%|]/gi\<close>\<close>

definition rx_leet_chars :: rx where
  "rx_leet_chars =
     cls (rg ''09'' @ sg ''!&@#$?+*_%|'')"

text \<open>\<^verbatim>\<open>/\b([A-Z]?[a-zA-Z_+-]{2,}\d{0,10})((?:\s+\d+)+)\b(?!\.)/g\<close>\<close>

definition rx_merge_1 :: rx where
  "rx_merge_1 =
     cat [WordB, Grp 1 (cat [opt (cls (rg ''AZ'')), atleast 2 (cls (rg ''azAZ'' @ sg ''_+-'')),
       rep 0 10 dg]), Grp 2 (plus_rx (cat [plus_rx sp, plus_rx dg])), WordB, NLook (str ''.'')]"

text \<open>\<^verbatim>\<open>/\d+/g\<close>\<close>

definition rx_digits :: rx where
  "rx_digits =
     plus_rx dg"

text \<open>\<^verbatim>\<open>/\b([A-Z]?[a-zA-Z_+-]{2,}\d{0,10})[\s.-]+(\d+)\b/g\<close>\<close>

definition rx_merge_2 :: rx where
  "rx_merge_2 =
     cat [WordB, Grp 1 (cat [opt (cls (rg ''AZ'')), atleast 2 (cls (rg ''azAZ'' @ sg ''_+-'')),
       rep 0 10 dg]), plus_rx (cls (cs_space @ sg ''.-'')), Grp 2 (plus_rx dg), WordB]"

text \<open>\<^verbatim>\<open>/\b([A-Z]?[a-zA-Z_+-]{2,})\s+(\d+)\s+([a-zA-Z_+-]{2,})\b/g\<close>\<close>

definition rx_merge_3 :: rx where
  "rx_merge_3 =
     cat [WordB, Grp 1 (cat [opt (cls (rg ''AZ'')),
       atleast 2 (cls (rg ''azAZ'' @ sg ''_+-''))]), plus_rx sp, Grp 2 (plus_rx dg),
       plus_rx sp, Grp 3 (atleast 2 (cls (rg ''azAZ'' @ sg ''_+-''))), WordB]"

text \<open>\<^verbatim>\<open>/\b[a-zA-Z]\s+[a-zA-Z]\b/\<close>\<close>

definition rx_separated_1 :: rx where
  "rx_separated_1 =
     cat [WordB, al, plus_rx sp, al, WordB]"

text \<open>\<^verbatim>\<open>/\b[a-zA-Z][^a-zA-Z0-9\s]{1,2}[a-zA-Z]\b/\<close>\<close>

definition rx_separated_2 :: rx where
  "rx_separated_2 =
     cat [WordB, al, rep 1 2 (ncls (rg ''azAZ09'' @ cs_space)), al, WordB]"

text \<open>\<^verbatim>\<open>/\b([a-zA-Z])[\s.*_\-|+=:;,']([a-zA-Z])\b/\<close>\<close>

definition rx_separated_3 :: rx where
  "rx_separated_3 =
     cat [WordB, Grp 1 al, cls (cs_space @ sg ''.*_-|+=:;,'' @ [(39, 39)]), Grp 2 al, WordB]"

text \<open>\<^verbatim>\<open>/\b([a-zA-Z])\s+([a-zA-Z])\s+([a-zA-Z])\s+([a-zA-Z])\b/gi\<close>\<close>

definition rx_recon_1 :: rx where
  "rx_recon_1 =
     cat [WordB, Grp 1 al, plus_rx sp, Grp 2 al, plus_rx sp, Grp 3 al, plus_rx sp, Grp 4 al,
       WordB]"

text \<open>\<^verbatim>\<open>/\b([a-zA-Z])\s+([a-zA-Z])\s+([a-zA-Z])\b/gi\<close>\<close>

definition rx_recon_2 :: rx where
  "rx_recon_2 =
     cat [WordB, Grp 1 al, plus_rx sp, Grp 2 al, plus_rx sp, Grp 3 al, WordB]"

text \<open>\<^verbatim>\<open>/\b([a-zA-Z])\s+([a-zA-Z])\b/gi\<close>\<close>

definition rx_recon_3 :: rx where
  "rx_recon_3 =
     cat [WordB, Grp 1 al, plus_rx sp, Grp 2 al, WordB]"

text \<open>\<^verbatim>\<open>/\b([a-zA-Z])[.\-_*|+=:;,']([a-zA-Z])\b/gi\<close>\<close>

definition rx_recon_4 :: rx where
  "rx_recon_4 =
     cat [WordB, Grp 1 al, cls (sg ''.-_*|+=:;,'' @ [(39, 39)]), Grp 2 al, WordB]"

text \<open>\<^verbatim>\<open>/\b([a-zA-Z])[.\-_*|+=:;,']([a-zA-Z])[.\-_*|+=:;,']([a-zA-Z])\b/gi\<close>\<close>

definition rx_recon_5 :: rx where
  "rx_recon_5 =
     cat [WordB, Grp 1 al, cls (sg ''.-_*|+=:;,'' @ [(39, 39)]), Grp 2 al,
       cls (sg ''.-_*|+=:;,'' @ [(39, 39)]), Grp 3 al, WordB]"

text \<open>\<^verbatim>\<open>/\b([a-zA-Z])[.\-_*|+=:;,']([a-zA-Z])[.\-_*|+=:;,']([a-zA-Z])[.\-_*|+=:;,']/g\<close>\<close>

definition separatedWordPattern :: rx where
  "separatedWordPattern =
     cat [WordB, Grp 1 al, cls (sg ''.-_*|+=:;,'' @ [(39, 39)]), Grp 2 al,
       cls (sg ''.-_*|+=:;,'' @ [(39, 39)]), Grp 3 al, cls (sg ''.-_*|+=:;,'' @ [(39, 39)])]"

text \<open>\<^verbatim>\<open>/\b([a-zA-Z])([.\-_*|+=:;,'])([a-zA-Z])([.\-_*|+=:;,'])([a-zA-Z])([.\-_*|+=:;,'])([a-zA-Z])\b/gi\<close>\<close>

definition rx_recon_7 :: rx where
  "rx_recon_7 =
     cat [WordB, Grp 1 al, Grp 2 (cls (sg ''.-_*|+=:;,'' @ [(39, 39)])), Grp 3 al,
       Grp 4 (cls (sg ''.-_*|+=:;,'' @ [(39, 39)])), Grp 5 al,
       Grp 6 (cls (sg ''.-_*|+=:;,'' @ [(39, 39)])), Grp 7 al, WordB]"

text \<open>\<open>emojiPattern\<close>: the class of the code units of the listed emoji (a pair of surrogates each), flag g.\<close>

definition emojiPattern :: rx where
  "emojiPattern =
     cls [(9824, 9824), (9827, 9827), (9829, 9830), (9917, 9917), (10024, 10024), (11088,
       11088), (55356, 55358), (56324, 56324), (56396, 56397), (56399, 56399), (56401, 56401),
       (56462, 56462), (56496, 56498), (56500, 56505), (56520, 56522), (56527, 56527), (56596,
       56596), (56600, 56601), (56605, 56605), (56610, 56610), (56613, 56613), (56647, 56649),
       (56807, 56807), (56834, 56834), (56845, 56846), (56960, 56960), (57216, 57217), (57238,
       57239), (57247, 57247), (57256, 57256), (57258, 57268), (57277, 57278), (57280, 57280),
       (57285, 57286), (57288, 57289), (57339, 57339), (65039, 65039)]"

text \<open>\<open>gamblingEmojiPattern\<close>: the class of the code units of the listed emoji, flag g.\<close>

definition gamblingEmojiPattern :: rx where
  "gamblingEmojiPattern =
     cls [(9824, 9824), (9827, 9827), (9829, 9830), (11088, 11088), (55356, 55358), (56324,
       56324), (56496, 56498), (56501, 56501), (56504, 56505), (56527, 56527), (56605, 56605),
       (56613, 56613), (56807, 56807), (56960, 56960), (57247, 57247), (57256, 57256), (57258,
       57261), (57263, 57266), (57268, 57268), (57286, 57286), (65039, 65039)]"

text \<open>\<^verbatim>\<open>/\b[A-Z][0-9][A-Z0-9]{2,}\b|\b[A-Z]{2,}[0-9]{2,}\b/g\<close>\<close>

definition codePattern :: rx where
  "codePattern =
     alts [cat [WordB, cls (rg ''AZ''), cls (rg ''09''), atleast 2 (cls (rg ''AZ09'')), WordB],
       cat [WordB, atleast 2 (cls (rg ''AZ'')), atleast 2 (cls (rg ''09'')), WordB]]"

text \<open>\<^verbatim>\<open>/\b[Ss][1l][0Oo][Tt]\b|\b[Bb][0Oo][0Oo][Nn][Uu][Ss]\b|\b[Jj][4Aa][Cc][Kk][Pp][0Oo][Tt]\b|\b[Bb][3Ee][Tt]\b|\b[Ww][1lI][Nn]\b|\b[Cc][4Aa][Ss][1lI][Nn][0Oo]\b|\b[Pp][0Oo][Kk][3Ee][Rr]\b/g\<close>\<close>

definition gamblingCodePattern :: rx where
  "gamblingCodePattern =
     alts [cat [WordB, cls (sg ''Ss''), cls (sg ''1l''), cls (sg ''0Oo''), cls (sg ''Tt''),
       WordB], cat [WordB, cls (sg ''Bb''), cls (sg ''0Oo''), cls (sg ''0Oo''),
       cls (sg ''Nn''), cls (sg ''Uu''), cls (sg ''Ss''), WordB], cat [WordB, cls (sg ''Jj''),
       cls (sg ''4Aa''), cls (sg ''Cc''), cls (sg ''Kk''), cls (sg ''Pp''), cls (sg ''0Oo''),
       cls (sg ''Tt''), WordB], cat [WordB, cls (sg ''Bb''), cls (sg ''3Ee''), cls (sg ''Tt''),
       WordB], cat [WordB, cls (sg ''Ww''), cls (sg ''1lI''), cls (sg ''Nn''), WordB],
       cat [WordB, cls (sg ''Cc''), cls (sg ''4Aa''), cls (sg ''Ss''), cls (sg ''1lI''),
       cls (sg ''Nn''), cls (sg ''0Oo''), WordB], cat [WordB, cls (sg ''Pp''),
       cls (sg ''0Oo''), cls (sg ''Kk''), cls (sg ''3Ee''), cls (sg ''Rr''), WordB]]"

text \<open>\<^verbatim>\<open>/\b(?:min(?:imum)?\s*dep(?:osit)?|min\s*wd|wd\s*min)\b.*?(?:\d+[kK]?|ribu|juta|rb)/i\<close>\<close>

definition rx_money_1 :: rx where
  "rx_money_1 =
     cat [WordB, alts [cat [str ''min'', opt (str ''imum''), star sp, str ''dep'',
       opt (str ''osit'')], cat [str ''min'', star sp, str ''wd''], cat [str ''wd'', star sp,
       str ''min'']], WordB, lazy_star Dot, alts [cat [plus_rx dg, opt (cls (sg ''kK''))],
       str ''ribu'', str ''juta'', str ''rb'']]"

text \<open>\<^verbatim>\<open>/\b(?:deposit|withdrawal|cashout|bayar)\b.*?(?:\d+[kK]?|ribu|juta|rb)/i\<close>\<close>

definition rx_money_2 :: rx where
  "rx_money_2 =
     cat [WordB, strs [''deposit'', ''withdrawal'', ''cashout'', ''bayar''], WordB,
       lazy_star Dot, alts [cat [plus_rx dg, opt (cls (sg ''kK''))], str ''ribu'',
       str ''juta'', str ''rb'']]"

text \<open>\<^verbatim>\<open>/\b(?:bonus|promo|free)\b.*?(?:\d+%|\d+[kK]?|ribu|juta|rb)/i\<close>\<close>

definition rx_money_3 :: rx where
  "rx_money_3 =
     cat [WordB, strs [''bonus'', ''promo'', ''free''], WordB, lazy_star Dot,
       alts [cat [plus_rx dg, str ''%''], cat [plus_rx dg, opt (cls (sg ''kK''))],
       str ''ribu'', str ''juta'', str ''rb'']]"

text \<open>\<^verbatim>\<open>/\b(?:win|menang|dapat|untung)\b.*?(?:\d+[xX]|\d+[kK]?|ribu|juta|rb)/i\<close>\<close>

definition rx_money_4 :: rx where
  "rx_money_4 =
     cat [WordB, strs [''win'', ''menang'', ''dapat'', ''untung''], WordB, lazy_star Dot,
       alts [cat [plus_rx dg, cls (sg ''xX'')], cat [plus_rx dg, opt (cls (sg ''kK''))],
       str ''ribu'', str ''juta'', str ''rb'']]"

text \<open>\<^verbatim>\<open>/\b(?:today|hari\s*ini|sekarang|now|langsung)\b.*?(?:bonus|promo|free)/i\<close>\<close>

definition rx_time_1 :: rx where
  "rx_time_1 =
     cat [WordB, alts [str ''today'', cat [str ''hari'', star sp, str ''ini''],
       str ''sekarang'', str ''now'', str ''langsung''], WordB, lazy_star Dot, strs [''bonus'',
       ''promo'', ''free'']]"

text \<open>\<^verbatim>\<open>/\b(?:limited|terbatas|hanya|only)\b.*?(?:time|waktu|hari|jam)/i\<close>\<close>

definition rx_time_2 :: rx where
  "rx_time_2 =
     cat [WordB, strs [''limited'', ''terbatas'', ''hanya'', ''only''], WordB, lazy_star Dot,
       strs [''time'', ''waktu'', ''hari'', ''jam'']]"

text \<open>\<^verbatim>\<open>/\b(?:cs|customer\s*service|layanan\s*pelanggan|admin|help\s*desk)\b/i\<close>\<close>

definition rx_cs_1 :: rx where
  "rx_cs_1 =
     cat [WordB, alts [str ''cs'', cat [str ''customer'', star sp, str ''service''],
       cat [str ''layanan'', star sp, str ''pelanggan''], str ''admin'', cat [str ''help'',
       star sp, str ''desk'']], WordB]"

text \<open>\<^verbatim>\<open>/\b(?:wa|whatsapp|telegram|line|chat)\b.*?(?:\d{4,}|online|24\s*(?:jam|hours))/i\<close>\<close>

definition rx_cs_2 :: rx where
  "rx_cs_2 =
     cat [WordB, strs [''wa'', ''whatsapp'', ''telegram'', ''line'', ''chat''], WordB,
       lazy_star Dot, alts [atleast 4 dg, str ''online'', cat [str ''24'', star sp,
       strs [''jam'', ''hours'']]]]"

text \<open>\<^verbatim>\<open>/\b(?:kontak|contact|hubungi)\b.*?(?:wa|whatsapp|telegram|line|chat)/i\<close>\<close>

definition rx_cs_3 :: rx where
  "rx_cs_3 =
     cat [WordB, strs [''kontak'', ''contact'', ''hubungi''], WordB, lazy_star Dot,
       strs [''wa'', ''whatsapp'', ''telegram'', ''line'', ''chat'']]"

text \<open>\<^verbatim>\<open>/\b(?:bank|bca|bni|bri|mandiri|dana|ovo|gopay|linkaja|pulsa|e-wallet|wallet|dompet|payment|pembayaran)\b/i\<close>\<close>

definition rx_pay_1 :: rx where
  "rx_pay_1 =
     cat [WordB, strs [''bank'', ''bca'', ''bni'', ''bri'', ''mandiri'', ''dana'', ''ovo'',
       ''gopay'', ''linkaja'', ''pulsa'', ''e-wallet'', ''wallet'', ''dompet'', ''payment'',
       ''pembayaran''], WordB]"

text \<open>\<^verbatim>\<open>/\b(?:all\s*bank|semua\s*bank|bank\s*lokal|local\s*bank)\b/i\<close>\<close>

definition rx_pay_2 :: rx where
  "rx_pay_2 =
     cat [WordB, alts [cat [str ''all'', star sp, str ''bank''], cat [str ''semua'', star sp,
       str ''bank''], cat [str ''bank'', star sp, str ''lokal''], cat [str ''local'', star sp,
       str ''bank'']], WordB]"

text \<open>\<^verbatim>\<open>/\b[a-zA-Z]*[0-9!@#$%^&*][a-zA-Z0-9!@#$%^&*]*[a-zA-Z]+[a-zA-Z0-9!@#$%^&*]*\b/g\<close>\<close>

definition rx_subst_1 :: rx where
  "rx_subst_1 =
     cat [WordB, star al, cls (rg ''09'' @ sg ''!@#$%^&*''),
       star (cls (rg ''azAZ09'' @ sg ''!@#$%^&*'')), plus_rx al,
       star (cls (rg ''azAZ09'' @ sg ''!@#$%^&*'')), WordB]"

text \<open>\<^verbatim>\<open>/\b[a-zA-Z]+[0-9]{3,}\b/g\<close>\<close>

definition rx_subst_2 :: rx where
  "rx_subst_2 =
     cat [WordB, plus_rx al, atleast 3 (cls (rg ''09'')), WordB]"

text \<open>\<^verbatim>\<open>/\s{2,}/\<close>\<close>

definition rx_two_spaces :: rx where
  "rx_two_spaces =
     atleast 2 sp"

text \<open>\<^verbatim>\<open>/[a-zA-Z]\s[a-zA-Z]\s[a-zA-Z]/\<close>\<close>

definition rx_spaced_letters :: rx where
  "rx_spaced_letters =
     cat [al, sp, al, sp, al]"

text \<open>\<^verbatim>\<open>/[a-z][A-Z]|[A-Z][a-z][A-Z]/\<close>\<close>

definition rx_mixed_case :: rx where
  "rx_mixed_case =
     alts [cat [cls (rg ''az''), cls (rg ''AZ'')], cat [cls (rg ''AZ''), cls (rg ''az''),
       cls (rg ''AZ'')]]"

text \<open>\<^verbatim>\<open>/\b\w{4,}\b/g\<close>\<close>

definition rx_long_words :: rx where
  "rx_long_words =
     cat [WordB, atleast 4 wd, WordB]"

text \<open>\<^verbatim>\<open>/\b(?:wa|whatsapp|w4|wea)[\s.:]*(?:\+?\d{8,15}|\+?\d{2,4}[-\s]?\d{2,4}[-\s]?\d{2,5})\b/gi\<close>\<close>

definition rx_whatsapp :: rx where
  "rx_whatsapp =
     cat [WordB, strs [''wa'', ''whatsapp'', ''w4'', ''wea''],
       star (cls (cs_space @ sg ''.:'')), alts [cat [opt (str ''+''), rep 8 15 dg],
       cat [opt (str ''+''), rep 2 4 dg, opt (cls (sg ''-'' @ cs_space)), rep 2 4 dg,
       opt (cls (sg ''-'' @ cs_space)), rep 2 5 dg]], WordB]"

text \<open>\<^verbatim>\<open>/\b(?:telegram|tele|t\.me|tg)[\s.:]*(?:@\w+|\+?\d{8,15})/gi\<close>\<close>

definition rx_telegram :: rx where
  "rx_telegram =
     cat [WordB, strs [''telegram'', ''tele'', ''t.me'', ''tg''],
       star (cls (cs_space @ sg ''.:'')), alts [cat [str ''@'', plus_rx wd],
       cat [opt (str ''+''), rep 8 15 dg]]]"

text \<open>\<^verbatim>\<open>/\b(?:tel|telp|hp|phone|hubungi|call)[\s.:]*(?:\+?\d{8,15}|\+?\d{2,4}[-\s]?\d{2,4}[-\s]?\d{2,5})\b/gi\<close>\<close>

definition rx_phone :: rx where
  "rx_phone =
     cat [WordB, strs [''tel'', ''telp'', ''hp'', ''phone'', ''hubungi'', ''call''],
       star (cls (cs_space @ sg ''.:'')), alts [cat [opt (str ''+''), rep 8 15 dg],
       cat [opt (str ''+''), rep 2 4 dg, opt (cls (sg ''-'' @ cs_space)), rep 2 4 dg,
       opt (cls (sg ''-'' @ cs_space)), rep 2 5 dg]], WordB]"

text \<open>\<^verbatim>\<open>/\b(?:ig|instagram|insta)[\s.:]*(?:@\w+|\w+)/gi\<close>\<close>

definition rx_instagram :: rx where
  "rx_instagram =
     cat [WordB, strs [''ig'', ''instagram'', ''insta''], star (cls (cs_space @ sg ''.:'')),
       alts [cat [str ''@'', plus_rx wd], plus_rx wd]]"

text \<open>\<^verbatim>\<open>/\b(?:line|ln)[\s.:]*(?:@\w+|\w+)/gi\<close>\<close>

definition rx_line :: rx where
  "rx_line =
     cat [WordB, strs [''line'', ''ln''], star (cls (cs_space @ sg ''.:'')),
       alts [cat [str ''@'', plus_rx wd], plus_rx wd]]"

text \<open>\<^verbatim>\<open>/\b(?:https?:\/\/)?(?:www\.)?([a-zA-Z0-9-]+)(?:\.[a-zA-Z0-9-]+)+(?:\/[^\s]*)?/gi\<close>\<close>

definition rx_website :: rx where
  "rx_website =
     cat [WordB, opt (cat [str ''http'', opt (str ''s''), str ''://'']), opt (str ''www.''),
       Grp 1 (plus_rx (cls (rg ''azAZ09'' @ sg ''-''))), plus_rx (cat [str ''.'',
       plus_rx (cls (rg ''azAZ09'' @ sg ''-''))]), opt (cat [str ''/'', star (ncls cs_space)])]"

text \<open>\<^verbatim>\<open>/\n/g\<close>\<close>

definition rx_newline :: rx where
  "rx_newline =
     Lit [10]"

text \<open>\<^verbatim>\<open>/\./g\<close>\<close>

definition rx_period :: rx where
  "rx_period =
     str ''.''"

text \<open>\<^verbatim>\<open>/\b([A-Z]?[a-zA-Z_+-]{2,}\d{2,10}\b(?!\.))|(slot|casino|gambling|bet|poker|jackpot|joker|zeus|toto|judi)(?:[a-zA-Z_+-]{0,4}[a-zA-Z])?/gi\<close>\<close>

definition standardPatternRegex :: rx where
  "standardPatternRegex =
     alts [cat [WordB, Grp 1 (cat [opt (cls (rg ''AZ'')),
       atleast 2 (cls (rg ''azAZ'' @ sg ''_+-'')), rep 2 10 dg, WordB, NLook (str ''.'')])],
       cat [Grp 2 (strs [''slot'', ''casino'', ''gambling'', ''bet'', ''poker'', ''jackpot'',
       ''joker'', ''zeus'', ''toto'', ''judi'']),
       opt (cat [rep 0 4 (cls (rg ''azAZ'' @ sg ''_+-'')), al])]]"

text \<open>\<^verbatim>\<open>/\b[a-zA-Z]{2,3}\d{1,5}\b/gi\<close>\<close>

definition rx_short_code :: rx where
  "rx_short_code =
     cat [WordB, rep 2 3 al, rep 1 5 dg, WordB]"

text \<open>\<^verbatim>\<open>/\b[a-zA-Z]{3,}\d{2,}\b/gi\<close>\<close>

definition rx_long_code :: rx where
  "rx_long_code =
     cat [WordB, atleast 3 al, atleast 2 dg, WordB]"

text \<open>\<^verbatim>\<open>/\b[a-zA-Z]{3,}\d{2,5}\b/gi\<close>\<close>

definition rx_site_id :: rx where
  "rx_site_id =
     cat [WordB, atleast 3 al, rep 2 5 dg, WordB]"

section \<open>Text normalisation\<close>

definition cleanText :: "unicode \<Rightarrow> jsstring \<Rightarrow> jsstring" where
  "cleanText U text =
     normalizeNFKC U (replace_all U False rx_diacritics (\<lambda>m cs. []) (normalizeNFKD U text))"

text \<open>
  \<open>isMostlyAsciiGarbage(text, threshold = 0.6)\<close>: an omitted threshold is \<open>None\<close>.
\<close>

definition isMostlyAsciiGarbage :: "unicode \<Rightarrow> jsval \<Rightarrow> rat option \<Rightarrow> bool" where
  "isMostlyAsciiGarbage U text threshold =
     (case text of
        JStr s \<Rightarrow>
          if s = [] then False
          else
            let garbageMatches = match_all U False asciiGarbageRegex s;
                ratio = of_nat (length garbageMatches) / of_nat (length s)
            in ratio \<ge> (case threshold of None \<Rightarrow> 6 / 10 | Some t \<Rightarrow> t)
      | _ \<Rightarrow> False)"

fun phrases :: "jsstring list \<Rightarrow> jsstring list" where
  "phrases (a # b # c # ws) = (a @ js '' '' @ b @ js '' '' @ c) # phrases (b # c # ws)"
| "phrases ws = []"

definition hasAbnormalRepetition :: "unicode \<Rightarrow> jsstring \<Rightarrow> rat option \<Rightarrow> bool" where
  "hasAbnormalRepetition U text threshold =
     (if text = [] \<or> length text < 5 then False
      else
        let repeatedChars = match_all U False rx_repeated_chars text in
        if repeatedChars \<noteq> [] \<and>
           of_nat (length (concat repeatedChars)) / of_nat (length text)
             > (case threshold of None \<Rightarrow> 4 / 10 | Some t \<Rightarrow> t)
        then True
        else
          let words = match_all U False rx_words (toLowerCase U text);
              uniqueWords = set_of words
          in
          if length words \<ge> 5 \<and> of_nat (length uniqueWords) / of_nat (length words) < (5 / 10 :: rat)
          then True
          else if length words \<ge> 9 \<and>
                  (let ps = phrases words;
                       uniquePhrases = set_of ps
                   in length ps \<ge> 3 \<and>
                      of_nat (length uniquePhrases) / of_nat (length ps) < (7 / 10 :: rat))
          then True
          else False)"

section \<open>The fuzzy matcher\<close>

definition substitutionMap :: "(jschar \<times> jschar) list" where
  "substitutionMap = zip (js ''1234567890!&@#'') (js ''izeasgtbgoieah'')"

definition fuzzy_normalize :: "unicode \<Rightarrow> jsstring \<Rightarrow> jsstring" where
  "fuzzy_normalize U text =
     map (\<lambda>c. case map_of substitutionMap c of None \<Rightarrow> c | Some r \<Rightarrow> r) (toLowerCase U text)"

text \<open>
  One row of the distance table: \<open>ai\<close> is \<open>a[i-1]\<close>, \<open>ai2\<close> is \<open>a[i-2]\<close>, \<open>bp\<close> is
  \<open>b[j-2]\<close>, \<open>left\<close> is \<open>curr[j-1]\<close>, \<open>p2\<close> and \<open>p1\<close> are \<open>prev[j-2]\<close> and
  \<open>prev[j-1]\<close>, followed by the rest of \<open>prev\<close> and of \<open>b\<close>.
\<close>

fun lev_cols ::
  "jschar \<Rightarrow> jschar option \<Rightarrow> jschar option \<Rightarrow> int \<Rightarrow> int option \<Rightarrow> int \<Rightarrow> int list \<Rightarrow> jsstring \<Rightarrow>
     int list" where
  "lev_cols ai ai2 bp left p2 p1 (pj # ps) (bj # bs) =
     (let cost = (if ai = bj then 0 else 1);
          v = min (min (left + 1) (pj + 1)) (p1 + cost);
          w = (case (ai2, bp, p2) of
                 (Some a2, Some b2, Some q) \<Rightarrow> if ai = b2 \<and> a2 = bj then min v (q + 1) else v
               | _ \<Rightarrow> v)
      in w # lev_cols ai ai2 (Some bj) w (Some p1) pj ps bs)"
| "lev_cols ai ai2 bp left p2 p1 ps bs = []"

fun lev_rows :: "int \<Rightarrow> jschar option \<Rightarrow> int list \<Rightarrow> jsstring \<Rightarrow> jsstring \<Rightarrow> int list" where
  "lev_rows i ai2 prev [] b = prev"
| "lev_rows i ai2 prev (ai # as) b =
     lev_rows (i + 1) (Some ai) (i # lev_cols ai ai2 None i None (hd prev) (tl prev) b) as b"

definition levenshtein :: "int \<Rightarrow> jsstring \<Rightarrow> jsstring \<Rightarrow> int" where
  "levenshtein maxDistance a b =
     (if a = b then 0
      else if a = [] then int (length b)
      else if b = [] then int (length a)
      else if \<bar>int (length a) - int (length b)\<bar> > maxDistance then maxDistance + 1
      else last (lev_rows 1 None (map int [0 ..< Suc (length b)]) a b))"

definition calculateScore :: "jsstring \<Rightarrow> jsstring \<Rightarrow> int \<Rightarrow> rat" where
  "calculateScore q i d =
     (if d = 0 then 1
      else
        let maxLength = max (length q) (length i);
            baseScore = 1 - of_int d / of_nat maxLength;
            containsBonus = (if includes_str i q then 1 / 10 else 0);
            prefixBonus = (if startsWith i q then 2 / 10 else 0)
        in min 1 (baseScore + containsBonus + prefixBonus))"

datatype fuzzymatch =
  Fuzzy (matched_word: jsstring) (matched_with: jsstring) (score: rat)

text \<open>\<open>results.sort((a, b) => b.score - a.score)\<close>: a stable sort, highest score first.\<close>

fun insert_by_score :: "fuzzymatch \<Rightarrow> fuzzymatch list \<Rightarrow> fuzzymatch list" where
  "insert_by_score x [] = [x]"
| "insert_by_score x (y # ys) =
     (if score y \<ge> score x then y # insert_by_score x ys else x # y # ys)"

definition sort_by_score :: "fuzzymatch list \<Rightarrow> fuzzymatch list" where
  "sort_by_score xs = foldl (\<lambda>sorted x. insert_by_score x sorted) [] xs"

text \<open>
  The inner loop over the list for one word of the query. An item that is not a string
  has no method \<open>toLowerCase\<close>: \<open>normalize(item)\<close> raises a type error.
\<close>

fun fuzzy_items ::
  "unicode \<Rightarrow> int \<Rightarrow> rat \<Rightarrow> jsstring \<Rightarrow> jsval list \<Rightarrow> error + fuzzymatch list" where
  "fuzzy_items U maxDistance minScore word [] = Inr []"
| "fuzzy_items U maxDistance minScore word (item # items) =
     (case item of
        JStr it \<Rightarrow>
          (let normalizedItem = fuzzy_normalize U it;
               distance = levenshtein maxDistance word normalizedItem;
               sc = calculateScore word normalizedItem distance
           in case fuzzy_items U maxDistance minScore word items of
                Inl e \<Rightarrow> Inl e
              | Inr rs \<Rightarrow>
                  Inr (if distance \<le> maxDistance \<and> sc \<ge> minScore
                       then Fuzzy word it (toFixed 3 sc) # rs else rs))
      | _ \<Rightarrow> Inl (TypeError NotAFunction))"

fun fuzzy_words ::
  "unicode \<Rightarrow> int \<Rightarrow> rat \<Rightarrow> jsval list \<Rightarrow> jsstring list \<Rightarrow> error + fuzzymatch list" where
  "fuzzy_words U maxDistance minScore list [] = Inr []"
| "fuzzy_words U maxDistance minScore list (word # ws) =
     (case fuzzy_items U maxDistance minScore word list of
        Inl e \<Rightarrow> Inl e
      | Inr rs \<Rightarrow>
          (case fuzzy_words U maxDistance minScore list ws of
             Inl e \<Rightarrow> Inl e
           | Inr rs' \<Rightarrow> Inr (rs @ rs')))"

text \<open>
  \<open>fuzzySearch(list, query, maxDistance = 2, minScore = 0.5)\<close>: an omitted argument is
  \<open>None\<close>.
\<close>

definition fuzzySearch ::
  "unicode \<Rightarrow> jsval \<Rightarrow> jsval \<Rightarrow> int option \<Rightarrow> rat option \<Rightarrow> error + fuzzymatch list" where
  "fuzzySearch U list query maxDistance minScore =
     (case list of
        JArr items \<Rightarrow>
          (case query of
             JStr q \<Rightarrow>
               if trim q = [] then Inr []
               else
                 (case fuzzy_words U (case maxDistance of None \<Rightarrow> 2 | Some d \<Rightarrow> d)
                         (case minScore of None \<Rightarrow> 5 / 10 | Some m \<Rightarrow> m) items
                         (split_rx U False rx_spaces (fuzzy_normalize U q)) of
                    Inl e \<Rightarrow> Inl e
                  | Inr results \<Rightarrow> Inr (sort_by_score results))
           | _ \<Rightarrow> Inl (TypeError QueryNotString))
      | _ \<Rightarrow> Inl (TypeError ListNotArray))"

text \<open>The calls inside \<open>detect\<close>: a list of strings and a string, both optional arguments omitted.\<close>

definition fuzzySearchStrings :: "unicode \<Rightarrow> jsstring list \<Rightarrow> jsstring \<Rightarrow> fuzzymatch list" where
  "fuzzySearchStrings U list query =
     (case fuzzySearch U (JArr (map JStr list)) (JStr query) None None of
        Inl e \<Rightarrow> []
      | Inr results \<Rightarrow> results)"

section \<open>Cleaning passes\<close>

text \<open>
  The entries of \<open>charMap\<close> in the order of \<open>Object.entries\<close>: the keys that are array
  indices in ascending order, then the others in the order they are written.
\<close>

definition charMap :: "(jschar \<times> jschar) list" where
  "charMap = zip (js ''013456789'' @ [162, 8364, 163, 165] @ js ''@'')
                 (js ''oieasgtbg'' @ js ''cely'' @ js ''a'')"

definition cleanWeirdPatterns :: "unicode \<Rightarrow> jsstring \<Rightarrow> jsstring" where
  "cleanWeirdPatterns U text =
     (let t1 = trim (replace_all U False rx_spaces (\<lambda>m cs. js '' '') text);
          t2 = replace_all U False rx_dot_between (\<lambda>m cs. cap cs 1 @ cap cs 2) t1;
          t3 = replace_all U False rx_sep_between (\<lambda>m cs. cap cs 1 @ cap cs 2) t2;
          t4 = replace_all U False rx_spaced_triplet (\<lambda>m cs. cap cs 1 @ cap cs 2 @ cap cs 3) t3
      in foldl (\<lambda>t (c, r). replace_all U False (Lit [c]) (\<lambda>m cs. [r]) t) t4 charMap)"

definition combineShortWords :: "unicode \<Rightarrow> jsstring \<Rightarrow> jsstring" where
  "combineShortWords U text =
     (let r1 = replace_all U False rx_short_pair (\<lambda>m cs. cap cs 1 @ cap cs 2) text;
          r2 = replace_all U False rx_short_pair (\<lambda>m cs. cap cs 1 @ cap cs 2) r1
      in replace_all U False rx_short_triple (\<lambda>m cs. cap cs 1 @ cap cs 2 @ cap cs 3) r2)"

section \<open>Signal detectors\<close>

definition url_patterns :: "rx list" where
  "url_patterns = [rx_url_1, rx_url_2, rx_url_3, rx_url_4, rx_url_5, rx_url_6, rx_url_7,
     rx_url_8, rx_url_9]"

definition commonTLDs :: "jsstring list" where
  "commonTLDs = map js [''com'', ''net'', ''org'', ''io'', ''co'', ''xyz'', ''site'', ''online'',
     ''app'', ''vip'', ''biz'']"

definition hasSuspiciousUrlPatterns :: "unicode \<Rightarrow> jsstring \<Rightarrow> bool" where
  "hasSuspiciousUrlPatterns U text =
     (let potentialDomains =
            map (\<lambda>cs. cap cs 1 @ js ''.'' @ cap cs 2)
              (captures_of (scan U False domainPattern None 0 text));
          hasSuspiciousDomain =
            list_ex (\<lambda>domain.
               let parts = split_char 46 [] domain in
               if length parts < 2 then False
               else replace_first U False rx_trailing_space (\<lambda>m cs. [])
                      (toLowerCase U (last parts)) \<in> set commonTLDs)
              potentialDomains
      in list_ex (\<lambda>pattern. test U True pattern text) url_patterns \<or> hasSuspiciousDomain)"

text \<open>
  The language selector: the five keys of the pattern table, \<open>all\<close>, and any other
  string, which selects nothing.
\<close>

datatype language = LangAll | LangEn | LangId | LangZh | LangVi | LangTh | LangOther

fun language_patterns :: "language \<Rightarrow> rx list" where
  "language_patterns LangEn = [rx_en_1, rx_en_2, rx_en_3]"
| "language_patterns LangId = [rx_id_1, rx_id_2, rx_id_3]"
| "language_patterns LangZh = [rx_zh_1, rx_zh_2]"
| "language_patterns LangVi = [rx_vi_1, rx_vi_2]"
| "language_patterns LangTh = [rx_th_1, rx_th_2]"
| "language_patterns l = []"

text \<open>
  \<open>text.match(pattern)\<close> without the flag \<open>g\<close>: the match followed by its captures, the
  empty list for \<open>null\<close>. The language patterns have no capture group.
\<close>

definition match_first :: "unicode \<Rightarrow> bool \<Rightarrow> rx \<Rightarrow> jsstring \<Rightarrow> jsstring list" where
  "match_first U ic r s =
     (case exec U ic r s of None \<Rightarrow> [] | Some (m, cs) \<Rightarrow> m # map (cap cs) (groups r))"

record scored =
  sc_score :: rat
  sc_items :: "jsstring list"

definition detectLanguageSpecificPatterns :: "unicode \<Rightarrow> jsstring \<Rightarrow> language \<Rightarrow> scored" where
  "detectLanguageSpecificPatterns U text lang =
     (let languagesToCheck =
            (if lang = LangAll then [LangEn, LangId, LangZh, LangVi, LangTh] else [lang])
      in foldl (\<lambda>result pattern.
                  let matches = match_first U True pattern text in
                  if matches \<noteq> []
                  then \<lparr> sc_score = sc_score result + 3 / 10 * of_nat (length matches),
                         sc_items = sc_items result @ matches \<rparr>
                  else result)
           \<lparr> sc_score = 0, sc_items = [] \<rparr>
           (concat (map language_patterns languagesToCheck)))"

definition leetMap :: "(jschar \<times> jschar) list" where
  "leetMap = zip (js ''1234567890!&@#$?+*_%|'') (js ''izeasgtbgoieahsqtxlol'')"

definition convertCommentFixed :: "unicode \<Rightarrow> jsstring \<Rightarrow> nat \<Rightarrow> jsstring" where
  "convertCommentFixed U comment ignoreLastDigits =
     replace_all U False rx_words
       (\<lambda>word cs.
          let len = length word in
          if len \<le> ignoreLastDigits then word
          else
            let convertPart = take (len - ignoreLastDigits) word;
                remainPart = drop (len - ignoreLastDigits) word;
                converted =
                  replace_all U True rx_leet_chars
                    (\<lambda>m cs. case toLowerCase U m of
                               [c] \<Rightarrow> (case map_of leetMap c of None \<Rightarrow> m | Some r \<Rightarrow> [r])
                             | _ \<Rightarrow> m)
                    convertPart
            in converted @ remainPart)
       comment"

definition mergeTextWithTrailingNumbers :: "unicode \<Rightarrow> jsstring \<Rightarrow> jsstring" where
  "mergeTextWithTrailingNumbers U text =
     (let t1 = replace_all U False rx_merge_1
                 (\<lambda>m cs. cap cs 1 @ concat (match_all U False rx_digits (cap cs 2))) text;
          t2 = replace_all U False rx_merge_2 (\<lambda>m cs. cap cs 1 @ cap cs 2) t1
      in replace_all U False rx_merge_3 (\<lambda>m cs. cap cs 1 @ cap cs 2 @ cap cs 3) t2)"

section \<open>Pattern construction\<close>

text \<open>
  Every character of a term is escaped before the terms are joined with \<open>|\<close>, so each
  term stands for itself; \<open>null\<close> is \<open>None\<close>.
\<close>

definition createPatternRegex :: "jsstring list \<Rightarrow> bool \<Rightarrow> rx option" where
  "createPatternRegex terms loose =
     (if terms = [] then None
      else if loose then
        Some (cat [opt (cat [cls (rg ''azAZ09''), rep 0 4 (cls (rg ''azAZ09'' @ sg ''_+-''))]),
                   alts (map Lit terms),
                   opt (cat [rep 0 4 (cls (rg ''azAZ09'' @ sg ''_+-'')), cls (rg ''azAZ09'')]),
                   star dg])
      else
        Some (cat [WordB,
                   opt (cat [al, rep 0 4 (cls (rg ''azAZ'' @ sg ''_+-''))]),
                   alts (map Lit terms),
                   opt (cat [rep 0 4 (cls (rg ''azAZ'' @ sg ''_+-'')), al]),
                   star dg]))"

text \<open>
  \<open>TinyPatternRegex\<close> joins the terms with \<open>|\<close> without a group around them: the prefix
  belongs to the first alternative and the suffixes to the last.
\<close>

definition TinyPatternRegex :: "jsstring list \<Rightarrow> rx option" where
  "TinyPatternRegex terms =
     (let prefix = opt (Grp 1 (rep 2 10 al));
          suffix = cat [opt (Grp 2 (rep 2 10 al)), opt (rep 2 5 (cls (rg ''09'')))]
      in case terms of
           [] \<Rightarrow> None
         | [t] \<Rightarrow> Some (cat [prefix, Lit t, suffix])
         | t # ts \<Rightarrow>
             Some (alts (Seq prefix (Lit t) # map Lit (butlast ts) @ [Seq (Lit (last ts)) suffix])))"

section \<open>Word separation\<close>

definition hasSeparatedWords :: "unicode \<Rightarrow> jsstring \<Rightarrow> bool" where
  "hasSeparatedWords U text =
     (test U False rx_separated_1 text \<or> test U False rx_separated_2 text \<or>
      test U False rx_separated_3 text)"

definition reconstructSeparatedWords :: "unicode \<Rightarrow> jsstring \<Rightarrow> jsstring" where
  "reconstructSeparatedWords U text =
     (let r1 = replace_all U True rx_recon_1 (\<lambda>m cs. cap cs 1 @ cap cs 2 @ cap cs 3 @ cap cs 4) text;
          r2 = replace_all U True rx_recon_2 (\<lambda>m cs. cap cs 1 @ cap cs 2 @ cap cs 3) r1;
          r3 = replace_all U True rx_recon_3 (\<lambda>m cs. cap cs 1 @ cap cs 2) r2;
          r4 = replace_all U True rx_recon_4 (\<lambda>m cs. cap cs 1 @ cap cs 2) r3;
          result = replace_all U True rx_recon_5 (\<lambda>m cs. cap cs 1 @ cap cs 2 @ cap cs 3) r4
      in if test U False separatedWordPattern result
         then replace_all U True rx_recon_7
                (\<lambda>m cs. cap cs 1 @ cap cs 3 @ cap cs 5 @ cap cs 7) result
         else result)"

section \<open>Code sequences, context, evasion, contacts\<close>

definition hasSuspiciousCodeSequences :: "unicode \<Rightarrow> jsstring \<Rightarrow> bool" where
  "hasSuspiciousCodeSequences U text =
     (let emojiMatches = match_all U False emojiPattern text;
          gamblingEmojiMatches = match_all U False gamblingEmojiPattern text;
          codeMatches = match_all U False codePattern text;
          gamblingCodeMatches = match_all U False gamblingCodePattern text;
          hasMultipleEmojis = (length emojiMatches \<ge> 2);
          hasGamblingSpecificEmojis = (length gamblingEmojiMatches \<ge> 1);
          hasCodePatterns = (length codeMatches \<ge> 1);
          hasGamblingCodePatterns = (length gamblingCodeMatches \<ge> 1)
      in hasMultipleEmojis \<or> hasGamblingSpecificEmojis \<or> hasCodePatterns \<or>
         hasGamblingCodePatterns)"

definition indicate ::
  "unicode \<Rightarrow> jsstring \<Rightarrow> rat \<Rightarrow> string \<Rightarrow> scored \<Rightarrow> rx \<Rightarrow> scored" where
  "indicate U text w reason indicators pattern =
     (if test U True pattern text
      then \<lparr> sc_score = sc_score indicators + w, sc_items = sc_items indicators @ [js reason] \<rparr>
      else indicators)"

definition detectContextualGamblingIndicators :: "unicode \<Rightarrow> jsstring \<Rightarrow> scored" where
  "detectContextualGamblingIndicators U text =
     (let i0 = \<lparr> sc_score = 0, sc_items = [] \<rparr>;
          i1 = foldl (indicate U text (5 / 100) ''monetary_phrase'') i0
                 [rx_money_1, rx_money_2, rx_money_3, rx_money_4];
          i2 = foldl (indicate U text (3 / 100) ''urgency_phrase'') i1 [rx_time_1, rx_time_2];
          i3 = foldl (indicate U text (3 / 100) ''cs_indicator'') i2 [rx_cs_1, rx_cs_2, rx_cs_3]
      in foldl (indicate U text (1 / 100) ''payment_indicator'') i3 [rx_pay_1, rx_pay_2])"

text \<open>The first word of four or more characters whose reversal occurs in the text.\<close>

fun has_reversed :: "jsstring \<Rightarrow> jsstring list \<Rightarrow> bool" where
  "has_reversed text [] = False"
| "has_reversed text (word # ws) =
     (if includes_str text (rev word) \<and> word \<noteq> rev word then True else has_reversed text ws)"

definition analyzeEvasionTechniques :: "unicode \<Rightarrow> jsstring \<Rightarrow> scored" where
  "analyzeEvasionTechniques U text =
     (let a0 = \<lparr> sc_score = 0, sc_items = [] \<rparr>;
          a1 = foldl (\<lambda>analysis pattern.
                        if match_all U False pattern text \<noteq> []
                        then \<lparr> sc_score = sc_score analysis + 3 / 10,
                               sc_items = sc_items analysis @ [js ''character_substitution''] \<rparr>
                        else analysis)
                 a0 [rx_subst_1, rx_subst_2];
          a2 = (if hasSeparatedWords U text
                then \<lparr> sc_score = sc_score a1 + 4 / 10,
                       sc_items = sc_items a1 @ [js ''word_separation''] \<rparr>
                else a1);
          a3 = (if test U False rx_two_spaces text \<or> test U False rx_spaced_letters text
                then \<lparr> sc_score = sc_score a2 + 2 / 10,
                       sc_items = sc_items a2 @ [js ''unusual_spacing''] \<rparr>
                else a2);
          a4 = (if test U False rx_mixed_case text
                then \<lparr> sc_score = sc_score a3 + 2 / 10,
                       sc_items = sc_items a3 @ [js ''mixed_case''] \<rparr>
                else a3)
      in if has_reversed text (match_all U False rx_long_words text)
         then \<lparr> sc_score = sc_score a4 + 5 / 10, sc_items = sc_items a4 @ [js ''reversed_text''] \<rparr>
         else a4)"

record contactinfo =
  ci_found :: bool
  ci_types :: "jsstring list"
  ci_values :: "jsstring list"

definition contact_patterns :: "(string \<times> rx) list" where
  "contact_patterns = [(''whatsapp'', rx_whatsapp), (''telegram'', rx_telegram),
     (''phone'', rx_phone), (''instagram'', rx_instagram), (''line'', rx_line),
     (''website'', rx_website)]"

definition extractContactInfos :: "unicode \<Rightarrow> jsstring \<Rightarrow> contactinfo" where
  "extractContactInfos U text =
     foldl (\<lambda>contactInfo (type, pattern).
              let matches = match_all U True pattern text in
              if matches \<noteq> []
              then \<lparr> ci_found = True, ci_types = ci_types contactInfo @ [js type],
                     ci_values = ci_values contactInfo @ matches \<rparr>
              else contactInfo)
       \<lparr> ci_found = False, ci_types = [], ci_values = [] \<rparr> contact_patterns"

section \<open>Keywords, sensitivity\<close>

text \<open>
  The forms of the option \<open>keywords\<close>: a string, an array of strings and objects, or an
  object; the entries of an object are in the order of \<open>Object.entries\<close>.
\<close>

datatype kwval = VBool bool | VNum rat | VNaN | VStr jsstring | VNull | VOther

datatype kwitem = ItemStr jsstring | ItemObj "(jsstring \<times> kwval) list" | ItemOther

datatype kwinput =
  KwNull | KwStr jsstring | KwArr "kwitem list" | KwObj "(jsstring \<times> kwval) list" | KwOther

definition numeric_score :: "rat \<Rightarrow> rat option" where
  "numeric_score v =
     (if v > 5 then Some 1
      else if v = 4 then Some (4 / 10)
      else if v \<ge> 0 \<and> v \<le> 1 then Some v
      else None)"

definition processEntry :: "unicode \<Rightarrow> jsstring \<times> kwval \<Rightarrow> (jsstring \<times> rat) list" where
  "processEntry U e =
     (case e of (key, val) \<Rightarrow>
        if key = [] then []
        else
          [(key,
            case val of
              VBool b \<Rightarrow> (if b then 1 else 0)
            | VNum v \<Rightarrow> (case numeric_score v of None \<Rightarrow> 1 | Some s \<Rightarrow> s)
            | VNaN \<Rightarrow> 1
            | VStr s \<Rightarrow>
                (case parseFloat U s of
                   None \<Rightarrow> 1
                 | Some numVal \<Rightarrow> (case numeric_score numVal of None \<Rightarrow> 1 | Some s \<Rightarrow> s))
            | VNull \<Rightarrow> 0
            | VOther \<Rightarrow> 1)])"

text \<open>The result is the list of pairs of the two parallel arrays \<open>keys\<close> and \<open>values\<close>.\<close>

definition extractKeywordArrays :: "unicode \<Rightarrow> kwinput \<Rightarrow> (jsstring \<times> rat) list" where
  "extractKeywordArrays U input =
     (case input of
        KwNull \<Rightarrow> []
      | KwStr s \<Rightarrow> (if trim s \<noteq> [] then [(s, 1)] else [])
      | KwArr items \<Rightarrow>
          concat (map (\<lambda>item. case item of
                                ItemStr s \<Rightarrow> (if trim s \<noteq> [] then [(s, 1)] else [])
                              | ItemObj es \<Rightarrow> concat (map (processEntry U) es)
                              | ItemOther \<Rightarrow> [])
                    items)
      | KwObj es \<Rightarrow> concat (map (processEntry U) es)
      | KwOther \<Rightarrow> [])"

text \<open>\<open>numberx[inputInt]\<close> is \<open>undefined\<close> (\<open>None\<close>) for a key that is not 0 to 5.\<close>

definition morpoint :: "rat \<Rightarrow> rat option" where
  "morpoint inputInt =
     (let n = (if inputInt \<le> 0 then 0 else inputInt) in
      map_of [(0, 0), (1, 5), (2, 4), (3, 3), (4, 2), (5, 1)] n)"

text \<open>
  \<open>parseNumber\<close> on a number; a comparison with \<open>undefined\<close> is false, so an undefined
  maximum leaves the value.
\<close>

definition parseNumber :: "rat \<Rightarrow> rat option \<Rightarrow> rat" where
  "parseNumber num maxim =
     (if num < 0 then 0
      else (case maxim of None \<Rightarrow> num | Some m \<Rightarrow> if num > m then m else num))"

section \<open>The options and the result of \<open>detect\<close>\<close>

record options =
  supportKeywords :: "jsstring list"
  domains :: "jsstring list"
  keywordsOpt :: kwinput
  allowlist :: "jsstring list"
  sensitivityLevel :: rat
  includeAnalysis :: bool
  detectRepetition :: bool
  detectUrlPatterns :: bool
  detectEvasionTechniques :: bool
  detectContextualIndicators :: bool
  extractContactInfo :: bool
  language :: language
  debug :: bool

definition default_options :: options where
  "default_options = \<lparr>
     supportKeywords = [],
     domains = [],
     keywordsOpt = KwArr (map (\<lambda>s. ItemStr (js s))
       [''slot'', ''casino'', ''jack'', ''zeus'', ''scatter'', ''toto'', ''judol'', ''jodol'',
        ''poker'', ''roulette'', ''betting'', ''gamble'', ''joker'']),
     allowlist = [],
     sensitivityLevel = 3,
     includeAnalysis = False,
     detectRepetition = True,
     detectUrlPatterns = True,
     detectEvasionTechniques = True,
     detectContextualIndicators = True,
     extractContactInfo = True,
     language = LangAll,
     debug = False \<rparr>"

definition defaultSupportKeywords :: "jsstring list" where
  "defaultSupportKeywords = map js [
     ''wdp'', ''wd'', ''win'', ''happy'', ''joyful'', ''rich'', ''trustworthy'', ''lucky'',
     ''trust'', ''definitely get'', ''jp'', ''jackpot'', ''proud'', ''harvest'', ''smart'',
     ''gambli'', ''great'', ''money back'', ''trusted'', ''beautiful'', ''harvest'',
     ''fishing'', ''bet'', ''put'', ''bonus'', ''dp'', ''pay'', ''enough'', ''game'', ''play'',
     ''happy'', ''deposit'', ''withdraw'', ''min'', ''max'', ''winning'', ''fortune'',
     ''luck'', ''lucky'', ''prize'', ''reward'', ''vip'', ''member'', ''free'', ''register'',
     ''sign'', ''join'', ''profit'', ''earn'', ''money'', ''cash'', ''credit'', ''debit'',
     ''join'', ''login'', ''official'', ''original'', ''genuine'', ''link'', ''alternative'',
     ''customer'', ''service'', ''provider'', ''welcome'', ''promotion'', ''online'',
     ''platform'', ''app'', ''application'', ''alternati'', ''scatter'', ''wager'',
     ''baccarat'', ''blackjack'', ''dice'', ''spin'', ''multiplier'', ''odds'', ''menang'',
     ''senang'', ''gacor'', ''gembira'', ''kaya'', ''pasti dapat'', ''bangga'', ''panen'',
     ''beruntung'', ''untung'', ''mancing'', ''uang kembali'', ''dipercaya'', ''amanah'',
     ''terpercaya'', ''cantik'', ''pancing'', ''judi'', ''taruhan'', ''pasang'', ''togel'',
     ''hadiah'', ''bonus'', ''register'', ''masuk'', ''dana'', ''jamin'', ''aman'', ''situs'',
     ''resmi'', ''asli'', ''maxwin'', ''gampang'', ''bocoran'', ''prediksi'', ''jitu'',
     ''akurat'', ''terpercaya'', ''terbaik'', ''rekomendasi'', ''main'', ''permainan'',
     ''daftar'', ''minimal'', ''maksimal'', ''pasaran'', ''nomor'', ''petaruh'', ''peluang'',
     ''kesempatan'', ''keberuntungan'', ''ratusan'', ''ribuan'', ''jutaan'', ''hadiah'',
     ''alternatif'']"

datatype confidence = NoConfidence | Low | Medium | High

text \<open>
  The object \<open>analysis\<close>: a list of properties. A property is written by \<open>put\<close>, which
  keeps its place if it is there already.
\<close>

datatype aval =
    ABool bool
  | ANum rat
  | AStrings "jsstring list"
  | AContact contactinfo
  | AMetrics nat nat rat

type_synonym analysis = "(string \<times> aval) list"

fun put :: "string \<Rightarrow> aval \<Rightarrow> analysis \<Rightarrow> analysis" where
  "put k v [] = [(k, v)]"
| "put k v ((k', v') # a) = (if k = k' then (k, v) # a else (k', v') # put k v a)"

text \<open>\<open>analysis?.k\<close> read as a condition.\<close>

definition flag :: "analysis option \<Rightarrow> string \<Rightarrow> bool" where
  "flag an k =
     (case an of
        None \<Rightarrow> False
      | Some a \<Rightarrow> (case map_of a k of Some (ABool b) \<Rightarrow> b | _ \<Rightarrow> False))"

record result =
  isGambling :: bool
  confidence :: confidence
  checkpoint :: rat
  details :: jsstring
  comment :: jsval
  analysis :: "analysis option"

record thresholds =
  low :: rat
  medium :: rat
  high :: rat

definition confidenceThresholds :: "rat \<Rightarrow> thresholds" where
  "confidenceThresholds level =
     (let sensitivityFactor = max 1 (min 5 level) / 3 in
      \<lparr> low = max (45 / 100) (5 / 10 * sensitivityFactor),
        medium = max (9 / 10) (8 / 10 * sensitivityFactor),
        high = max (12 / 10) (25 / 10 * sensitivityFactor) \<rparr>)"

section \<open>The stages of \<open>detect\<close>\<close>

text \<open>The running score and the analysis object, as the steps of \<open>detect\<close> update them.\<close>

record scoring =
  cp :: rat
  an :: "analysis option"

definition add :: "rat \<Rightarrow> 'a scoring_scheme \<Rightarrow> 'a scoring_scheme" where
  "add d s = s\<lparr> cp := cp s + d \<rparr>"

text \<open>\<open>if (includeAnalysis) analysis.k = v\<close>\<close>

definition noted :: "options \<Rightarrow> string \<Rightarrow> aval \<Rightarrow> 'a scoring_scheme \<Rightarrow> 'a scoring_scheme" where
  "noted opts k v s = (if includeAnalysis opts then s\<lparr> an := map_option (put k v) (an s) \<rparr> else s)"

definition normalizeText :: "unicode \<Rightarrow> jsstring \<Rightarrow> jsstring" where
  "normalizeText U text =
     trim (replace_all U False rx_spaces (\<lambda>m cs. js '' '')
            (replace_all U False rx_period (\<lambda>m cs. js '' . '')
              (replace_all U False rx_newline (\<lambda>m cs. js '' '') text)))"

definition lowerSet :: "unicode \<Rightarrow> jsstring list \<Rightarrow> jsstring list" where
  "lowerSet U ks = set_of (map (toLowerCase U) ks)"

definition keywordList_of :: "unicode \<Rightarrow> options \<Rightarrow> jsstring list" where
  "keywordList_of U opts =
     (let keywordList0 =
            (if length (supportKeywords opts) > 0 then supportKeywords opts
             else defaultSupportKeywords);
          keywordList1 =
            (if length (supportKeywords opts) = 0 \<or>
                (js ''wdp'' \<notin> set (supportKeywords opts) \<and> js ''win'' \<notin> set (supportKeywords opts))
             then set_of (keywordList0 @ defaultSupportKeywords)
             else keywordList0)
      in filter (\<lambda>word. toLowerCase U word \<notin> set (lowerSet U (domains opts)) \<and>
                         length (trim word) > 0) keywordList1)"

text \<open>Steps 1 to 7: the signal detectors on the normalised text.\<close>

definition step_garbage :: "unicode \<Rightarrow> options \<Rightarrow> jsstring \<Rightarrow> scoring \<Rightarrow> scoring" where
  "step_garbage U opts rawText s =
     (if isMostlyAsciiGarbage U (JStr rawText) (Some (45 / 100))
      then noted opts ''garbageDetected'' (ABool True) (add (4 / 10) s) else s)"

definition step_repetition :: "unicode \<Rightarrow> options \<Rightarrow> jsstring \<Rightarrow> scoring \<Rightarrow> scoring" where
  "step_repetition U opts rawText s =
     (if detectRepetition opts \<and> hasAbnormalRepetition U rawText None
      then noted opts ''repetitionDetected'' (ABool True) (add (5 / 10) s) else s)"

definition step_url :: "unicode \<Rightarrow> options \<Rightarrow> jsstring \<Rightarrow> scoring \<Rightarrow> scoring" where
  "step_url U opts rawText s =
     (if detectUrlPatterns opts \<and> hasSuspiciousUrlPatterns U rawText
      then noted opts ''suspiciousUrlDetected'' (ABool True) (add (7 / 10) s) else s)"

definition step_code :: "unicode \<Rightarrow> options \<Rightarrow> jsstring \<Rightarrow> scoring \<Rightarrow> scoring" where
  "step_code U opts rawText s =
     (if hasSuspiciousCodeSequences U rawText
      then noted opts ''suspiciousCodeSequences'' (ABool True) (add (3 / 10) s) else s)"

definition step_evasion :: "unicode \<Rightarrow> options \<Rightarrow> jsstring \<Rightarrow> scoring \<Rightarrow> scoring" where
  "step_evasion U opts rawText s =
     (if detectEvasionTechniques opts then
        (let evasionAnalysis = analyzeEvasionTechniques U rawText in
         if sc_score evasionAnalysis > 0
         then noted opts ''evasionScore'' (ANum (sc_score evasionAnalysis))
                (noted opts ''evasionTechniques'' (AStrings (sc_items evasionAnalysis))
                  (add (sc_score evasionAnalysis) s))
         else s)
      else s)"

definition step_context :: "unicode \<Rightarrow> options \<Rightarrow> jsstring \<Rightarrow> scoring \<Rightarrow> scoring" where
  "step_context U opts rawText s =
     (if detectContextualIndicators opts then
        (let contextualIndicators = detectContextualGamblingIndicators U rawText in
         if sc_score contextualIndicators > 0
         then noted opts ''contextualScore'' (ANum (sc_score contextualIndicators))
                (noted opts ''contextualIndicators'' (AStrings (sc_items contextualIndicators))
                  (add (sc_score contextualIndicators) s))
         else s)
      else s)"

definition contactInfo_of :: "unicode \<Rightarrow> options \<Rightarrow> jsstring \<Rightarrow> contactinfo option" where
  "contactInfo_of U opts rawText =
     (if extractContactInfo opts then Some (extractContactInfos U rawText) else None)"

definition step_contact :: "unicode \<Rightarrow> options \<Rightarrow> jsstring \<Rightarrow> scoring \<Rightarrow> scoring" where
  "step_contact U opts rawText s =
     (case contactInfo_of U opts rawText of
        None \<Rightarrow> s
      | Some contactInfo \<Rightarrow>
          if ci_found contactInfo
          then noted opts ''contactInfo'' (AContact contactInfo) (add (4 / 10) s) else s)"

text \<open>Steps 8 to 10: each normaliser that changes the text moves the score.\<close>

definition step_clean :: "unicode \<Rightarrow> options \<Rightarrow> jsstring \<Rightarrow> scoring \<Rightarrow> scoring" where
  "step_clean U opts rawText s =
     (if cleanText U rawText \<noteq> rawText
      then noted opts ''containsNonStandardChars'' (ABool True) (add (3 / 10) s) else s)"

definition step_reconstruct :: "unicode \<Rightarrow> options \<Rightarrow> jsstring \<Rightarrow> scoring \<Rightarrow> scoring" where
  "step_reconstruct U opts cleaned s =
     (if reconstructSeparatedWords U cleaned \<noteq> cleaned
      then noted opts ''wordSeparationDetected'' (ABool True) (add (3 / 10) s) else s)"

definition step_merge :: "unicode \<Rightarrow> options \<Rightarrow> jsstring \<Rightarrow> scoring \<Rightarrow> scoring" where
  "step_merge U opts reconstructed s =
     (if mergeTextWithTrailingNumbers U reconstructed \<noteq> reconstructed
      then noted opts ''separatedNumbersDetected'' (ABool True) (add (- (3 / 10)) s) else s)"

text \<open>Step 11 and the blocklist.\<close>

definition step_language :: "unicode \<Rightarrow> options \<Rightarrow> jsstring \<Rightarrow> scoring \<Rightarrow> scoring" where
  "step_language U opts merged s =
     (let languagePatterns = detectLanguageSpecificPatterns U merged (language opts) in
      if sc_score languagePatterns > 0
      then noted opts ''languageScore'' (ANum (sc_score languagePatterns))
             (noted opts ''languageSpecificMatches'' (AStrings (sc_items languagePatterns))
               (add (sc_score languagePatterns) s))
      else s)"

definition domain_regex :: "jsstring \<Rightarrow> rx" where
  "domain_regex blocked =
     cat [WordB, opt (cat [str ''http'', opt (str ''s''), str ''://'']), opt (str ''www.''),
          Lit blocked, WordB]"

definition domainMatched :: "unicode \<Rightarrow> options \<Rightarrow> jsstring \<Rightarrow> bool" where
  "domainMatched U opts merged =
     (let lowerText = toLowerCase U merged in
      list_ex (\<lambda>blocked. includes_str lowerText blocked \<or> test U True (domain_regex blocked) lowerText)
        (lowerSet U (domains opts)))"

definition step_domain :: "unicode \<Rightarrow> options \<Rightarrow> jsstring \<Rightarrow> scoring \<Rightarrow> scoring" where
  "step_domain U opts merged s =
     (if domainMatched U opts merged
      then noted opts ''blockedDomainDetected'' (ABool True) (add (57 / 100) s) else s)"

text \<open>
  Step 14: the fuzzy replacement in the text that is echoed, and the score of a fuzzy
  match in the reconstructed text. The second reads the flags of the analysis object,
  which exists only when \<open>includeAnalysis\<close> is set.
\<close>

definition fuzzy_replaced_text :: "unicode \<Rightarrow> jsstring list \<Rightarrow> jsstring \<Rightarrow> jsstring" where
  "fuzzy_replaced_text U keyword text =
     (case filter (\<lambda>fuzzy. score fuzzy > 6 / 10) (fuzzySearchStrings U keyword text) of
        [] \<Rightarrow> text
      | f # fs \<Rightarrow> replace_str text (matched_word f) (matched_with f))"

fun index_of :: "'a \<Rightarrow> 'a list \<Rightarrow> nat option" where
  "index_of x [] = None"
| "index_of x (y # ys) = (if x = y then Some 0 else map_option Suc (index_of x ys))"

fun first_increment :: "(jsstring \<times> rat) list \<Rightarrow> fuzzymatch list \<Rightarrow> rat option" where
  "first_increment kws [] = None"
| "first_increment kws (element # es) =
     (if matched_with element \<noteq> [] then
        (case index_of (matched_with element) (map fst kws) of
           Some keywordIndex \<Rightarrow>
             Some (if snd (kws ! keywordIndex) \<ge> 1 then 6 / 100 else snd (kws ! keywordIndex))
         | None \<Rightarrow> first_increment kws es)
      else first_increment kws es)"

definition step_fuzzy ::
  "unicode \<Rightarrow> (jsstring \<times> rat) list \<Rightarrow> jsstring \<Rightarrow> scoring \<Rightarrow> scoring" where
  "step_fuzzy U kws reconstructed s =
     (if flag (an s) ''garbageDetected'' \<or> flag (an s) ''wordSeparationDetected'' \<or>
         flag (an s) ''containsNonStandardChars''
      then (case first_increment kws (fuzzySearchStrings U (map fst kws) reconstructed) of
              None \<Rightarrow> s
            | Some scoreIncrement \<Rightarrow> add scoreIncrement s)
      else s)"

section \<open>The pattern engine\<close>

record dstate = scoring +
  st_allMatches :: "jsstring list"
  st_matchedTerms :: "jsstring list"
  st_fuzzyHistory :: "jsstring list"

datatype approach_name = Standard | Custom | Loose | Tiny

record approach =
  ap_name :: approach_name
  ap_pattern :: "rx option"
  ap_value :: rat
  ap_min :: rat

text \<open>What one call of \<open>detect\<close> fixes before the passes start.\<close>

record env =
  ev_opts :: options
  ev_text :: jsstring
  ev_keyword :: "jsstring list"
  ev_keywordList :: "jsstring list"
  ev_domainSet :: "jsstring list"
  ev_allowSet :: "jsstring list"
  ev_sensitivityFactorNorm :: "rat option"

definition patternApproaches :: "env \<Rightarrow> rat \<Rightarrow> approach list" where
  "patternApproaches E weight =
     [\<lparr> ap_name = Standard, ap_pattern = Some standardPatternRegex,
        ap_value = 5 / 10 * weight, ap_min = 14 / 1000 * weight \<rparr>,
      \<lparr> ap_name = Custom, ap_pattern = createPatternRegex (ev_keyword E) False,
        ap_value = 4 / 10 * weight, ap_min = 13 / 1000 * weight \<rparr>,
      \<lparr> ap_name = Loose, ap_pattern = createPatternRegex (ev_keyword E) True,
        ap_value = 3 / 10 * weight, ap_min = 11 / 1000 * weight \<rparr>,
      \<lparr> ap_name = Tiny, ap_pattern = TinyPatternRegex (ev_keyword E),
        ap_value = 25 / 100 * weight, ap_min = 5 / 1000 * weight \<rparr>]"

text \<open>A comparison with \<open>undefined\<close> is false.\<close>

definition gt :: "rat option \<Rightarrow> rat \<Rightarrow> bool" where
  "gt x y = (case x of None \<Rightarrow> False | Some v \<Rightarrow> v > y)"

definition ge :: "rat option \<Rightarrow> rat \<Rightarrow> bool" where
  "ge x y = (case x of None \<Rightarrow> False | Some v \<Rightarrow> v \<ge> y)"

definition strip_spaces :: "unicode \<Rightarrow> jsstring \<Rightarrow> jsstring" where
  "strip_spaces U s = replace_all U False rx_spaces (\<lambda>m cs. []) s"

definition notAllowed :: "unicode \<Rightarrow> env \<Rightarrow> jsstring list \<Rightarrow> jsstring list" where
  "notAllowed U E matches = filter (\<lambda>m. toLowerCase U m \<notin> set (ev_allowSet E)) matches"

definition record_matches :: "unicode \<Rightarrow> jsstring list \<Rightarrow> dstate \<Rightarrow> dstate" where
  "record_matches U ms st =
     st\<lparr> st_allMatches := st_allMatches st @ ms,
         st_matchedTerms := set_of (st_matchedTerms st @ map (toLowerCase U) ms) \<rparr>"

definition push_history :: "jsstring \<Rightarrow> dstate \<Rightarrow> dstate" where
  "push_history t st = st\<lparr> st_fuzzyHistory := st_fuzzyHistory st @ [t] \<rparr>"

definition limit_history :: "dstate \<Rightarrow> dstate" where
  "limit_history st =
     (if length (st_fuzzyHistory st) > 2
      then st\<lparr> st_fuzzyHistory := drop (length (st_fuzzyHistory st) - 2) (st_fuzzyHistory st) \<rparr>
      else st)"

datatype outcome = Continue nat dstate | Break dstate

text \<open>
  The aggressive retry of the loose and tiny approaches, and the site identifier of the
  others: the matches and the state after them.
\<close>

definition retry_matches ::
  "unicode \<Rightarrow> env \<Rightarrow> jsstring \<Rightarrow> approach \<Rightarrow> nat \<Rightarrow> jsstring list \<Rightarrow> dstate \<Rightarrow> jsstring list \<times> dstate" where
  "retry_matches U E textFixed ap looseAttempted matches st =
     (if matches = [] \<and> (ap_name ap = Loose \<or> looseAttempted > 0) then
        (let m1 = (if gt (ev_sensitivityFactorNorm E) 2
                   then match_all U True rx_short_code (combineShortWords U textFixed)
                   else matches)
         in if m1 = [] \<and> gt (ev_sensitivityFactorNorm E) 2 then
              (let m2 = match_all U True rx_long_code textFixed in
               (m2, if m2 \<noteq> [] then add (ap_value ap * (12 / 10)) st else st))
            else (m1, st))
      else if ap_name ap \<noteq> Tiny then
        (matches,
         if match_all U True rx_site_id (trim (ev_text E)) \<noteq> [] \<and>
            ge (ev_sensitivityFactorNorm E) 4
         then add (1 / 10) st else st)
      else (matches, st))"

definition history_check :: "unicode \<Rightarrow> rx \<Rightarrow> dstate \<Rightarrow> dstate" where
  "history_check U pattern st =
     foldl (\<lambda>s el. if match_all U True pattern (strip_spaces U el) \<noteq> [] then add (1 / 10) s else s)
       st (st_fuzzyHistory st)"

text \<open>The branch of an approach whose pattern matched nothing: the fuzzy retry.\<close>

definition fuzzy_retry ::
  "unicode \<Rightarrow> env \<Rightarrow> jsstring \<Rightarrow> jsstring \<Rightarrow> approach \<Rightarrow> rx \<Rightarrow> nat \<Rightarrow> dstate \<Rightarrow> outcome" where
  "fuzzy_retry U E textFixed converted ap pattern looseAttempted st =
     (case fuzzySearchStrings U (ev_keywordList E) textFixed of
        bestMatch # others \<Rightarrow>
          if score bestMatch > 7 / 10 then
            (let textSession =
                   replace_str textFixed (matched_word bestMatch) (matched_with bestMatch);
                 fuzzyMatches = match_all U True pattern (strip_spaces U textSession);
                 fuzzyFilteredMatches = notAllowed U E fuzzyMatches
             in if fuzzyMatches \<noteq> [] \<and> fuzzyFilteredMatches \<noteq> [] then
                  (let st1 = record_matches U fuzzyFilteredMatches st in
                   if cp st1 > 5 / 10 then Break (add (8 / 100) st1)
                   else Continue looseAttempted (limit_history (push_history textSession st1)))
                else Continue looseAttempted (limit_history (push_history textSession st)))
          else Continue looseAttempted (limit_history st)
      | [] \<Rightarrow>
          (let st1 =
                 (case fuzzySearchStrings U (ev_keyword E) converted of
                    bestMatch2 # others \<Rightarrow>
                      if score bestMatch2 > 6 / 10
                      then push_history
                             (replace_str textFixed (matched_word bestMatch2)
                                (matched_with bestMatch2)) st
                      else st
                  | [] \<Rightarrow> st)
           in Continue looseAttempted
                (limit_history (add (- (ap_min ap - 2 / 1000)) st1))))"

text \<open>One approach of the list; a missing pattern is skipped.\<close>

definition approach_step ::
  "unicode \<Rightarrow> env \<Rightarrow> jsstring \<Rightarrow> jsstring \<Rightarrow> jsstring \<Rightarrow> approach \<Rightarrow> nat \<Rightarrow> dstate \<Rightarrow> outcome" where
  "approach_step U E processedText textFixed converted ap looseAttempted st =
     (case ap_pattern ap of
        None \<Rightarrow> Continue looseAttempted st
      | Some pattern \<Rightarrow>
          (let matches0 = match_all U True pattern (strip_spaces U converted);
               r = retry_matches U E textFixed ap looseAttempted matches0 st;
               st2 = history_check U pattern (snd r)
           in if ap_name ap = Loose \<and> looseAttempted > 0 then Continue looseAttempted st2
              else
                (let la = (if ap_name ap = Loose then looseAttempted + 1 else looseAttempted);
                     matches = (if ap_name ap = Tiny then match_all U True pattern processedText
                                else fst r);
                     st3 = (if ap_name ap = Tiny \<and> matches \<noteq> [] then add (3 / 100) st2 else st2)
                 in if matches \<noteq> [] then
                      (let filteredMatches = notAllowed U E matches in
                       if filteredMatches \<noteq> [] then
                         (let st4 = record_matches U filteredMatches st3 in
                          if cp st4 > 5 / 10 then Break (add (ap_value ap) st4)
                          else Continue la st4)
                       else Continue la st3)
                    else fuzzy_retry U E textFixed converted ap pattern la st3)))"

fun approach_loop ::
  "unicode \<Rightarrow> env \<Rightarrow> jsstring \<Rightarrow> jsstring \<Rightarrow> jsstring \<Rightarrow> approach list \<Rightarrow> nat \<Rightarrow> dstate \<Rightarrow>
     dstate \<times> bool" where
  "approach_loop U E processedText textFixed converted [] looseAttempted st = (st, False)"
| "approach_loop U E processedText textFixed converted (ap # aps) looseAttempted st =
     (case approach_step U E processedText textFixed converted ap looseAttempted st of
        Break st' \<Rightarrow> (st', True)
      | Continue la st' \<Rightarrow> approach_loop U E processedText textFixed converted aps la st')"

text \<open>After a match that counted: the supporting keywordsOpt in the converted text.\<close>

definition support_keywords :: "unicode \<Rightarrow> env \<Rightarrow> jsstring \<Rightarrow> dstate \<Rightarrow> dstate" where
  "support_keywords U E converted st =
     (let convertedLower = toLowerCase U converted;
          keywordMatches =
            filter (\<lambda>keyword. toLowerCase U keyword \<notin> set (ev_domainSet E) \<and>
                               includes_str convertedLower (toLowerCase U keyword))
              (ev_keywordList E);
          keywordMatchCount = length keywordMatches
      in if keywordMatchCount > 0 then
           (let keywordBonus = min (15 / 10) (3 / 100 * (of_nat keywordMatchCount / 2) + 7 / 10);
                st1 = (if cp st > 45 / 100 then add (keywordBonus - 2 / 10) st
                       else add (- (1 / 100)) st)
            in noted (ev_opts E) ''keywordMatchCount'' (ANum (of_nat keywordMatchCount))
                 (noted (ev_opts E) ''supportingKeywords'' (AStrings keywordMatches) st1))
         else st)"

fun ignore_loop ::
  "unicode \<Rightarrow> env \<Rightarrow> jsstring \<Rightarrow> rat \<Rightarrow> nat list \<Rightarrow> dstate \<Rightarrow> dstate \<times> bool" where
  "ignore_loop U E processedText weight [] st = (st, False)"
| "ignore_loop U E processedText weight (ignore # igs) st =
     (let textFixed = convertCommentFixed U processedText ignore;
          converted = combineShortWords U (cleanWeirdPatterns U textFixed)
      in case approach_loop U E processedText textFixed converted (patternApproaches E weight) 0 st of
           (st', foundMatch) \<Rightarrow>
             if foundMatch then (support_keywords U E converted st', True)
             else ignore_loop U E processedText weight igs st')"

datatype pass = DirectMatching | StandardCleaning | AdvancedCleaning

fun converter :: "unicode \<Rightarrow> pass \<Rightarrow> jsstring \<Rightarrow> jsstring" where
  "converter U DirectMatching text = text"
| "converter U StandardCleaning text = cleanWeirdPatterns U text"
| "converter U AdvancedCleaning text = combineShortWords U (cleanWeirdPatterns U text)"

fun weight :: "pass \<Rightarrow> rat" where
  "weight DirectMatching = 1"
| "weight StandardCleaning = 9 / 10"
| "weight AdvancedCleaning = 8 / 10"

definition detectionPasses :: "pass list" where
  "detectionPasses = [DirectMatching, StandardCleaning, AdvancedCleaning]"

fun pass_loop :: "unicode \<Rightarrow> env \<Rightarrow> jsstring \<Rightarrow> pass list \<Rightarrow> dstate \<Rightarrow> dstate \<times> bool" where
  "pass_loop U E merged [] st = (st, False)"
| "pass_loop U E merged (p # ps) st =
     (case ignore_loop U E (converter U p merged) (weight p) [0, 1, 2, 3, 4, 5, 6] st of
        (st', detected) \<Rightarrow> if detected then (st', True) else pass_loop U E merged ps st')"

section \<open>Scoring and decision\<close>

text \<open>Step 15: the length profile of the normalised text.\<close>

definition wordCount_of :: "unicode \<Rightarrow> jsstring \<Rightarrow> nat" where
  "wordCount_of U rawText = length (match_all U False rx_words rawText)"

definition avgWordLength_of :: "unicode \<Rightarrow> jsstring \<Rightarrow> rat" where
  "avgWordLength_of U rawText =
     (if wordCount_of U rawText > 0 then of_nat (length rawText) / of_nat (wordCount_of U rawText)
      else 0)"

definition step_length :: "unicode \<Rightarrow> options \<Rightarrow> jsstring \<Rightarrow> dstate \<Rightarrow> dstate" where
  "step_length U opts rawText st =
     (let wordCount = wordCount_of U rawText;
          charCount = length rawText;
          avgWordLength = avgWordLength_of U rawText;
          hasGamblingContentLength =
            ((wordCount \<ge> 5 \<and> wordCount \<le> 50) \<or> (charCount \<ge> 30 \<and> charCount \<le> 500));
          st1 = (if hasGamblingContentLength
                 then noted opts ''contentLengthSuspicious'' (ABool True) (add (2 / 10) st)
                 else st)
      in if avgWordLength > 12
         then noted opts ''longAvgWordLength'' (ANum avgWordLength) (add (3 / 10) st1)
         else st1)"

definition msg_none :: jsstring where
  "msg_none = js ''No gambling content detected''"

definition msg_high :: jsstring where
  "msg_high = 9989 # js '' Gambling content detected with high confidence''"

definition msg_medium :: jsstring where
  "msg_medium = 9989 # js '' Gambling content likely detected''"

definition msg_low :: jsstring where
  "msg_low = [9888, 65039] @ js '' Possible gambling content (manual review recommended)''"

definition msg_garbage :: jsstring where
  "msg_garbage = [9888, 65039] @ js '' Suspicious content detected (excessive symbol usage)''"

text \<open>
  Step 16: the final evaluation on the clamped score \<open>checkpoint\<close>. The result starts
  as "no gambling content"; a branch that is taken overwrites the verdict.
\<close>

definition classify ::
  "bool \<Rightarrow> rat \<Rightarrow> thresholds \<Rightarrow> bool \<Rightarrow> bool \<times> confidence \<times> jsstring" where
  "classify detected x th hasGarbage =
     (if detected \<or> x \<ge> low th then
        (if x \<ge> high th then (True, High, msg_high)
         else if x \<ge> medium th then (True, Medium, msg_medium)
         else if x \<ge> low th then (True, Low, msg_low)
         else (False, NoConfidence, msg_none))
      else if hasGarbage then (True, Medium, msg_garbage)
      else (False, NoConfidence, msg_none))"

definition result_analysis ::
  "unicode \<Rightarrow> options \<Rightarrow> jsstring \<Rightarrow> dstate \<Rightarrow> analysis option" where
  "result_analysis U opts rawText st =
     (if includeAnalysis opts then
        (case an st of
           None \<Rightarrow> None
         | Some a \<Rightarrow>
             (let a1 = put ''contentMetrics''
                         (AMetrics (wordCount_of U rawText) (length rawText)
                            (toFixed 2 (avgWordLength_of U rawText)))
                         (put ''allMatches''
                            (AStrings (if length (st_allMatches st) > 0
                                       then set_of (st_allMatches st) else []))
                            (put ''matchedTerms'' (AStrings (st_matchedTerms st)) a))
              in case contactInfo_of U opts rawText of
                   None \<Rightarrow> Some a1
                 | Some contactInfo \<Rightarrow>
                     if ci_found contactInfo
                     then Some (put ''contactInfo'' (AContact contactInfo) a1)
                     else Some a1))
      else None)"

section \<open>\<open>detect\<close>\<close>

text \<open>The state before the passes: steps 1 to 11, the blocklist and step 14.\<close>

definition before_passes :: "unicode \<Rightarrow> options \<Rightarrow> jsstring \<Rightarrow> scoring" where
  "before_passes U opts rawText =
     (let s0 = \<lparr> cp = 0, an = (if includeAnalysis opts then Some [] else None) \<rparr>;
          s7 = step_contact U opts rawText
                 (step_context U opts rawText
                   (step_evasion U opts rawText
                     (step_code U opts rawText
                       (step_url U opts rawText
                         (step_repetition U opts rawText
                           (step_garbage U opts rawText s0))))));
          cleaned = cleanText U rawText;
          s8 = step_clean U opts rawText s7;
          reconstructed = reconstructSeparatedWords U cleaned;
          s9 = step_reconstruct U opts cleaned s8;
          merged = mergeTextWithTrailingNumbers U reconstructed;
          s10 = step_merge U opts reconstructed s9;
          s11 = step_language U opts merged s10;
          s12 = step_domain U opts merged s11
      in step_fuzzy U (extractKeywordArrays U (keywordsOpt opts)) reconstructed s12)"

definition merged_of :: "unicode \<Rightarrow> jsstring \<Rightarrow> jsstring" where
  "merged_of U rawText =
     mergeTextWithTrailingNumbers U (reconstructSeparatedWords U (cleanText U rawText))"

definition env_of :: "unicode \<Rightarrow> options \<Rightarrow> jsstring \<Rightarrow> env" where
  "env_of U opts text =
     \<lparr> ev_opts = opts,
       ev_text = fuzzy_replaced_text U (map fst (extractKeywordArrays U (keywordsOpt opts))) text,
       ev_keyword = map fst (extractKeywordArrays U (keywordsOpt opts)),
       ev_keywordList = keywordList_of U opts,
       ev_domainSet = lowerSet U (domains opts),
       ev_allowSet = lowerSet U (allowlist opts),
       ev_sensitivityFactorNorm = morpoint (sensitivityLevel opts) \<rparr>"

definition after_passes :: "unicode \<Rightarrow> options \<Rightarrow> jsstring \<Rightarrow> dstate \<times> bool" where
  "after_passes U opts text =
     (let rawText = normalizeText U text;
          s = before_passes U opts rawText
      in pass_loop U (env_of U opts text) (merged_of U rawText) detectionPasses
           \<lparr> cp = cp s, an = an s, st_allMatches = [], st_matchedTerms = [],
             st_fuzzyHistory = [] \<rparr>)"

definition detect_text :: "unicode \<Rightarrow> jsstring \<Rightarrow> options \<Rightarrow> result" where
  "detect_text U text opts =
     (let rawText = normalizeText U text;
          hasGarbage = isMostlyAsciiGarbage U (JStr rawText) (Some (45 / 100));
          r = after_passes U opts text;
          detected = snd r;
          st = step_length U opts rawText (fst r);
          clamped = parseNumber (cp st) (morpoint (sensitivityLevel opts));
          verdict = classify detected clamped (confidenceThresholds (sensitivityLevel opts))
                      hasGarbage
      in \<lparr> isGambling = fst verdict,
           confidence = fst (snd verdict),
           checkpoint = toFixed 2 clamped,
           details = snd (snd verdict),
           comment = JStr (ev_text (env_of U opts text)),
           analysis = result_analysis U opts rawText st \<rparr>)"

text \<open>\<open>!text\<close>\<close>

fun falsy :: "jsval \<Rightarrow> bool" where
  "falsy JUndefined = True"
| "falsy JNull = True"
| "falsy (JBool b) = (\<not> b)"
| "falsy (JNum n) = (n = 0)"
| "falsy JNaN = True"
| "falsy (JStr s) = (s = [])"
| "falsy (JArr xs) = False"
| "falsy JObj = False"

definition tooShort :: "jsval \<Rightarrow> result" where
  "tooShort text =
     \<lparr> isGambling = False, confidence = NoConfidence, checkpoint = 0,
       details = js ''Text too short for analysis'', comment = text, analysis = None \<rparr>"

text \<open>
  \<open>detect(text = "", options = {})\<close>: an undefined first argument is the empty string;
  the options are the record after the defaults.
\<close>

definition detect :: "unicode \<Rightarrow> jsval \<Rightarrow> options \<Rightarrow> result" where
  "detect U arg opts =
     (let text = (case arg of JUndefined \<Rightarrow> JStr [] | _ \<Rightarrow> arg) in
      if falsy text then tooShort text
      else (case text of
              JStr s \<Rightarrow> if length (trim s) < 2 then tooShort text else detect_text U s opts
            | _ \<Rightarrow> tooShort text))"

section \<open>\<open>detectBatch\<close>\<close>

text \<open>
  \<open>String(x)\<close> for a value that is not an array. A plain object prints as
  \<open>[object Object]\<close>; the decimal form of a number is the runtime's.
\<close>

fun toString :: "unicode \<Rightarrow> jsval \<Rightarrow> jsstring" where
  "toString U JUndefined = js ''undefined''"
| "toString U JNull = js ''null''"
| "toString U (JBool b) = (if b then js ''true'' else js ''false'')"
| "toString U (JNum n) = numberToString U n"
| "toString U JNaN = js ''NaN''"
| "toString U (JStr s) = s"
| "toString U (JArr xs) = []"
| "toString U JObj = js ''[object Object]''"

text \<open>
  \<open>detectBatch\<close> is an \<open>async\<close> function: the value it returns is a promise that is
  fulfilled with the list.
\<close>

datatype 'a promise = Fulfilled 'a | Rejected error

definition detectBatch :: "unicode \<Rightarrow> jsval \<Rightarrow> options \<Rightarrow> result list promise" where
  "detectBatch U texts opts =
     (case texts of
        JArr ts \<Rightarrow> Fulfilled (map (\<lambda>text. detect U text opts) ts)
      | _ \<Rightarrow> Fulfilled [detect U (JStr (toString U texts)) opts])"

section \<open>Notions of the specification\<close>

text \<open>
  The words of the specification that the code has no function for: the cap of the score
  ("a reversed mapping of \<open>sensitivityLevel\<close>"), the inputs that the guard of \<open>detect\<close>
  rejects, the ratio of the characters outside \<^verbatim>\<open>[A-Za-z0-9\s.,!?]\<close>, and the lists of
  strings that the analysis of a result reports under a name. A state of the pattern engine
  is \<open>clean\<close> for an allowlist when no recorded match is in it.
\<close>

definition sensitivityCap :: "rat \<Rightarrow> rat" where
  "sensitivityCap level =
     (if level \<le> 0 then 0 else if level = 1 then 5 else if level = 2 then 4
      else if level = 3 then 3 else if level = 4 then 2 else if level = 5 then 1 else 0)"

fun is_string :: "jsval \<Rightarrow> bool" where
  "is_string (JStr s) = True"
| "is_string v = False"

definition rejected :: "jsval \<Rightarrow> bool" where
  "rejected t = (falsy t \<or> \<not> is_string t \<or> (\<exists>s. t = JStr s \<and> length (trim s) < 2))"

definition garbage :: "jschar \<Rightarrow> bool" where
  "garbage c = (\<not> in_ranges c (rg ''azAZ09'' @ cs_space @ sg ''.,!?''))"

definition garbage_ratio :: "jsstring \<Rightarrow> rat" where
  "garbage_ratio s = of_nat (length (filter garbage s)) / of_nat (length s)"

definition reported :: "string \<Rightarrow> result \<Rightarrow> jsstring list" where
  "reported k r =
     (case analysis r of
        None \<Rightarrow> []
      | Some a \<Rightarrow> (case map_of a k of Some (AStrings xs) \<Rightarrow> xs | _ \<Rightarrow> []))"

definition clean :: "unicode \<Rightarrow> jsstring list \<Rightarrow> dstate \<Rightarrow> bool" where
  "clean U allow st =
     ((\<forall>m \<in> set (st_allMatches st). toLowerCase U m \<notin> set allow) \<and>
      (\<forall>t \<in> set (st_matchedTerms st). t \<notin> set allow))"

fun outcome_state :: "outcome \<Rightarrow> dstate" where
  "outcome_state (Continue la st) = st"
| "outcome_state (Break st) = st"

section \<open>The runs of \<open>detect\<close> that the properties evaluate\<close>

text \<open>
  What \<open>detect\<close> computes from the default keywords, whatever the text: the keywords with
  their scores, the list of the supporting keywords, and the three patterns built from the
  keywords.
\<close>

definition mainKeywords :: "(jsstring \<times> rat) list" where
  "mainKeywords = extractKeywordArrays ascii_tables (keywordsOpt default_options)"

definition supportList :: "jsstring list" where
  "supportList = keywordList_of ascii_tables default_options"

definition customPatternRegex :: rx where
  "customPatternRegex = the (createPatternRegex (map fst mainKeywords) False)"

definition loosePatternRegex :: rx where
  "loosePatternRegex = the (createPatternRegex (map fst mainKeywords) True)"

definition tinyPatternRegex :: rx where
  "tinyPatternRegex = the (TinyPatternRegex (map fst mainKeywords))"

text \<open>
  The texts and the options of the runs: \<open>"casino"\<close> at the highest sensitivity, \<open>"zeus"\<close> with
  \<open>"zeus"\<close> in the allowlist, and \<open>"s l o t"\<close>, which is merged into \<open>"slot"\<close>, with and without
  the analysis; \<open>spaced_analysis\<close> is the analysis object of \<open>"s l o t"\<close> before the passes.
\<close>

definition casino :: jsstring where
  "casino = js ''casino''"

definition zeus :: jsstring where
  "zeus = js ''zeus''"

definition slot :: jsstring where
  "slot = js ''slot''"

definition spaced_slot :: jsstring where
  "spaced_slot = js ''s l o t''"

definition sensitive :: options where
  "sensitive = default_options\<lparr> sensitivityLevel := 5 \<rparr>"

definition zeus_allowed :: options where
  "zeus_allowed = default_options\<lparr> allowlist := [zeus] \<rparr>"

definition verbose :: options where
  "verbose = default_options\<lparr> includeAnalysis := True \<rparr>"

definition verbose_zeus_allowed :: options where
  "verbose_zeus_allowed = default_options\<lparr> allowlist := [zeus], includeAnalysis := True \<rparr>"

definition spaced_analysis :: analysis where
  "spaced_analysis =
     [(''evasionTechniques'', AStrings [js ''word_separation'', js ''unusual_spacing'']),
      (''evasionScore'', ANum (3 / 5)),
      (''wordSeparationDetected'', ABool True),
      (''languageSpecificMatches'', AStrings [slot, slot]),
      (''languageScore'', ANum (3 / 5))]"

text \<open>What \<open>detect\<close> fixes before the passes in the runs on one word.\<close>

definition casino_env :: env where
  "casino_env = env_of ascii_tables sensitive casino"

definition zeus_env :: env where
  "zeus_env = env_of ascii_tables zeus_allowed zeus"

text \<open>
  The clean sentence of the specification, and the texts that the run on it goes through: the
  normalised text, the text after the cleaning of the first pass (short words joined), the
  text after a second cleaning, these without spaces, and the text in which the fuzzy match
  \<open>"gambli"\<close> has replaced \<open>"gambling"\<close>, as it is and without spaces.
\<close>

definition sentence :: jsstring where
  "sentence = js ''This is a normal sentence with no gambling content.''"

definition sentence_raw :: jsstring where
  "sentence_raw = normalizeText ascii_tables sentence"

definition sentence_joined :: jsstring where
  "sentence_joined = cleanWeirdPatterns ascii_tables sentence_raw"

definition sentence_glued :: jsstring where
  "sentence_glued = cleanWeirdPatterns ascii_tables sentence_joined"

definition sentence_stripped :: jsstring where
  "sentence_stripped = strip_spaces ascii_tables sentence_joined"

definition gambling :: jsstring where
  "gambling = js ''gambling''"

definition gambli :: jsstring where
  "gambli = js ''gambli''"

definition gamblingconte :: jsstring where
  "gamblingconte = js ''gamblingconte''"

definition sentence_session :: jsstring where
  "sentence_session = replace_str sentence_raw gambling gambli"

definition session_stripped :: jsstring where
  "session_stripped = strip_spaces ascii_tables sentence_session"

definition sentence_env :: env where
  "sentence_env = env_of ascii_tables default_options sentence"

section \<open>Properties\<close>

subsection \<open>The confidence thresholds\<close>

text \<open>
  Claim C2. For every \<open>sensitivityLevel\<close> the thresholds are
  \<open>low = max(0.45, 0.5 f)\<close>, \<open>medium = max(0.9, 0.8 f)\<close> and \<open>high = max(1.2, 2.5 f)\<close> with
  \<open>f = clamp(sensitivityLevel, 1, 5) / 3\<close>, and \<open>low \<le> medium \<le> high\<close>: for every level, so
  for the integers 1 to 5.
\<close>

theorem thresholds_ordered:
  "confidenceThresholds level =
     \<lparr> low = max (45 / 100) (5 / 10 * (max 1 (min 5 level) / 3)),
       medium = max (9 / 10) (8 / 10 * (max 1 (min 5 level) / 3)),
       high = max (12 / 10) (25 / 10 * (max 1 (min 5 level) / 3)) \<rparr> \<and>
   low (confidenceThresholds level) \<le> medium (confidenceThresholds level) \<and>
   medium (confidenceThresholds level) \<le> high (confidenceThresholds level)"
proof -
  have f: "0 < max 1 (min 5 level) / 3"
    by (simp add: max_def min_def)
  show ?thesis
    using f by (auto simp: confidenceThresholds_def Let_def max_def)
qed

subsection \<open>The range of the score\<close>

lemma toFixed_range:
  assumes "0 \<le> y" and "y \<le> of_nat n"
  shows "0 \<le> toFixed 2 y \<and> toFixed 2 y \<le> of_nat n"
proof -
  have a: "(0::int) \<le> \<lfloor>y * 10\<^sup>2 + 1 / 2\<rfloor>"
    using assms(1) by (simp add: zero_le_floor)
  have "y * 10\<^sup>2 + 1 / 2 < of_int (int n * 100 + 1)"
    using assms(2) by simp
  then have "\<lfloor>y * 10\<^sup>2 + 1 / 2\<rfloor> < int n * 100 + 1"
    by (simp only: floor_less_iff)
  then have b: "\<lfloor>y * 10\<^sup>2 + 1 / 2\<rfloor> \<le> int n * 100"
    by simp
  have c: "(of_int \<lfloor>y * 10\<^sup>2 + 1 / 2\<rfloor> :: rat) \<le> of_int (int n * 100)"
    using b by (simp only: of_int_le_iff)
  show ?thesis
    using assms(1) a c by (simp add: toFixed_def divide_le_eq)
qed

lemma morpoint_cap:
  assumes "level \<le> 0 \<or> level \<in> {1, 2, 3, 4, 5}"
  shows "morpoint level = Some (sensitivityCap level)"
  using assms by (auto simp: morpoint_def sensitivityCap_def)

lemma cap_nat:
  "\<exists>n::nat. sensitivityCap level = of_nat n"
proof -
  have "sensitivityCap level \<in> {0, 1, 2, 3, 4, 5}"
    by (simp add: sensitivityCap_def)
  then consider "sensitivityCap level = of_nat 0" | "sensitivityCap level = of_nat 1"
    | "sensitivityCap level = of_nat 2" | "sensitivityCap level = of_nat 3"
    | "sensitivityCap level = of_nat 4" | "sensitivityCap level = of_nat 5"
    by auto
  then show ?thesis by (cases) blast+
qed

lemma trim_nil: "trim [] = []"
  by (simp add: trim_def)

lemma detect_long:
  assumes "2 \<le> length (trim text)"
  shows "detect U (JStr text) opts = detect_text U text opts"
proof -
  have "text \<noteq> []" using assms trim_nil by auto
  then show ?thesis using assms by (simp add: detect_def)
qed

text \<open>
  Claim C3. For every text that passes the guard and every level that is 1, 2, 3, 4, 5 or at
  most 0, the \<open>checkpoint\<close> of the result of \<open>detect\<close> lies between 0 and the cap of the
  level (0 for a level at most 0, then 5, 4, 3, 2, 1): it is never negative.
\<close>

theorem checkpoint_in_range:
  assumes "2 \<le> length (trim text)"
    and "sensitivityLevel opts \<le> 0 \<or> sensitivityLevel opts \<in> {1, 2, 3, 4, 5}"
  shows "0 \<le> checkpoint (detect U (JStr text) opts) \<and>
         checkpoint (detect U (JStr text) opts) \<le> sensitivityCap (sensitivityLevel opts)"
proof -
  obtain n :: nat where n: "sensitivityCap (sensitivityLevel opts) = of_nat n"
    using cap_nat by blast
  define x where "x = cp (step_length U opts (normalizeText U text) (fst (after_passes U opts text)))"
  have m: "morpoint (sensitivityLevel opts) = Some (of_nat n)"
    using morpoint_cap[OF assms(2)] n by simp
  have c: "checkpoint (detect U (JStr text) opts) = toFixed 2 (parseNumber x (Some (of_nat n)))"
    by (simp add: detect_long[OF assms(1)] detect_text_def Let_def m x_def)
  have "0 \<le> parseNumber x (Some (of_nat n))" "parseNumber x (Some (of_nat n)) \<le> of_nat n"
    by (auto simp: parseNumber_def)
  then show ?thesis
    using toFixed_range c n by simp
qed

theorem checkpoint_in_range_witness:
  "0 \<le> checkpoint (detect ascii_tables (JStr (js ''slot'')) default_options) \<and>
   checkpoint (detect ascii_tables (JStr (js ''slot'')) default_options) \<le> 3"
proof -
  have g: "2 \<le> length (trim (js ''slot''))" by code_simp
  have l: "sensitivityLevel default_options \<le> 0 \<or> sensitivityLevel default_options \<in> {1, 2, 3, 4, 5}"
    by (simp add: default_options_def)
  have "sensitivityCap (sensitivityLevel default_options) = 3"
    by (simp add: default_options_def sensitivityCap_def)
  then show ?thesis
    using checkpoint_in_range[OF g l, of ascii_tables] by simp
qed

subsection \<open>The guard of \<open>detect\<close>\<close>

text \<open>
  Claim C8, as amended. For every input that is falsy, not a string, or whose trimmed length
  is below 2, \<open>detect\<close> returns at once \<open>isGambling = false\<close>, confidence \<open>none\<close>, checkpoint 0
  and no analysis; \<open>comment\<close> is the input unchanged, except for the input \<open>undefined\<close>, which
  the default of the parameter has replaced by the empty string.
\<close>

theorem guard_result:
  assumes "rejected t"
  shows "isGambling (detect U t opts) = False \<and>
         confidence (detect U t opts) = NoConfidence \<and>
         checkpoint (detect U t opts) = 0 \<and>
         analysis (detect U t opts) = None \<and>
         comment (detect U t opts) = (if t = JUndefined then JStr [] else t)"
  using assms by (cases t) (auto simp: detect_def tooShort_def rejected_def Let_def)

theorem guard_result_witness:
  "rejected (JStr (js ''a'')) \<and>
   isGambling (detect ascii_tables (JStr (js ''a'')) default_options) = False \<and>
   confidence (detect ascii_tables (JStr (js ''a'')) default_options) = NoConfidence \<and>
   checkpoint (detect ascii_tables (JStr (js ''a'')) default_options) = 0 \<and>
   comment (detect ascii_tables (JStr (js ''a'')) default_options) = JStr (js ''a'')"
proof -
  have "length (trim (js ''a'')) < 2" by code_simp
  then have r: "rejected (JStr (js ''a''))" by (simp add: rejected_def)
  show ?thesis using r guard_result[OF r, of ascii_tables default_options] by simp
qed

text \<open>
  The claim as it was stated fails at \<open>undefined\<close>: the input is rejected and the comment is
  not the input.
\<close>

theorem guard_counterexample:
  "rejected JUndefined \<and> comment (detect ascii_tables JUndefined default_options) \<noteq> JUndefined"
  by (simp add: detect_def tooShort_def rejected_def Let_def)

subsection \<open>\<open>detectBatch\<close>\<close>

text \<open>
  Claim C10. For an array of texts the promise of \<open>detectBatch\<close> is fulfilled with the
  results of \<open>detect\<close> on the elements, in order; for any other input \<open>x\<close> with the single
  result of \<open>detect(String(x), options)\<close>.
\<close>

theorem detectBatch_elementwise:
  "(\<forall>ts. texts = JArr ts \<longrightarrow>
      (\<exists>rs. detectBatch U texts opts = Fulfilled rs \<and> length rs = length ts \<and>
            (\<forall>i < length ts. rs ! i = detect U (ts ! i) opts))) \<and>
   ((\<forall>ts. texts \<noteq> JArr ts) \<longrightarrow>
      detectBatch U texts opts = Fulfilled [detect U (JStr (toString U texts)) opts])"
  by (cases texts) (auto simp: detectBatch_def)

theorem detectBatch_witness:
  "(\<exists>rs. detectBatch ascii_tables (JArr [JStr (js ''a''), JNull]) default_options = Fulfilled rs \<and>
         length rs = 2 \<and>
         rs ! 0 = detect ascii_tables (JStr (js ''a'')) default_options \<and>
         rs ! 1 = detect ascii_tables JNull default_options) \<and>
   detectBatch ascii_tables (JBool True) default_options =
     Fulfilled [detect ascii_tables (JStr (js ''true'')) default_options]"
proof -
  have a: "\<exists>rs. detectBatch ascii_tables (JArr [JStr (js ''a''), JNull]) default_options = Fulfilled rs \<and>
         length rs = length [JStr (js ''a''), JNull] \<and>
         (\<forall>i < length [JStr (js ''a''), JNull].
            rs ! i = detect ascii_tables ([JStr (js ''a''), JNull] ! i) default_options)"
    using detectBatch_elementwise[of "JArr [JStr (js ''a''), JNull]" ascii_tables default_options]
    by blast
  have b: "detectBatch ascii_tables (JBool True) default_options =
     Fulfilled [detect ascii_tables (JStr (toString ascii_tables (JBool True))) default_options]"
    using detectBatch_elementwise[of "JBool True" ascii_tables default_options] by simp
  from a obtain rs where rs: "detectBatch ascii_tables (JArr [JStr (js ''a''), JNull]) default_options = Fulfilled rs"
    "length rs = 2" "\<forall>i < 2. rs ! i = detect ascii_tables ([JStr (js ''a''), JNull] ! i) default_options"
    by auto
  have "rs ! 0 = detect ascii_tables (JStr (js ''a'')) default_options"
    "rs ! 1 = detect ascii_tables JNull default_options"
    using rs(3) by (auto simp: numeral_2_eq_2 less_Suc_eq)
  then show ?thesis using rs(1,2) b by auto
qed

subsection \<open>The errors of \<open>fuzzySearch\<close>\<close>

lemma split_segs_nonempty: "split_segs cur gs \<noteq> []"
  by (induction cur gs rule: split_segs.induct) auto

lemma fuzzy_items_error:
  "(\<exists>e. fuzzy_items U md ms word items = Inl e) \<longleftrightarrow> (\<exists>item \<in> set items. \<not> is_string item)"
proof (induction items)
  case Nil
  then show ?case by simp
next
  case (Cons item items)
  show ?case
  proof (cases item)
    case (JStr s)
    then show ?thesis using Cons by (auto simp: Let_def split: sum.splits)
  qed (auto)
qed

lemma fuzzy_words_error:
  "(\<exists>e. fuzzy_words U md ms items ws = Inl e) \<longleftrightarrow> (ws \<noteq> [] \<and> (\<exists>item \<in> set items. \<not> is_string item))"
proof (induction ws)
  case Nil
  then show ?case by simp
next
  case (Cons w ws)
  show ?case
    using Cons fuzzy_items_error[of U md ms w items]
    by (auto split: sum.splits)
qed

text \<open>
  Claim C9, as amended. \<open>fuzzySearch\<close> throws a type error if and only if its list is not an
  array, or its query is not a string, or the query is not blank and an element of the list
  is not a string; for an array and a blank query it returns the empty sequence.
\<close>

theorem fuzzySearch_errors:
  "((\<exists>e. fuzzySearch U list query maxDistance minScore = Inl e) \<longleftrightarrow>
      (case list of
         JArr items \<Rightarrow>
           (case query of
              JStr q \<Rightarrow> trim q \<noteq> [] \<and> (\<exists>item \<in> set items. \<not> is_string item)
            | _ \<Rightarrow> True)
       | _ \<Rightarrow> True)) \<and>
   (\<forall>items q. list = JArr items \<and> query = JStr q \<and> trim q = [] \<longrightarrow>
      fuzzySearch U list query maxDistance minScore = Inr [])"
proof -
  have w: "split_rx U False rx_spaces s \<noteq> []" for s
    by (simp add: split_rx_def split_segs_nonempty)
  show ?thesis
  proof (cases list)
    case (JArr items)
    show ?thesis
    proof (cases query)
      case (JStr q)
      define md where "md = (case maxDistance of None \<Rightarrow> 2 | Some d \<Rightarrow> d)"
      define ms where "ms = (case minScore of None \<Rightarrow> 5 / 10 | Some m \<Rightarrow> (m::rat))"
      define ws where "ws = split_rx U False rx_spaces (fuzzy_normalize U q)"
      have e: "(\<exists>e. fuzzy_words U md ms items ws = Inl e) \<longleftrightarrow> (\<exists>item \<in> set items. \<not> is_string item)"
        using fuzzy_words_error[of U md ms items ws] w by (simp add: ws_def)
      have "(\<exists>e. fuzzySearch U (JArr items) (JStr q) maxDistance minScore = Inl e) \<longleftrightarrow>
            (trim q \<noteq> [] \<and> (\<exists>e. fuzzy_words U md ms items ws = Inl e))"
        by (auto simp: fuzzySearch_def md_def ms_def ws_def split: sum.splits)
      then have "(\<exists>e. fuzzySearch U (JArr items) (JStr q) maxDistance minScore = Inl e) \<longleftrightarrow>
            (trim q \<noteq> [] \<and> (\<exists>item \<in> set items. \<not> is_string item))"
        using e by simp
      then show ?thesis using JArr JStr by (auto simp: fuzzySearch_def)
    qed (auto simp: fuzzySearch_def JArr)
  qed (auto simp: fuzzySearch_def)
qed

theorem fuzzySearch_errors_witness:
  "(\<exists>e. fuzzySearch ascii_tables (JArr [JStr (js ''slot''), JNum 7]) (JStr (js ''a'')) None None = Inl e) \<and>
   (\<exists>e. fuzzySearch ascii_tables JNull (JStr (js ''a'')) None None = Inl e) \<and>
   (\<exists>e. fuzzySearch ascii_tables (JArr []) (JNum 1) None None = Inl e) \<and>
   \<not> (\<exists>e. fuzzySearch ascii_tables (JArr [JStr (js ''slot'')]) (JStr (js ''a'')) None None = Inl e) \<and>
   fuzzySearch ascii_tables (JArr [JNull]) (JStr (js '' '')) None None = Inr []"
proof -
  have a: "trim (js ''a'') \<noteq> []" by code_simp
  have b: "trim (js '' '') = []" by code_simp
  show ?thesis
    using a b
      fuzzySearch_errors[of ascii_tables "JArr [JStr (js ''slot''), JNum 7]" "JStr (js ''a'')" None None]
      fuzzySearch_errors[of ascii_tables JNull "JStr (js ''a'')" None None]
      fuzzySearch_errors[of ascii_tables "JArr []" "JNum 1" None None]
      fuzzySearch_errors[of ascii_tables "JArr [JStr (js ''slot'')]" "JStr (js ''a'')" None None]
      fuzzySearch_errors[of ascii_tables "JArr [JNull]" "JStr (js '' '')" None None]
    by simp
qed

text \<open>
  The claim as it was stated fails at the list \<open>[null]\<close> and the query \<open>"a"\<close>: both
  arguments are valid and a type error is thrown.
\<close>

theorem fuzzySearch_counterexample:
  "\<not> ((\<exists>e. fuzzySearch ascii_tables (JArr [JNull]) (JStr (js ''a'')) None None = Inl e) \<longleftrightarrow>
        ((\<forall>items. JArr [JNull] \<noteq> JArr items) \<or> (\<forall>q. JStr (js ''a'') \<noteq> JStr q)))"
proof -
  have "trim (js ''a'') \<noteq> []" by code_simp
  then have "\<exists>e. fuzzySearch ascii_tables (JArr [JNull]) (JStr (js ''a'')) None None = Inl e"
    using fuzzy_words_error[of ascii_tables 2 "5 / 10" "[JNull]"
        "split_rx ascii_tables False rx_spaces (fuzzy_normalize ascii_tables (js ''a''))"]
    by (auto simp: fuzzySearch_def split_rx_def split_segs_nonempty split: sum.splits)
  then show ?thesis by simp
qed

subsection \<open>The ratio of \<open>isMostlyAsciiGarbage\<close>\<close>

lemma scan_class_pos:
  "scan U False (Set False rs) p 0 s =
     map (\<lambda>c. if in_ranges c rs then Mat [c] [] else Txt c) s"
  by (induction s arbitrary: p) (simp_all add: try_at_def in_set_def)

lemma scan_class_neg:
  "scan U False (Set True rs) p 0 s =
     map (\<lambda>c. if in_ranges c rs then Txt c else Mat [c] []) s"
  by (induction s arbitrary: p) (simp_all add: try_at_def in_set_def)

lemma matches_of_class_neg:
  "matches_of (map (\<lambda>c. if in_ranges c rs then Txt c else Mat [c] []) s) =
     map (\<lambda>c. [c]) (filter (\<lambda>c. \<not> in_ranges c rs) s)"
  by (induction s) auto

lemma garbage_matches:
  "length (match_all U False asciiGarbageRegex s) = length (filter garbage s)"
proof -
  have "match_all U False asciiGarbageRegex s =
          map (\<lambda>c. [c]) (filter (\<lambda>c. \<not> in_ranges c (rg ''azAZ09'' @ cs_space @ sg ''.,!?'')) s)"
    unfolding match_all_def asciiGarbageRegex_def ncls_def scan_class_neg matches_of_class_neg ..
  also have "(\<lambda>c. \<not> in_ranges c (rg ''azAZ09'' @ cs_space @ sg ''.,!?'')) = garbage"
    unfolding garbage_def ..
  finally show ?thesis by simp
qed

text \<open>
  Claim C6, as amended. The default threshold of \<open>isMostlyAsciiGarbage\<close> is 0.6 (\<open>detect\<close>
  passes 0.45); the function returns true exactly when the text is not empty and the ratio of
  its characters outside \<^verbatim>\<open>[A-Za-z0-9\s.,!?]\<close> to its length is at least the threshold. At
  the threshold 0.45 a text with exactly 45% such characters gives true and one with 44.9%
  gives false.
\<close>

theorem garbage_threshold:
  "isMostlyAsciiGarbage U (JStr s) threshold =
     (s \<noteq> [] \<and> garbage_ratio s \<ge> (case threshold of None \<Rightarrow> 6 / 10 | Some t \<Rightarrow> t)) \<and>
   (s \<noteq> [] \<and> 100 * length (filter garbage s) = 45 * length s \<longrightarrow>
      isMostlyAsciiGarbage U (JStr s) (Some (45 / 100))) \<and>
   (s \<noteq> [] \<and> 1000 * length (filter garbage s) = 449 * length s \<longrightarrow>
      \<not> isMostlyAsciiGarbage U (JStr s) (Some (45 / 100)))"
proof -
  have a: "isMostlyAsciiGarbage U (JStr s) th =
     (s \<noteq> [] \<and> garbage_ratio s \<ge> (case th of None \<Rightarrow> 6 / 10 | Some t \<Rightarrow> t))" for th
    by (simp add: isMostlyAsciiGarbage_def Let_def garbage_matches garbage_ratio_def)
  have b: "garbage_ratio s = 45 / 100" if "s \<noteq> []" "100 * length (filter garbage s) = 45 * length s"
  proof -
    have "(100 :: rat) * of_nat (length (filter garbage s)) = 45 * of_nat (length s)"
      using that(2) by (metis of_nat_mult of_nat_numeral)
    then show ?thesis using that(1) by (simp add: garbage_ratio_def field_simps)
  qed
  have c: "garbage_ratio s = 449 / 1000" if "s \<noteq> []" "1000 * length (filter garbage s) = 449 * length s"
  proof -
    have "(1000 :: rat) * of_nat (length (filter garbage s)) = 449 * of_nat (length s)"
      using that(2) by (metis of_nat_mult of_nat_numeral)
    then show ?thesis using that(1) by (simp add: garbage_ratio_def field_simps)
  qed
  show ?thesis using a b c by auto
qed

lemma g64: "garbage 64" by code_simp
lemma g97: "\<not> garbage 97" by code_simp

lemma filter_garbage_replicate:
  "filter garbage (replicate m 64 @ replicate n 97) = replicate m 64"
  using g64 g97 by simp

theorem garbage_threshold_witness:
  "isMostlyAsciiGarbage ascii_tables (JStr (replicate 9 64 @ replicate 11 97)) (Some (45 / 100)) \<and>
   \<not> isMostlyAsciiGarbage ascii_tables (JStr (replicate 449 64 @ replicate 551 97)) (Some (45 / 100))"
proof -
  have h1: "replicate 9 64 @ replicate 11 97 \<noteq> ([] :: jsstring) \<and>
      100 * length (filter garbage (replicate 9 64 @ replicate 11 97)) =
      45 * length (replicate 9 64 @ replicate 11 (97 :: jschar))"
    unfolding filter_garbage_replicate by simp
  have h2: "replicate 449 64 @ replicate 551 97 \<noteq> ([] :: jsstring) \<and>
      1000 * length (filter garbage (replicate 449 64 @ replicate 551 97)) =
      449 * length (replicate 449 64 @ replicate 551 (97 :: jschar))"
    unfolding filter_garbage_replicate by simp
  show ?thesis
    using garbage_threshold[of ascii_tables "replicate 9 64 @ replicate 11 97" "Some (45 / 100)"]
      garbage_threshold[of ascii_tables "replicate 449 64 @ replicate 551 97" "Some (45 / 100)"]
      h1 h2
    by blast
qed

text \<open>
  The claim as it was stated fails at \<open>"@a"\<close>: half of the characters are outside the class,
  and the call without a threshold gives false.
\<close>

theorem garbage_default_counterexample:
  "garbage_ratio (js ''@a'') \<ge> 45 / 100 \<and> \<not> isMostlyAsciiGarbage ascii_tables (JStr (js ''@a'')) None"
  by code_simp

subsection \<open>The allowlist\<close>

lemma set_uniq: "set (uniq seen xs) = set seen \<union> set xs"
  by (induction seen xs rule: uniq.induct) auto

lemma set_set_of: "set (set_of xs) = set xs"
  by (simp add: set_of_def set_uniq)

lemma clean_add [simp]: "clean U A (add d st) = clean U A st"
  by (simp add: clean_def add_def)

lemma clean_noted [simp]: "clean U A (noted opts k v st) = clean U A st"
  by (simp add: clean_def noted_def)

lemma clean_push [simp]: "clean U A (push_history t st) = clean U A st"
  by (simp add: clean_def push_history_def)

lemma clean_limit [simp]: "clean U A (limit_history st) = clean U A st"
  by (simp add: clean_def limit_history_def)

lemma clean_record:
  "clean U (ev_allowSet E) st \<Longrightarrow> clean U (ev_allowSet E) (record_matches U (notAllowed U E ms) st)"
  by (auto simp: clean_def record_matches_def notAllowed_def set_set_of)

lemma clean_retry:
  "clean U A st \<Longrightarrow> clean U A (snd (retry_matches U E textFixed ap la ms st))"
  by (simp add: retry_matches_def Let_def)

lemma clean_foldl:
  "clean U A st \<Longrightarrow> clean U A (foldl (\<lambda>s el. if P el then add d s else s) st xs)"
  by (induction xs arbitrary: st) auto

lemma clean_history:
  "clean U A st \<Longrightarrow> clean U A (history_check U pattern st)"
  by (simp add: history_check_def clean_foldl)

lemma clean_fuzzy:
  "clean U (ev_allowSet E) st \<Longrightarrow>
   clean U (ev_allowSet E) (outcome_state (fuzzy_retry U E textFixed converted ap pattern la st))"
  by (auto simp: fuzzy_retry_def Let_def clean_record split: list.splits)

lemma clean_step:
  assumes "clean U (ev_allowSet E) st"
  shows "clean U (ev_allowSet E) (outcome_state (approach_step U E processedText textFixed converted ap la st))"
proof (cases "ap_pattern ap")
  case None
  then show ?thesis using assms by (simp add: approach_step_def)
next
  case (Some pattern)
  define r where "r = retry_matches U E textFixed ap la (match_all U True pattern (strip_spaces U converted)) st"
  define st2 where "st2 = history_check U pattern (snd r)"
  have c2: "clean U (ev_allowSet E) st2"
    using assms by (simp add: st2_def r_def clean_history clean_retry)
  show ?thesis
    using c2 clean_fuzzy[of U E _ textFixed converted ap pattern] clean_record[of U E _]
    by (simp add: approach_step_def Some Let_def r_def[symmetric] st2_def[symmetric])
qed

lemma clean_approach_loop:
  "clean U (ev_allowSet E) st \<Longrightarrow>
   clean U (ev_allowSet E) (fst (approach_loop U E processedText textFixed converted aps la st))"
proof (induction aps arbitrary: la st)
  case Nil
  then show ?case by simp
next
  case (Cons ap aps)
  show ?case
    using clean_step[OF Cons.prems, of processedText textFixed converted ap la] Cons.IH
    by (cases "approach_step U E processedText textFixed converted ap la st") auto
qed

lemma clean_support:
  "clean U A st \<Longrightarrow> clean U A (support_keywords U E converted st)"
  by (simp add: support_keywords_def Let_def)

lemma clean_ignore_loop:
  "clean U (ev_allowSet E) st \<Longrightarrow>
   clean U (ev_allowSet E) (fst (ignore_loop U E processedText w igs st))"
proof (induction igs arbitrary: st)
  case Nil
  then show ?case by simp
next
  case (Cons ig igs)
  define textFixed where "textFixed = convertCommentFixed U processedText ig"
  define converted where "converted = combineShortWords U (cleanWeirdPatterns U textFixed)"
  obtain st' found where l: "approach_loop U E processedText textFixed converted (patternApproaches E w) 0 st = (st', found)"
    by fastforce
  have "clean U (ev_allowSet E) st'"
    using clean_approach_loop[OF Cons.prems, of processedText textFixed converted "patternApproaches E w" 0] l
    by simp
  then show ?case
    using Cons.IH[of st'] l
    by (simp add: Let_def textFixed_def[symmetric] converted_def[symmetric] clean_support)
qed

lemma clean_pass_loop:
  "clean U (ev_allowSet E) st \<Longrightarrow> clean U (ev_allowSet E) (fst (pass_loop U E merged ps st))"
proof (induction ps arbitrary: st)
  case Nil
  then show ?case by simp
next
  case (Cons p ps)
  obtain st' d where l: "ignore_loop U E (converter U p merged) (weight p) [0, 1, 2, 3, 4, 5, 6] st = (st', d)"
    by fastforce
  have "clean U (ev_allowSet E) st'"
    using clean_ignore_loop[OF Cons.prems, of "converter U p merged" "weight p" "[0, 1, 2, 3, 4, 5, 6]"] l
    by simp
  then show ?case using Cons.IH[of st'] l by simp
qed

lemma clean_after:
  "clean U (lowerSet U (allowlist opts)) (fst (after_passes U opts text))"
proof -
  have "ev_allowSet (env_of U opts text) = lowerSet U (allowlist opts)"
    by (simp add: env_of_def)
  moreover have "clean U A \<lparr> cp = c, an = a, st_allMatches = [], st_matchedTerms = [], st_fuzzyHistory = [] \<rparr>" for A c a
    by (simp add: clean_def)
  ultimately show ?thesis
    using clean_pass_loop[of U "env_of U opts text"]
    by (simp add: after_passes_def Let_def)
qed

lemma clean_length [simp]: "clean U A (step_length U opts rawText st) = clean U A st"
  by (simp add: step_length_def Let_def)

lemma map_of_put: "map_of (put k v a) k' = (if k' = k then Some v else map_of a k')"
  by (induction a) auto

lemma reported_allMatches:
  "set (reported ''allMatches'' \<lparr> isGambling = g, confidence = c, checkpoint = x, details = d,
       comment = cm, analysis = result_analysis U opts rawText st \<rparr>) \<subseteq> set (st_allMatches st)"
  by (auto simp: reported_def result_analysis_def Let_def map_of_put set_set_of
           split: option.splits aval.splits if_splits)

lemma reported_matchedTerms:
  "set (reported ''matchedTerms'' \<lparr> isGambling = g, confidence = c, checkpoint = x, details = d,
       comment = cm, analysis = result_analysis U opts rawText st \<rparr>) \<subseteq> set (st_matchedTerms st)"
  by (auto simp: reported_def result_analysis_def Let_def map_of_put
           split: option.splits aval.splits if_splits)

lemma set_lowerSet: "set (lowerSet U xs) = toLowerCase U ` set xs"
  by (simp add: lowerSet_def set_set_of)

text \<open>
  What the allowlist filter does guarantee, for every text, every allowlist and every term
  \<open>k\<close> of it: no string in the \<open>allMatches\<close> of the result is equal to \<open>k\<close> without regard
  to case, and no string in its \<open>matchedTerms\<close> is the lower case of \<open>k\<close>, whichever approach
  or pass recorded the match.
\<close>

theorem allowlist_excluded:
  "(\<forall>m \<in> set (reported ''allMatches'' (detect U (JStr text) opts)).
      \<forall>k \<in> set (allowlist opts). toLowerCase U m \<noteq> toLowerCase U k) \<and>
   (\<forall>t \<in> set (reported ''matchedTerms'' (detect U (JStr text) opts)).
      \<forall>k \<in> set (allowlist opts). t \<noteq> toLowerCase U k)"
proof (cases "2 \<le> length (trim text) \<and> text \<noteq> []")
  case False
  then have "analysis (detect U (JStr text) opts) = None"
    by (auto simp: detect_def tooShort_def Let_def)
  then show ?thesis by (simp add: reported_def)
next
  case True
  define st where "st = step_length U opts (normalizeText U text) (fst (after_passes U opts text))"
  have c: "clean U (lowerSet U (allowlist opts)) st"
    by (simp add: st_def clean_after)
  have d: "detect U (JStr text) opts = detect_text U text opts"
    using True by (simp add: detect_def)
  have a: "set (reported ''allMatches'' (detect U (JStr text) opts)) \<subseteq> set (st_allMatches st)"
    unfolding d detect_text_def Let_def st_def by (rule reported_allMatches)
  have b: "set (reported ''matchedTerms'' (detect U (JStr text) opts)) \<subseteq> set (st_matchedTerms st)"
    unfolding d detect_text_def Let_def st_def by (rule reported_matchedTerms)
  show ?thesis
    using a b c unfolding clean_def set_lowerSet by blast
qed

section \<open>Evaluation\<close>

subsection \<open>The keywords and the patterns\<close>

lemma mainKeywords_code [code]:
  "mainKeywords =
     [([115, 108, 111, 116], 1), ([99, 97, 115, 105, 110, 111], 1), ([106, 97, 99, 107], 1),
     ([122, 101, 117, 115], 1), ([115, 99, 97, 116, 116, 101, 114], 1), ([116, 111, 116, 111],
     1), ([106, 117, 100, 111, 108], 1), ([106, 111, 100, 111, 108], 1), ([112, 111, 107, 101,
     114], 1), ([114, 111, 117, 108, 101, 116, 116, 101], 1), ([98, 101, 116, 116, 105, 110,
     103], 1), ([103, 97, 109, 98, 108, 101], 1), ([106, 111, 107, 101, 114], 1)]"
  unfolding mainKeywords_def by code_simp

lemma substitutionMap_code [code]:
  "substitutionMap =
     [(49, 105), (50, 122), (51, 101), (52, 97), (53, 115), (54, 103), (55, 116), (56, 98),
      (57, 103), (48, 111), (33, 105), (38, 101), (64, 97), (35, 104)]"
  unfolding substitutionMap_def by code_simp

lemma dedup_again:
  "set ys \<subseteq> set seen \<Longrightarrow> uniq seen ys = rev seen"
  by (induction ys) auto

lemma uniq_append:
  "uniq seen (xs @ ys) = uniq (rev (uniq seen xs)) ys"
  by (induction seen xs rule: uniq.induct) auto

lemma set_of_twice: "set_of (xs @ xs) = set_of xs"
  by (simp add: set_of_def uniq_append dedup_again set_uniq)

lemma keywordList_default:
  assumes "supportKeywords opts = []" and "domains opts = []"
  shows "keywordList_of U opts = filter (\<lambda>word. length (trim word) > 0) (set_of defaultSupportKeywords)"
  using assms by (simp add: keywordList_of_def lowerSet_def set_of_twice) (simp add: set_of_def)

lemma supportList_code [code]:
  "supportList =
     [[119, 100, 112], [119, 100], [119, 105, 110], [104, 97, 112, 112, 121], [106, 111, 121,
     102, 117, 108], [114, 105, 99, 104], [116, 114, 117, 115, 116, 119, 111, 114, 116, 104,
     121], [108, 117, 99, 107, 121], [116, 114, 117, 115, 116], [100, 101, 102, 105, 110, 105,
     116, 101, 108, 121, 32, 103, 101, 116], [106, 112], [106, 97, 99, 107, 112, 111, 116],
     [112, 114, 111, 117, 100], [104, 97, 114, 118, 101, 115, 116], [115, 109, 97, 114, 116],
     [103, 97, 109, 98, 108, 105], [103, 114, 101, 97, 116], [109, 111, 110, 101, 121, 32, 98,
     97, 99, 107], [116, 114, 117, 115, 116, 101, 100], [98, 101, 97, 117, 116, 105, 102, 117,
     108], [102, 105, 115, 104, 105, 110, 103], [98, 101, 116], [112, 117, 116], [98, 111, 110,
     117, 115], [100, 112], [112, 97, 121], [101, 110, 111, 117, 103, 104], [103, 97, 109, 101],
     [112, 108, 97, 121], [100, 101, 112, 111, 115, 105, 116], [119, 105, 116, 104, 100, 114,
     97, 119], [109, 105, 110], [109, 97, 120], [119, 105, 110, 110, 105, 110, 103], [102, 111,
     114, 116, 117, 110, 101], [108, 117, 99, 107], [112, 114, 105, 122, 101], [114, 101, 119,
     97, 114, 100], [118, 105, 112], [109, 101, 109, 98, 101, 114], [102, 114, 101, 101], [114,
     101, 103, 105, 115, 116, 101, 114], [115, 105, 103, 110], [106, 111, 105, 110], [112, 114,
     111, 102, 105, 116], [101, 97, 114, 110], [109, 111, 110, 101, 121], [99, 97, 115, 104],
     [99, 114, 101, 100, 105, 116], [100, 101, 98, 105, 116], [108, 111, 103, 105, 110], [111,
     102, 102, 105, 99, 105, 97, 108], [111, 114, 105, 103, 105, 110, 97, 108], [103, 101, 110,
     117, 105, 110, 101], [108, 105, 110, 107], [97, 108, 116, 101, 114, 110, 97, 116, 105, 118,
     101], [99, 117, 115, 116, 111, 109, 101, 114], [115, 101, 114, 118, 105, 99, 101], [112,
     114, 111, 118, 105, 100, 101, 114], [119, 101, 108, 99, 111, 109, 101], [112, 114, 111,
     109, 111, 116, 105, 111, 110], [111, 110, 108, 105, 110, 101], [112, 108, 97, 116, 102,
     111, 114, 109], [97, 112, 112], [97, 112, 112, 108, 105, 99, 97, 116, 105, 111, 110], [97,
     108, 116, 101, 114, 110, 97, 116, 105], [115, 99, 97, 116, 116, 101, 114], [119, 97, 103,
     101, 114], [98, 97, 99, 99, 97, 114, 97, 116], [98, 108, 97, 99, 107, 106, 97, 99, 107],
     [100, 105, 99, 101], [115, 112, 105, 110], [109, 117, 108, 116, 105, 112, 108, 105, 101,
     114], [111, 100, 100, 115], [109, 101, 110, 97, 110, 103], [115, 101, 110, 97, 110, 103],
     [103, 97, 99, 111, 114], [103, 101, 109, 98, 105, 114, 97], [107, 97, 121, 97], [112, 97,
     115, 116, 105, 32, 100, 97, 112, 97, 116], [98, 97, 110, 103, 103, 97], [112, 97, 110, 101,
     110], [98, 101, 114, 117, 110, 116, 117, 110, 103], [117, 110, 116, 117, 110, 103], [109,
     97, 110, 99, 105, 110, 103], [117, 97, 110, 103, 32, 107, 101, 109, 98, 97, 108, 105],
     [100, 105, 112, 101, 114, 99, 97, 121, 97], [97, 109, 97, 110, 97, 104], [116, 101, 114,
     112, 101, 114, 99, 97, 121, 97], [99, 97, 110, 116, 105, 107], [112, 97, 110, 99, 105, 110,
     103], [106, 117, 100, 105], [116, 97, 114, 117, 104, 97, 110], [112, 97, 115, 97, 110,
     103], [116, 111, 103, 101, 108], [104, 97, 100, 105, 97, 104], [109, 97, 115, 117, 107],
     [100, 97, 110, 97], [106, 97, 109, 105, 110], [97, 109, 97, 110], [115, 105, 116, 117,
     115], [114, 101, 115, 109, 105], [97, 115, 108, 105], [109, 97, 120, 119, 105, 110], [103,
     97, 109, 112, 97, 110, 103], [98, 111, 99, 111, 114, 97, 110], [112, 114, 101, 100, 105,
     107, 115, 105], [106, 105, 116, 117], [97, 107, 117, 114, 97, 116], [116, 101, 114, 98, 97,
     105, 107], [114, 101, 107, 111, 109, 101, 110, 100, 97, 115, 105], [109, 97, 105, 110],
     [112, 101, 114, 109, 97, 105, 110, 97, 110], [100, 97, 102, 116, 97, 114], [109, 105, 110,
     105, 109, 97, 108], [109, 97, 107, 115, 105, 109, 97, 108], [112, 97, 115, 97, 114, 97,
     110], [110, 111, 109, 111, 114], [112, 101, 116, 97, 114, 117, 104], [112, 101, 108, 117,
     97, 110, 103], [107, 101, 115, 101, 109, 112, 97, 116, 97, 110], [107, 101, 98, 101, 114,
     117, 110, 116, 117, 110, 103, 97, 110], [114, 97, 116, 117, 115, 97, 110], [114, 105, 98,
     117, 97, 110], [106, 117, 116, 97, 97, 110], [97, 108, 116, 101, 114, 110, 97, 116, 105,
     102]]"
proof -
  have "supportList = filter (\<lambda>word. length (trim word) > 0) (set_of defaultSupportKeywords)"
    unfolding supportList_def by (rule keywordList_default) (simp_all add: default_options_def)
  also have "\<dots> =
         [[119, 100, 112], [119, 100], [119, 105, 110], [104, 97, 112, 112, 121], [106, 111,
         121, 102, 117, 108], [114, 105, 99, 104], [116, 114, 117, 115, 116, 119, 111, 114, 116,
         104, 121], [108, 117, 99, 107, 121], [116, 114, 117, 115, 116], [100, 101, 102, 105,
         110, 105, 116, 101, 108, 121, 32, 103, 101, 116], [106, 112], [106, 97, 99, 107, 112,
         111, 116], [112, 114, 111, 117, 100], [104, 97, 114, 118, 101, 115, 116], [115, 109,
         97, 114, 116], [103, 97, 109, 98, 108, 105], [103, 114, 101, 97, 116], [109, 111, 110,
         101, 121, 32, 98, 97, 99, 107], [116, 114, 117, 115, 116, 101, 100], [98, 101, 97, 117,
         116, 105, 102, 117, 108], [102, 105, 115, 104, 105, 110, 103], [98, 101, 116], [112,
         117, 116], [98, 111, 110, 117, 115], [100, 112], [112, 97, 121], [101, 110, 111, 117,
         103, 104], [103, 97, 109, 101], [112, 108, 97, 121], [100, 101, 112, 111, 115, 105,
         116], [119, 105, 116, 104, 100, 114, 97, 119], [109, 105, 110], [109, 97, 120], [119,
         105, 110, 110, 105, 110, 103], [102, 111, 114, 116, 117, 110, 101], [108, 117, 99,
         107], [112, 114, 105, 122, 101], [114, 101, 119, 97, 114, 100], [118, 105, 112], [109,
         101, 109, 98, 101, 114], [102, 114, 101, 101], [114, 101, 103, 105, 115, 116, 101,
         114], [115, 105, 103, 110], [106, 111, 105, 110], [112, 114, 111, 102, 105, 116], [101,
         97, 114, 110], [109, 111, 110, 101, 121], [99, 97, 115, 104], [99, 114, 101, 100, 105,
         116], [100, 101, 98, 105, 116], [108, 111, 103, 105, 110], [111, 102, 102, 105, 99,
         105, 97, 108], [111, 114, 105, 103, 105, 110, 97, 108], [103, 101, 110, 117, 105, 110,
         101], [108, 105, 110, 107], [97, 108, 116, 101, 114, 110, 97, 116, 105, 118, 101], [99,
         117, 115, 116, 111, 109, 101, 114], [115, 101, 114, 118, 105, 99, 101], [112, 114, 111,
         118, 105, 100, 101, 114], [119, 101, 108, 99, 111, 109, 101], [112, 114, 111, 109, 111,
         116, 105, 111, 110], [111, 110, 108, 105, 110, 101], [112, 108, 97, 116, 102, 111, 114,
         109], [97, 112, 112], [97, 112, 112, 108, 105, 99, 97, 116, 105, 111, 110], [97, 108,
         116, 101, 114, 110, 97, 116, 105], [115, 99, 97, 116, 116, 101, 114], [119, 97, 103,
         101, 114], [98, 97, 99, 99, 97, 114, 97, 116], [98, 108, 97, 99, 107, 106, 97, 99,
         107], [100, 105, 99, 101], [115, 112, 105, 110], [109, 117, 108, 116, 105, 112, 108,
         105, 101, 114], [111, 100, 100, 115], [109, 101, 110, 97, 110, 103], [115, 101, 110,
         97, 110, 103], [103, 97, 99, 111, 114], [103, 101, 109, 98, 105, 114, 97], [107, 97,
         121, 97], [112, 97, 115, 116, 105, 32, 100, 97, 112, 97, 116], [98, 97, 110, 103, 103,
         97], [112, 97, 110, 101, 110], [98, 101, 114, 117, 110, 116, 117, 110, 103], [117, 110,
         116, 117, 110, 103], [109, 97, 110, 99, 105, 110, 103], [117, 97, 110, 103, 32, 107,
         101, 109, 98, 97, 108, 105], [100, 105, 112, 101, 114, 99, 97, 121, 97], [97, 109, 97,
         110, 97, 104], [116, 101, 114, 112, 101, 114, 99, 97, 121, 97], [99, 97, 110, 116, 105,
         107], [112, 97, 110, 99, 105, 110, 103], [106, 117, 100, 105], [116, 97, 114, 117, 104,
         97, 110], [112, 97, 115, 97, 110, 103], [116, 111, 103, 101, 108], [104, 97, 100, 105,
         97, 104], [109, 97, 115, 117, 107], [100, 97, 110, 97], [106, 97, 109, 105, 110], [97,
         109, 97, 110], [115, 105, 116, 117, 115], [114, 101, 115, 109, 105], [97, 115, 108,
         105], [109, 97, 120, 119, 105, 110], [103, 97, 109, 112, 97, 110, 103], [98, 111, 99,
         111, 114, 97, 110], [112, 114, 101, 100, 105, 107, 115, 105], [106, 105, 116, 117],
         [97, 107, 117, 114, 97, 116], [116, 101, 114, 98, 97, 105, 107], [114, 101, 107, 111,
         109, 101, 110, 100, 97, 115, 105], [109, 97, 105, 110], [112, 101, 114, 109, 97, 105,
         110, 97, 110], [100, 97, 102, 116, 97, 114], [109, 105, 110, 105, 109, 97, 108], [109,
         97, 107, 115, 105, 109, 97, 108], [112, 97, 115, 97, 114, 97, 110], [110, 111, 109,
         111, 114], [112, 101, 116, 97, 114, 117, 104], [112, 101, 108, 117, 97, 110, 103],
         [107, 101, 115, 101, 109, 112, 97, 116, 97, 110], [107, 101, 98, 101, 114, 117, 110,
         116, 117, 110, 103, 97, 110], [114, 97, 116, 117, 115, 97, 110], [114, 105, 98, 117,
         97, 110], [106, 117, 116, 97, 97, 110], [97, 108, 116, 101, 114, 110, 97, 116, 105,
         102]]"
    by code_simp
  finally show ?thesis .
qed

lemma keywordList_supportList:
  assumes "supportKeywords opts = []" and "domains opts = []"
  shows "keywordList_of ascii_tables opts = supportList"
  unfolding supportList_def keywordList_default[OF assms]
  by (rule keywordList_default[symmetric]) (simp_all add: default_options_def)

lemma keywords_nonempty: "map fst mainKeywords \<noteq> []"
  by (simp add: mainKeywords_code)

lemma customPatternRegex: "createPatternRegex (map fst mainKeywords) False = Some customPatternRegex"
  using keywords_nonempty by (simp add: customPatternRegex_def createPatternRegex_def)

lemma loosePatternRegex: "createPatternRegex (map fst mainKeywords) True = Some loosePatternRegex"
  using keywords_nonempty by (simp add: loosePatternRegex_def createPatternRegex_def)

lemma tinyPatternRegex: "TinyPatternRegex (map fst mainKeywords) = Some tinyPatternRegex"
  unfolding tinyPatternRegex_def by (simp add: mainKeywords_code TinyPatternRegex_def)

subsection \<open>The text \<open>"casino"\<close>\<close>

lemma casino_code [code]: "casino = [99, 97, 115, 105, 110, 111]"
  unfolding casino_def by code_simp

lemma casino_fixed:
  "convertCommentFixed ascii_tables casino 0 = casino"
  "convertCommentFixed ascii_tables casino (Suc 0) = casino"
  "convertCommentFixed ascii_tables casino 2 = casino"
  "convertCommentFixed ascii_tables casino 3 = casino"
  "convertCommentFixed ascii_tables casino 4 = casino"
  "convertCommentFixed ascii_tables casino 5 = casino"
  "convertCommentFixed ascii_tables casino 6 = casino"
  by code_simp+

lemma casino_cleaned: "cleanWeirdPatterns ascii_tables casino = casino"
  by code_simp

lemma casino_converted: "combineShortWords ascii_tables casino = casino"
  by code_simp

lemma casino_stripped: "strip_spaces ascii_tables casino = casino"
  by code_simp

lemma casino_lower: "toLowerCase ascii_tables casino = casino"
  by code_simp

lemma casino_standard: "match_all ascii_tables True standardPatternRegex casino = [casino]"
  by code_simp

lemma casino_custom: "match_all ascii_tables True customPatternRegex casino = [casino]"
  by code_simp

lemma casino_loose: "match_all ascii_tables True loosePatternRegex casino = [casino]"
  by code_simp

lemma casino_tiny: "match_all ascii_tables True tinyPatternRegex casino = [casino]"
  by code_simp

lemma casino_support:
  "filter (\<lambda>keyword. includes_str casino (toLowerCase ascii_tables keyword)) supportList = []"
  by code_simp

lemma casino_guard: "casino \<noteq> []" "\<not> length (trim casino) < 2"
  by code_simp+

lemma casino_normalizeText: "normalizeText ascii_tables casino = casino"
  by code_simp

lemma casino_garbage: "\<not> isMostlyAsciiGarbage ascii_tables (JStr casino) (Some (45 / 100))"
  by code_simp

lemma casino_merged: "merged_of ascii_tables casino = casino"
  by code_simp

lemma casino_replaced: "fuzzy_replaced_text ascii_tables (map fst mainKeywords) casino = casino"
  by code_simp

lemma casino_site: "match_all ascii_tables True rx_site_id (trim casino) = []"
  by code_simp

lemma casino_words: "wordCount_of ascii_tables casino = 1" "length casino = 6"
  by code_simp+

subsection \<open>The text \<open>"zeus"\<close>\<close>

lemma zeus_code [code]: "zeus = [122, 101, 117, 115]"
  unfolding zeus_def by code_simp

lemma zeus_fixed:
  "convertCommentFixed ascii_tables zeus 0 = zeus"
  "convertCommentFixed ascii_tables zeus (Suc 0) = zeus"
  "convertCommentFixed ascii_tables zeus 2 = zeus"
  "convertCommentFixed ascii_tables zeus 3 = zeus"
  "convertCommentFixed ascii_tables zeus 4 = zeus"
  "convertCommentFixed ascii_tables zeus 5 = zeus"
  "convertCommentFixed ascii_tables zeus 6 = zeus"
  by code_simp+

lemma zeus_cleaned: "cleanWeirdPatterns ascii_tables zeus = zeus"
  by code_simp

lemma zeus_converted: "combineShortWords ascii_tables zeus = zeus"
  by code_simp

lemma zeus_stripped: "strip_spaces ascii_tables zeus = zeus"
  by code_simp

lemma zeus_lower: "toLowerCase ascii_tables zeus = zeus"
  by code_simp

lemma zeus_standard: "match_all ascii_tables True standardPatternRegex zeus = [zeus]"
  by code_simp

lemma zeus_custom: "match_all ascii_tables True customPatternRegex zeus = [zeus]"
  by code_simp

lemma zeus_loose: "match_all ascii_tables True loosePatternRegex zeus = [zeus]"
  by code_simp

lemma zeus_tiny: "match_all ascii_tables True tinyPatternRegex zeus = [zeus]"
  by code_simp

lemma zeus_guard: "zeus \<noteq> []" "\<not> length (trim zeus) < 2"
  by code_simp+

lemma zeus_normalizeText: "normalizeText ascii_tables zeus = zeus"
  by code_simp

lemma zeus_garbage: "\<not> isMostlyAsciiGarbage ascii_tables (JStr zeus) (Some (45 / 100))"
  by code_simp

lemma zeus_merged: "merged_of ascii_tables zeus = zeus"
  by code_simp

lemma zeus_replaced: "fuzzy_replaced_text ascii_tables (map fst mainKeywords) zeus = zeus"
  by code_simp

lemma zeus_site: "match_all ascii_tables True rx_site_id (trim zeus) = []"
  by code_simp

lemma zeus_words: "wordCount_of ascii_tables zeus = 1" "length zeus = 4"
  by code_simp+

subsection \<open>The text \<open>"s l o t"\<close>\<close>

lemma slot_code [code]: "slot = [115, 108, 111, 116]"
  unfolding slot_def by code_simp

lemma slot_fixed:
  "convertCommentFixed ascii_tables slot 0 = slot"
  "convertCommentFixed ascii_tables slot (Suc 0) = slot"
  "convertCommentFixed ascii_tables slot 2 = slot"
  "convertCommentFixed ascii_tables slot 3 = slot"
  "convertCommentFixed ascii_tables slot 4 = slot"
  "convertCommentFixed ascii_tables slot 5 = slot"
  "convertCommentFixed ascii_tables slot 6 = slot"
  by code_simp+

lemma slot_cleaned: "cleanWeirdPatterns ascii_tables slot = slot"
  by code_simp

lemma slot_converted: "combineShortWords ascii_tables slot = slot"
  by code_simp

lemma slot_stripped: "strip_spaces ascii_tables slot = slot"
  by code_simp

lemma slot_lower: "toLowerCase ascii_tables slot = slot"
  by code_simp

lemma slot_standard: "match_all ascii_tables True standardPatternRegex slot = [slot]"
  by code_simp

lemma slot_support:
  "filter (\<lambda>keyword. includes_str slot (toLowerCase ascii_tables keyword)) supportList = []"
  by code_simp

lemma spaced_slot_code [code]: "spaced_slot = [115, 32, 108, 32, 111, 32, 116]"
  unfolding spaced_slot_def by code_simp

lemma spaced_slot_guard: "spaced_slot \<noteq> []" "\<not> length (trim spaced_slot) < 2"
  by code_simp+

lemma spaced_slot_normalizeText: "normalizeText ascii_tables spaced_slot = spaced_slot"
  by code_simp

lemma spaced_slot_garbage: "\<not> isMostlyAsciiGarbage ascii_tables (JStr spaced_slot) (Some (45 / 100))"
  by code_simp

lemma spaced_slot_merged: "merged_of ascii_tables spaced_slot = slot"
  by code_simp

lemma spaced_slot_replaced: "fuzzy_replaced_text ascii_tables (map fst mainKeywords) spaced_slot = spaced_slot"
  by code_simp

lemma spaced_slot_site: "match_all ascii_tables True rx_site_id (trim spaced_slot) = []"
  by code_simp

lemma spaced_slot_words: "wordCount_of ascii_tables spaced_slot = 4" "length spaced_slot = 7"
  by code_simp+

subsection \<open>The scores before the passes\<close>

lemma casino_before: "before_passes ascii_tables sensitive casino = \<lparr> cp = 3 / 10, an = None \<rparr>"
  by code_simp

lemma zeus_before: "before_passes ascii_tables zeus_allowed zeus = \<lparr> cp = 0, an = None \<rparr>"
  by code_simp

lemma spaced_slot_before:
  "before_passes ascii_tables default_options spaced_slot = \<lparr> cp = 3 / 2, an = None \<rparr>"
  by code_simp

lemma spaced_slot_before_verbose:
  "before_passes ascii_tables verbose spaced_slot = \<lparr> cp = 39 / 25, an = Some spaced_analysis \<rparr>"
  by code_simp

lemma spaced_slot_before_allowed:
  "before_passes ascii_tables verbose_zeus_allowed spaced_slot =
     \<lparr> cp = 39 / 25, an = Some spaced_analysis \<rparr>"
  by code_simp

lemma zeus_allowSet: "lowerSet ascii_tables [zeus] = [zeus]"
  by code_simp

lemma slot_not_zeus: "slot \<noteq> zeus"
  by code_simp

subsection \<open>The run on \<open>"casino"\<close> at the sensitivity 5\<close>

lemma casino_env:
  "casino_env =
     \<lparr> ev_opts = sensitive, ev_text = casino, ev_keyword = map fst mainKeywords,
       ev_keywordList = supportList, ev_domainSet = [], ev_allowSet = [],
       ev_sensitivityFactorNorm = Some 1 \<rparr>"
proof -
  have "keywordList_of ascii_tables sensitive = supportList"
    by (rule keywordList_supportList) (simp_all add: sensitive_def default_options_def)
  moreover have "keywordsOpt sensitive = keywordsOpt default_options"
    by (simp add: sensitive_def)
  moreover have "lowerSet ascii_tables (domains sensitive) = []" "lowerSet ascii_tables (allowlist sensitive) = []"
    by (simp_all add: sensitive_def default_options_def lowerSet_def set_of_def)
  moreover have "morpoint (sensitivityLevel sensitive) = Some 1"
    by (simp add: sensitive_def morpoint_def)
  ultimately show ?thesis
    by (simp add: casino_env_def env_of_def mainKeywords_def[symmetric] casino_replaced)
qed

text \<open>
  One iteration over the four approaches: each pattern matches \<open>"casino"\<close>, the match is
  recorded, the tiny approach adds 0.03, and no approach stops the loop while the score is at
  most 0.5. The seventh iteration starts at 0.48: its tiny approach reaches 0.51 and stops.
\<close>

lemma casino_iteration:
  assumes "c + 3 / 100 \<le> 1 / 2" and "mt = [] \<or> mt = [casino]"
  shows "approach_loop ascii_tables casino_env casino casino casino (patternApproaches casino_env w) 0
           \<lparr> cp = c, an = None, st_allMatches = ms, st_matchedTerms = mt, st_fuzzyHistory = [] \<rparr> =
         (\<lparr> cp = c + 3 / 100, an = None, st_allMatches = ms @ [casino, casino, casino, casino],
            st_matchedTerms = [casino], st_fuzzyHistory = [] \<rparr>, False)"
  using assms
  by (auto simp: casino_env patternApproaches_def customPatternRegex loosePatternRegex tinyPatternRegex
      approach_step_def retry_matches_def history_check_def notAllowed_def record_matches_def
      add_def gt_def ge_def set_of_def Let_def
      casino_stripped casino_standard casino_custom casino_loose casino_tiny casino_site casino_lower)

lemma casino_last_iteration:
  assumes "mt = [] \<or> mt = [casino]"
  shows "approach_loop ascii_tables casino_env casino casino casino (patternApproaches casino_env 1) 0
           \<lparr> cp = 12 / 25, an = None, st_allMatches = ms, st_matchedTerms = mt, st_fuzzyHistory = [] \<rparr> =
         (\<lparr> cp = 19 / 25, an = None, st_allMatches = ms @ [casino, casino, casino, casino],
            st_matchedTerms = [casino], st_fuzzyHistory = [] \<rparr>, True)"
  using assms
  by (auto simp: casino_env patternApproaches_def customPatternRegex loosePatternRegex tinyPatternRegex
      approach_step_def retry_matches_def history_check_def notAllowed_def record_matches_def
      add_def gt_def ge_def set_of_def Let_def
      casino_stripped casino_standard casino_custom casino_loose casino_tiny casino_site casino_lower)

lemma casino_support_keywords:
  "support_keywords ascii_tables casino_env casino st = st"
  by (simp add: support_keywords_def casino_env casino_lower casino_support)

lemma replicate_numeral:
  "replicate (numeral k) x = x # replicate (pred_numeral k) x"
  by (simp add: numeral_eq_Suc)

lemma casino_ignore_loop:
  "ignore_loop ascii_tables casino_env casino 1 [0, 1, 2, 3, 4, 5, 6]
     \<lparr> cp = 3 / 10, an = None, st_allMatches = [], st_matchedTerms = [], st_fuzzyHistory = [] \<rparr> =
   (\<lparr> cp = 19 / 25, an = None, st_allMatches = replicate 28 casino,
      st_matchedTerms = [casino], st_fuzzyHistory = [] \<rparr>, True)"
  by (simp add: casino_fixed casino_cleaned casino_converted casino_iteration casino_last_iteration casino_support_keywords
      replicate_numeral del: approach_loop.simps)

lemma casino_passes:
  "after_passes ascii_tables sensitive casino =
   (\<lparr> cp = 19 / 25, an = None, st_allMatches = replicate 28 casino,
      st_matchedTerms = [casino], st_fuzzyHistory = [] \<rparr>, True)"
  by (simp add: after_passes_def casino_normalizeText casino_before casino_merged
      casino_env_def[symmetric] detectionPasses_def casino_ignore_loop del: ignore_loop.simps One_nat_def)

lemma casino_length:
  "step_length ascii_tables sensitive casino st = st"
  by (simp add: step_length_def avgWordLength_of_def casino_words)

text \<open>
  Claim C1, at the text \<open>"casino"\<close> and the sensitivity 5. A pattern match fired: the passes
  end with a detection. The checkpoint 0.76 is below the low threshold 5/6, and the result has
  \<open>isGambling = false\<close> and the confidence \<open>none\<close>: the classification of the code has no
  branch for a detection below the low threshold.
\<close>

theorem casino_detected_not_gambling:
  "snd (after_passes ascii_tables sensitive casino) \<and>
   low (confidenceThresholds (sensitivityLevel sensitive)) = 5 / 6 \<and>
   checkpoint (detect ascii_tables (JStr casino) sensitive) = 19 / 25 \<and>
   \<not> isGambling (detect ascii_tables (JStr casino) sensitive) \<and>
   confidence (detect ascii_tables (JStr casino) sensitive) = NoConfidence"
proof -
  have "morpoint (sensitivityLevel sensitive) = Some 1"
    by (simp add: sensitive_def morpoint_def)
  moreover have "confidenceThresholds (sensitivityLevel sensitive) =
      \<lparr> low = 5 / 6, medium = 4 / 3, high = 25 / 6 \<rparr>"
    by (simp add: sensitive_def confidenceThresholds_def)
  moreover have "toFixed 2 (19 / 25) = 19 / 25"
    by code_simp
  ultimately show ?thesis
    using casino_guard casino_garbage
    by (simp add: detect_def detect_text_def casino_normalizeText casino_passes casino_length
        parseNumber_def classify_def Let_def)
qed

subsection \<open>The run on \<open>"zeus"\<close> with \<open>"zeus"\<close> allowed\<close>

lemma zeus_env:
  "zeus_env =
     \<lparr> ev_opts = zeus_allowed, ev_text = zeus, ev_keyword = map fst mainKeywords,
       ev_keywordList = supportList, ev_domainSet = [], ev_allowSet = [zeus],
       ev_sensitivityFactorNorm = Some 3 \<rparr>"
proof -
  have "keywordList_of ascii_tables zeus_allowed = supportList"
    by (rule keywordList_supportList) (simp_all add: zeus_allowed_def default_options_def)
  moreover have "keywordsOpt zeus_allowed = keywordsOpt default_options"
    by (simp add: zeus_allowed_def)
  moreover have "lowerSet ascii_tables (domains zeus_allowed) = []"
    by (simp add: zeus_allowed_def default_options_def lowerSet_def set_of_def)
  moreover have "lowerSet ascii_tables (allowlist zeus_allowed) = [zeus]"
    by (simp add: zeus_allowed_def zeus_allowSet)
  moreover have "morpoint (sensitivityLevel zeus_allowed) = Some 3"
    by (simp add: zeus_allowed_def default_options_def morpoint_def)
  ultimately show ?thesis
    by (simp add: zeus_env_def env_of_def mainKeywords_def[symmetric] zeus_replaced)
qed

text \<open>
  One iteration over the four approaches: each pattern matches \<open>"zeus"\<close>, the allowlist
  removes the match, and the tiny approach has added 0.03 before.
\<close>

lemma zeus_iteration:
  "approach_loop ascii_tables zeus_env zeus zeus zeus (patternApproaches zeus_env w) 0
     \<lparr> cp = c, an = None, st_allMatches = [], st_matchedTerms = [], st_fuzzyHistory = [] \<rparr> =
   (\<lparr> cp = c + 3 / 100, an = None, st_allMatches = [], st_matchedTerms = [],
      st_fuzzyHistory = [] \<rparr>, False)"
  by (simp add: zeus_env patternApproaches_def customPatternRegex loosePatternRegex tinyPatternRegex
      approach_step_def retry_matches_def history_check_def notAllowed_def
      add_def gt_def ge_def Let_def
      zeus_stripped zeus_standard zeus_custom zeus_loose zeus_tiny zeus_site zeus_lower)

lemma zeus_ignore_loop:
  "ignore_loop ascii_tables zeus_env zeus w [0, 1, 2, 3, 4, 5, 6]
     \<lparr> cp = c, an = None, st_allMatches = [], st_matchedTerms = [], st_fuzzyHistory = [] \<rparr> =
   (\<lparr> cp = c + 21 / 100, an = None, st_allMatches = [], st_matchedTerms = [],
      st_fuzzyHistory = [] \<rparr>, False)"
  by (simp add: zeus_fixed zeus_cleaned zeus_converted zeus_iteration del: approach_loop.simps)

lemma zeus_passes:
  "after_passes ascii_tables zeus_allowed zeus =
   (\<lparr> cp = 63 / 100, an = None, st_allMatches = [], st_matchedTerms = [],
      st_fuzzyHistory = [] \<rparr>, False)"
  by (simp add: after_passes_def zeus_normalizeText zeus_before zeus_merged
      zeus_env_def[symmetric] detectionPasses_def zeus_cleaned zeus_converted zeus_ignore_loop
      del: ignore_loop.simps One_nat_def)

lemma zeus_length:
  "step_length ascii_tables zeus_allowed zeus st = st"
  by (simp add: step_length_def avgWordLength_of_def zeus_words)

text \<open>
  Claim C5, at the text \<open>"zeus"\<close> with the allowlist \<open>["zeus"]\<close>. The allowed term is the
  only evidence: the score before the passes is 0, the passes end without a detection and
  record no match. The result has \<open>isGambling = true\<close>, the confidence \<open>low\<close> and the
  checkpoint 0.63: the tiny approach adds 0.03 for its match before the allowlist removes
  it, in each of the 21 iterations.
\<close>

theorem allowlisted_term_flagged:
  "zeus \<in> set (allowlist zeus_allowed) \<and>
   cp (before_passes ascii_tables zeus_allowed zeus) = 0 \<and>
   \<not> snd (after_passes ascii_tables zeus_allowed zeus) \<and>
   st_allMatches (fst (after_passes ascii_tables zeus_allowed zeus)) = [] \<and>
   isGambling (detect ascii_tables (JStr zeus) zeus_allowed) \<and>
   confidence (detect ascii_tables (JStr zeus) zeus_allowed) = Low \<and>
   checkpoint (detect ascii_tables (JStr zeus) zeus_allowed) = 63 / 100"
proof -
  have "morpoint (sensitivityLevel zeus_allowed) = Some 3"
    by (simp add: zeus_allowed_def default_options_def morpoint_def)
  moreover have "confidenceThresholds (sensitivityLevel zeus_allowed) =
      \<lparr> low = 1 / 2, medium = 9 / 10, high = 5 / 2 \<rparr>"
    by (simp add: zeus_allowed_def default_options_def confidenceThresholds_def)
  moreover have "toFixed 2 (63 / 100) = 63 / 100"
    by code_simp
  moreover have "zeus \<in> set (allowlist zeus_allowed)"
    by (simp add: zeus_allowed_def)
  ultimately show ?thesis
    using zeus_guard zeus_garbage
    by (simp add: detect_def detect_text_def zeus_normalizeText zeus_passes zeus_length zeus_before
        parseNumber_def classify_def Let_def)
qed

subsection \<open>The runs on \<open>"s l o t"\<close>\<close>

text \<open>
  The first approach on \<open>"slot"\<close>, for any options that leave the keywords, the sensitivity
  and the text as they are and allow at most \<open>"zeus"\<close>: the standard pattern matches and the
  score is above 0.5, so the loop stops.
\<close>

lemma slot_iteration:
  assumes "ev_keyword E = map fst mainKeywords" and "ev_text E = spaced_slot"
    and "ev_sensitivityFactorNorm E = Some 3"
    and "ev_allowSet E = [] \<or> ev_allowSet E = [zeus]" and "c > 1 / 2"
  shows "approach_loop ascii_tables E slot slot slot (patternApproaches E 1) 0
           \<lparr> cp = c, an = a, st_allMatches = [], st_matchedTerms = [], st_fuzzyHistory = [] \<rparr> =
         (\<lparr> cp = c + 1 / 2, an = a, st_allMatches = [slot], st_matchedTerms = [slot],
            st_fuzzyHistory = [] \<rparr>, True)"
proof -
  have "slot \<notin> set (ev_allowSet E)"
    using assms(4) slot_not_zeus by auto
  then show ?thesis
    using assms(5)
    by (simp add: assms(1-3) patternApproaches_def customPatternRegex loosePatternRegex
        tinyPatternRegex approach_step_def retry_matches_def history_check_def notAllowed_def
        record_matches_def add_def gt_def ge_def set_of_def Let_def
        slot_stripped slot_standard spaced_slot_site slot_lower)
qed

lemma slot_support_keywords:
  assumes "ev_domainSet E = []" and "ev_keywordList E = supportList"
  shows "support_keywords ascii_tables E slot st = st"
  using assms by (simp add: support_keywords_def slot_lower slot_support)

lemma spaced_slot_passes:
  assumes "supportKeywords opts = []" and "domains opts = []"
    and "keywordsOpt opts = keywordsOpt default_options" and "sensitivityLevel opts = 3"
    and "allowlist opts = [] \<or> allowlist opts = [zeus]"
    and "before_passes ascii_tables opts spaced_slot = \<lparr> cp = c, an = a \<rparr>" and "c > 1 / 2"
  shows "after_passes ascii_tables opts spaced_slot =
         (\<lparr> cp = c + 1 / 2, an = a, st_allMatches = [slot], st_matchedTerms = [slot],
            st_fuzzyHistory = [] \<rparr>, True)"
proof -
  define E where "E = env_of ascii_tables opts spaced_slot"
  have k: "ev_keyword E = map fst mainKeywords"
    by (simp add: E_def env_of_def assms(3) mainKeywords_def)
  have t: "ev_text E = spaced_slot"
    by (simp add: E_def env_of_def assms(3) mainKeywords_def[symmetric] spaced_slot_replaced)
  have n: "ev_sensitivityFactorNorm E = Some 3"
    by (simp add: E_def env_of_def assms(4) morpoint_def)
  have l: "ev_allowSet E = [] \<or> ev_allowSet E = [zeus]"
  proof -
    have "lowerSet ascii_tables [] = []"
      by (simp add: lowerSet_def set_of_def)
    then show ?thesis
      using assms(5) zeus_allowSet by (auto simp: E_def env_of_def)
  qed
  have d: "ev_domainSet E = []"
    by (simp add: E_def env_of_def assms(2) lowerSet_def set_of_def)
  have s: "ev_keywordList E = supportList"
    by (simp add: E_def env_of_def keywordList_supportList[OF assms(1,2)])
  show ?thesis
    by (simp add: after_passes_def spaced_slot_normalizeText assms(6) spaced_slot_merged
        E_def[symmetric] detectionPasses_def slot_fixed slot_cleaned slot_converted
        slot_iteration[OF k t n l assms(7)] slot_support_keywords[OF d s]
        del: approach_loop.simps)
qed

lemma spaced_slot_length:
  "step_length ascii_tables opts spaced_slot st = st"
  by (simp add: step_length_def avgWordLength_of_def spaced_slot_words)

lemma spaced_slot_detect:
  assumes "supportKeywords opts = []" and "domains opts = []"
    and "keywordsOpt opts = keywordsOpt default_options" and "sensitivityLevel opts = 3"
    and "allowlist opts = [] \<or> allowlist opts = [zeus]"
    and "before_passes ascii_tables opts spaced_slot = \<lparr> cp = c, an = a \<rparr>"
    and "1 / 2 < c" and "c < 2"
  shows "detect ascii_tables (JStr spaced_slot) opts =
         \<lparr> isGambling = True, confidence = Medium, checkpoint = toFixed 2 (c + 1 / 2),
           details = msg_medium,
           comment = JStr (ev_text (env_of ascii_tables opts spaced_slot)),
           analysis = result_analysis ascii_tables opts spaced_slot
             \<lparr> cp = c + 1 / 2, an = a, st_allMatches = [slot], st_matchedTerms = [slot],
               st_fuzzyHistory = [] \<rparr> \<rparr>"
proof -
  have "morpoint (sensitivityLevel opts) = Some 3"
    by (simp add: assms(4) morpoint_def)
  moreover have "confidenceThresholds (sensitivityLevel opts) =
      \<lparr> low = 1 / 2, medium = 9 / 10, high = 5 / 2 \<rparr>"
    by (simp add: assms(4) confidenceThresholds_def)
  ultimately show ?thesis
    using spaced_slot_guard spaced_slot_garbage assms(7,8)
    by (simp add: detect_def detect_text_def spaced_slot_normalizeText
        spaced_slot_passes[OF assms(1-7)] spaced_slot_length
        parseNumber_def classify_def Let_def)
qed

lemma rounded: "toFixed 2 2 = 2" "toFixed 2 (103 / 50) = 103 / 50"
  by code_simp+

text \<open>
  Claim C7, at the text \<open>"s l o t"\<close> and the default options. The two runs differ in
  \<open>includeAnalysis\<close> only, and their checkpoints are 2 and 2.06: the score of the fuzzy match
  is added only when the analysis object exists.
\<close>

theorem analysis_changes_score:
  "verbose = default_options\<lparr> includeAnalysis := True \<rparr> \<and>
   checkpoint (detect ascii_tables (JStr spaced_slot) default_options) = 2 \<and>
   checkpoint (detect ascii_tables (JStr spaced_slot) verbose) = 103 / 50"
proof -
  have "checkpoint (detect ascii_tables (JStr spaced_slot) default_options) = 2"
    by (subst spaced_slot_detect[OF _ _ _ _ _ spaced_slot_before])
       (simp_all add: default_options_def rounded)
  moreover have "checkpoint (detect ascii_tables (JStr spaced_slot) verbose) = 103 / 50"
    by (subst spaced_slot_detect[OF _ _ _ _ _ spaced_slot_before_verbose])
       (simp_all add: verbose_def default_options_def rounded)
  ultimately show ?thesis by (simp add: verbose_def)
qed

text \<open>
  The exclusion at \<open>"s l o t"\<close> with \<open>"zeus"\<close> allowed and the analysis included: the result
  reports the match \<open>"slot"\<close>, which is not the allowed term.
\<close>

theorem allowlist_excluded_witness:
  "allowlist verbose_zeus_allowed = [zeus] \<and>
   reported ''allMatches'' (detect ascii_tables (JStr spaced_slot) verbose_zeus_allowed) = [slot] \<and>
   reported ''matchedTerms'' (detect ascii_tables (JStr spaced_slot) verbose_zeus_allowed) = [slot] \<and>
   toLowerCase ascii_tables slot \<noteq> toLowerCase ascii_tables zeus \<and>
   slot \<noteq> toLowerCase ascii_tables zeus"
proof -
  have d: "analysis (detect ascii_tables (JStr spaced_slot) verbose_zeus_allowed) =
      result_analysis ascii_tables verbose_zeus_allowed spaced_slot
        \<lparr> cp = 39 / 25 + 1 / 2, an = Some spaced_analysis, st_allMatches = [slot],
          st_matchedTerms = [slot], st_fuzzyHistory = [] \<rparr>"
    by (subst spaced_slot_detect[OF _ _ _ _ _ spaced_slot_before_allowed])
       (simp_all add: verbose_zeus_allowed_def default_options_def)
  have i: "includeAnalysis verbose_zeus_allowed"
    by (simp add: verbose_zeus_allowed_def)
  have "\<exists>y. analysis (detect ascii_tables (JStr spaced_slot) verbose_zeus_allowed) = Some y \<and>
          map_of y ''allMatches'' = Some (AStrings [slot]) \<and>
          map_of y ''matchedTerms'' = Some (AStrings [slot])"
    unfolding d
    by (cases "contactInfo_of ascii_tables verbose_zeus_allowed spaced_slot")
       (simp_all add: result_analysis_def i Let_def map_of_put set_of_def)
  then have a: "reported ''allMatches'' (detect ascii_tables (JStr spaced_slot) verbose_zeus_allowed) = [slot]"
    and m: "reported ''matchedTerms'' (detect ascii_tables (JStr spaced_slot) verbose_zeus_allowed) = [slot]"
    by (auto simp: reported_def)
  have l: "allowlist verbose_zeus_allowed = [zeus]"
    by (simp add: verbose_zeus_allowed_def)
  show ?thesis
    using allowlist_excluded[of ascii_tables spaced_slot verbose_zeus_allowed] a m l
    by simp
qed

subsection \<open>The texts of the run on the clean sentence\<close>

lemma sentence_code [code]:
  "sentence =
     [84, 104, 105, 115, 32, 105, 115, 32, 97, 32, 110, 111, 114, 109, 97, 108, 32, 115,
      101, 110, 116, 101, 110, 99, 101, 32, 119, 105, 116, 104, 32, 110, 111, 32, 103, 97,
      109, 98, 108, 105, 110, 103, 32, 99, 111, 110, 116, 101, 110, 116, 46]"
  unfolding sentence_def by code_simp

lemma sentence_raw_code [code]:
  "sentence_raw =
     [84, 104, 105, 115, 32, 105, 115, 32, 97, 32, 110, 111, 114, 109, 97, 108, 32, 115,
      101, 110, 116, 101, 110, 99, 101, 32, 119, 105, 116, 104, 32, 110, 111, 32, 103, 97,
      109, 98, 108, 105, 110, 103, 32, 99, 111, 110, 116, 101, 110, 116, 32, 46]"
  unfolding sentence_raw_def by code_simp

lemma sentence_joined_code [code]:
  "sentence_joined =
     [84, 104, 105, 115, 105, 115, 97, 32, 110, 111, 114, 109, 97, 108, 115, 101, 110, 116,
      101, 110, 99, 101, 119, 105, 116, 104, 110, 111, 103, 97, 109, 98, 108, 105, 110, 103,
      99, 111, 110, 116, 101, 110, 116, 32, 46]"
  unfolding sentence_joined_def by code_simp

lemma sentence_glued_code [code]:
  "sentence_glued =
     [84, 104, 105, 115, 105, 115, 97, 110, 111, 114, 109, 97, 108, 115, 101, 110, 116, 101,
      110, 99, 101, 119, 105, 116, 104, 110, 111, 103, 97, 109, 98, 108, 105, 110, 103, 99,
      111, 110, 116, 101, 110, 116, 32, 46]"
  unfolding sentence_glued_def by code_simp

lemma sentence_stripped_code [code]:
  "sentence_stripped =
     [84, 104, 105, 115, 105, 115, 97, 110, 111, 114, 109, 97, 108, 115, 101, 110, 116, 101,
      110, 99, 101, 119, 105, 116, 104, 110, 111, 103, 97, 109, 98, 108, 105, 110, 103, 99,
      111, 110, 116, 101, 110, 116, 46]"
  unfolding sentence_stripped_def by code_simp

lemma gambling_code [code]:
  "gambling =
     [103, 97, 109, 98, 108, 105, 110, 103]"
  unfolding gambling_def by code_simp

lemma gambli_code [code]:
  "gambli =
     [103, 97, 109, 98, 108, 105]"
  unfolding gambli_def by code_simp

lemma gamblingconte_code [code]:
  "gamblingconte =
     [103, 97, 109, 98, 108, 105, 110, 103, 99, 111, 110, 116, 101]"
  unfolding gamblingconte_def by code_simp

lemma sentence_session_code [code]:
  "sentence_session =
     [84, 104, 105, 115, 32, 105, 115, 32, 97, 32, 110, 111, 114, 109, 97, 108, 32, 115,
      101, 110, 116, 101, 110, 99, 101, 32, 119, 105, 116, 104, 32, 110, 111, 32, 103, 97,
      109, 98, 108, 105, 32, 99, 111, 110, 116, 101, 110, 116, 32, 46]"
  unfolding sentence_session_def by code_simp

lemma session_stripped_code [code]:
  "session_stripped =
     [84, 104, 105, 115, 105, 115, 97, 110, 111, 114, 109, 97, 108, 115, 101, 110, 116, 101,
      110, 99, 101, 119, 105, 116, 104, 110, 111, 103, 97, 109, 98, 108, 105, 99, 111, 110,
      116, 101, 110, 116, 46]"
  unfolding session_stripped_def by code_simp

lemma sentence_guard: "sentence \<noteq> []" "\<not> length (trim sentence) < 2"
  by code_simp+

lemma sentence_garbage: "\<not> isMostlyAsciiGarbage ascii_tables (JStr sentence_raw) (Some (45 / 100))"
  by code_simp

lemma sentence_merged: "merged_of ascii_tables sentence_raw = sentence_raw"
  by code_simp

lemma sentence_replaced: "fuzzy_replaced_text ascii_tables (map fst mainKeywords) sentence = sentence"
  by code_simp

lemma sentence_raw_fixed:
  "convertCommentFixed ascii_tables sentence_raw 0 = sentence_raw"
  "convertCommentFixed ascii_tables sentence_raw (Suc 0) = sentence_raw"
  "convertCommentFixed ascii_tables sentence_raw 2 = sentence_raw"
  "convertCommentFixed ascii_tables sentence_raw 3 = sentence_raw"
  "convertCommentFixed ascii_tables sentence_raw 4 = sentence_raw"
  "convertCommentFixed ascii_tables sentence_raw 5 = sentence_raw"
  "convertCommentFixed ascii_tables sentence_raw 6 = sentence_raw"
  by code_simp+

lemma sentence_joined_fixed:
  "convertCommentFixed ascii_tables sentence_joined 0 = sentence_joined"
  "convertCommentFixed ascii_tables sentence_joined (Suc 0) = sentence_joined"
  "convertCommentFixed ascii_tables sentence_joined 2 = sentence_joined"
  "convertCommentFixed ascii_tables sentence_joined 3 = sentence_joined"
  "convertCommentFixed ascii_tables sentence_joined 4 = sentence_joined"
  "convertCommentFixed ascii_tables sentence_joined 5 = sentence_joined"
  "convertCommentFixed ascii_tables sentence_joined 6 = sentence_joined"
  by code_simp+

lemma sentence_conversions:
  "combineShortWords ascii_tables sentence_joined = sentence_joined"
  "combineShortWords ascii_tables sentence_glued = sentence_glued"
  "strip_spaces ascii_tables sentence_glued = sentence_stripped"
  by code_simp+

lemma sentence_standard:
  "match_all ascii_tables True standardPatternRegex sentence_stripped = [gamblingconte]"
  by code_simp

lemma sentence_custom: "match_all ascii_tables True customPatternRegex sentence_stripped = []"
  by code_simp

lemma sentence_loose: "match_all ascii_tables True loosePatternRegex sentence_stripped = []"
  by code_simp

lemma sentence_tiny: "match_all ascii_tables True tinyPatternRegex sentence_stripped = []"
  by code_simp

lemma sentence_tiny_raw: "match_all ascii_tables True tinyPatternRegex sentence_raw = []"
  by code_simp

lemma sentence_tiny_joined: "match_all ascii_tables True tinyPatternRegex sentence_joined = []"
  by code_simp

lemma session_standard: "match_all ascii_tables True standardPatternRegex session_stripped = []"
  by code_simp

lemma session_custom: "match_all ascii_tables True customPatternRegex session_stripped = []"
  by code_simp

lemma session_loose: "match_all ascii_tables True loosePatternRegex session_stripped = []"
  by code_simp

lemma session_tiny: "match_all ascii_tables True tinyPatternRegex session_stripped = []"
  by code_simp

lemma sentence_short_code:
  "match_all ascii_tables True rx_short_code (combineShortWords ascii_tables sentence_raw) = []"
  "match_all ascii_tables True rx_short_code sentence_joined = []"
  by code_simp+

lemma sentence_long_code:
  "match_all ascii_tables True rx_long_code sentence_raw = []"
  "match_all ascii_tables True rx_long_code sentence_joined = []"
  by code_simp+

lemma sentence_site: "match_all ascii_tables True rx_site_id (trim sentence) = []"
  by code_simp

lemma gamblingconte_lower: "toLowerCase ascii_tables gamblingconte = gamblingconte"
  by code_simp

lemma sentence_words: "wordCount_of ascii_tables sentence_raw = 9" "length sentence_raw = 52"
  by code_simp+

lemma sentence_fuzzy:
  "fuzzySearchStrings ascii_tables supportList sentence_raw =
     [Fuzzy gambling gambli (3 / 4), Fuzzy [97] [97, 112, 112] (633 / 1000),
      Fuzzy [119, 105, 116, 104] [119, 105, 110] (1 / 2),
      Fuzzy [119, 105, 116, 104] [114, 105, 99, 104] (1 / 2),
      Fuzzy [119, 105, 116, 104] [106, 105, 116, 117] (1 / 2)]"
  by code_simp

lemma sentence_joined_fuzzy: "fuzzySearchStrings ascii_tables supportList sentence_joined = []"
  by code_simp

lemma sentence_glued_fuzzy:
  "fuzzySearchStrings ascii_tables (map fst mainKeywords) sentence_glued = []"
  by code_simp

lemma sentence_before:
  "before_passes ascii_tables default_options sentence_raw = \<lparr> cp = 1 / 2, an = None \<rparr>"
  by code_simp

subsection \<open>The run on the clean sentence\<close>

lemma sentence_env:
  "sentence_env =
     \<lparr> ev_opts = default_options, ev_text = sentence, ev_keyword = map fst mainKeywords,
       ev_keywordList = supportList, ev_domainSet = [], ev_allowSet = [],
       ev_sensitivityFactorNorm = Some 3 \<rparr>"
proof -
  have "lowerSet ascii_tables (domains default_options) = []"
    "lowerSet ascii_tables (allowlist default_options) = []"
    by (simp_all add: default_options_def lowerSet_def set_of_def)
  moreover have "morpoint (sensitivityLevel default_options) = Some 3"
    by (simp add: default_options_def morpoint_def)
  ultimately show ?thesis
    by (simp add: sentence_env_def env_of_def mainKeywords_def[symmetric]
        supportList_def[symmetric] sentence_replaced)
qed

lemmas sentence_steps =
  sentence_env patternApproaches_def customPatternRegex loosePatternRegex tinyPatternRegex
  approach_step_def retry_matches_def history_check_def fuzzy_retry_def notAllowed_def
  record_matches_def push_history_def limit_history_def add_def gt_def ge_def set_of_def Let_def
  sentence_stripped_def[symmetric] session_stripped_def[symmetric]
  sentence_session_def[symmetric] sentence_conversions
  sentence_standard sentence_custom sentence_loose sentence_tiny sentence_tiny_raw
  sentence_tiny_joined session_standard session_custom session_loose session_tiny
  sentence_short_code sentence_long_code sentence_site gamblingconte_lower
  sentence_fuzzy sentence_joined_fuzzy sentence_glued_fuzzy

text \<open>
  An iteration of the first pass, at the score 0.5: the standard pattern matches
  \<open>"gamblingconte"\<close>, which is recorded, and 0.5 is not above 0.5, so the loop goes on; the
  other approaches match nothing, and the fuzzy replacement matches nothing either.
\<close>

lemma replicate_one: "replicate 1 x = [x]"
  by simp

lemma sentence_first_iteration:
  "approach_loop ascii_tables sentence_env sentence_raw sentence_raw sentence_joined
     (patternApproaches sentence_env 1) 0
     \<lparr> cp = 1 / 2, an = None, st_allMatches = [], st_matchedTerms = [], st_fuzzyHistory = [] \<rparr> =
   (\<lparr> cp = 1 / 2, an = None, st_allMatches = [gamblingconte],
      st_matchedTerms = [gamblingconte],
      st_fuzzyHistory = [sentence_session, sentence_session] \<rparr>, False)"
  by (simp add: sentence_steps)

lemma sentence_iteration:
  "approach_loop ascii_tables sentence_env sentence_raw sentence_raw sentence_joined
     (patternApproaches sentence_env 1) 0
     \<lparr> cp = 1 / 2, an = None, st_allMatches = ms, st_matchedTerms = [gamblingconte],
       st_fuzzyHistory = [sentence_session, sentence_session] \<rparr> =
   (\<lparr> cp = 1 / 2, an = None, st_allMatches = ms @ [gamblingconte],
      st_matchedTerms = [gamblingconte],
      st_fuzzyHistory = [sentence_session, sentence_session] \<rparr>, False)"
  by (simp add: sentence_steps)

text \<open>
  An iteration of the later passes, of the weight \<open>w\<close>, at a score of at most 0.5: the
  standard match is recorded again, and each of the other approaches takes its minimum less
  0.002 from the score.
\<close>

lemma sentence_later_iteration:
  assumes "c \<le> 1 / 2"
  shows "approach_loop ascii_tables sentence_env sentence_joined sentence_joined sentence_glued
           (patternApproaches sentence_env w) 0
           \<lparr> cp = c, an = None, st_allMatches = ms, st_matchedTerms = [gamblingconte],
             st_fuzzyHistory = [sentence_session, sentence_session] \<rparr> =
         (\<lparr> cp = c - (29 / 1000 * w - 6 / 1000), an = None, st_allMatches = ms @ [gamblingconte],
            st_matchedTerms = [gamblingconte],
            st_fuzzyHistory = [sentence_session, sentence_session] \<rparr>, False)"
  using assms by (simp add: sentence_steps)

lemma sentence_first_pass:
  "ignore_loop ascii_tables sentence_env sentence_raw 1 [0, 1, 2, 3, 4, 5, 6]
     \<lparr> cp = 1 / 2, an = None, st_allMatches = [], st_matchedTerms = [], st_fuzzyHistory = [] \<rparr> =
   (\<lparr> cp = 1 / 2, an = None, st_allMatches = replicate 7 gamblingconte,
      st_matchedTerms = [gamblingconte],
      st_fuzzyHistory = [sentence_session, sentence_session] \<rparr>, False)"
  by (simp add: sentence_raw_fixed sentence_joined_def[symmetric] sentence_conversions
      sentence_first_iteration sentence_iteration replicate_numeral del: approach_loop.simps)

lemma sentence_later_pass:
  assumes "c \<le> 1 / 2" and "1 / 2 \<le> w"
  shows "ignore_loop ascii_tables sentence_env sentence_joined w [0, 1, 2, 3, 4, 5, 6]
           \<lparr> cp = c, an = None, st_allMatches = ms, st_matchedTerms = [gamblingconte],
             st_fuzzyHistory = [sentence_session, sentence_session] \<rparr> =
         (\<lparr> cp = c - 7 * (29 / 1000 * w - 6 / 1000), an = None,
            st_allMatches = ms @ replicate 7 gamblingconte,
            st_matchedTerms = [gamblingconte],
            st_fuzzyHistory = [sentence_session, sentence_session] \<rparr>, False)"
proof -
  define d where "d = 29 / 1000 * w - 6 / 1000"
  have d: "0 \<le> d"
    using assms(2) by (simp add: d_def)
  have i: "approach_loop ascii_tables sentence_env sentence_joined sentence_joined sentence_glued
           (patternApproaches sentence_env w) 0
           \<lparr> cp = x, an = None, st_allMatches = xs, st_matchedTerms = [gamblingconte],
             st_fuzzyHistory = [sentence_session, sentence_session] \<rparr> =
         (\<lparr> cp = x - d, an = None, st_allMatches = xs @ [gamblingconte],
            st_matchedTerms = [gamblingconte],
            st_fuzzyHistory = [sentence_session, sentence_session] \<rparr>, False)"
    if "x \<le> 1 / 2" for x xs
    unfolding d_def using that by (rule sentence_later_iteration)
  show ?thesis
    unfolding d_def[symmetric]
    using assms(1) d
    by (simp add: sentence_joined_fixed sentence_glued_def[symmetric] sentence_conversions i
        replicate_numeral del: approach_loop.simps)
qed

lemma sentence_passes:
  "after_passes ascii_tables default_options sentence =
   (\<lparr> cp = 2389 / 10000, an = None, st_allMatches = replicate 21 gamblingconte,
      st_matchedTerms = [gamblingconte],
      st_fuzzyHistory = [sentence_session, sentence_session] \<rparr>, False)"
  by (simp add: after_passes_def sentence_raw_def[symmetric] sentence_before sentence_merged
      sentence_env_def[symmetric] detectionPasses_def sentence_joined_def[symmetric]
      sentence_conversions sentence_first_pass sentence_later_pass replicate_numeral replicate_one
      del: ignore_loop.simps One_nat_def)

lemma sentence_length:
  "step_length ascii_tables default_options sentence_raw
     \<lparr> cp = c, an = None, st_allMatches = ms, st_matchedTerms = mt, st_fuzzyHistory = h \<rparr> =
   \<lparr> cp = c + 1 / 5, an = None, st_allMatches = ms, st_matchedTerms = mt, st_fuzzyHistory = h \<rparr>"
  by (simp add: step_length_def avgWordLength_of_def sentence_words noted_def add_def
      default_options_def)

text \<open>
  Claim C4. For the text \<open>"This is a normal sentence with no gambling content."\<close> and the
  default options \<open>detect\<close> returns \<open>isGambling = false\<close>, the confidence \<open>none\<close>, and the
  checkpoint 0.44, which is below the low threshold 0.5.
\<close>

theorem clean_sentence:
  "isGambling (detect ascii_tables (JStr sentence) default_options) = False \<and>
   confidence (detect ascii_tables (JStr sentence) default_options) = NoConfidence \<and>
   checkpoint (detect ascii_tables (JStr sentence) default_options) = 11 / 25 \<and>
   checkpoint (detect ascii_tables (JStr sentence) default_options) <
     low (confidenceThresholds (sensitivityLevel default_options))"
proof -
  have "morpoint (sensitivityLevel default_options) = Some 3"
    by (simp add: default_options_def morpoint_def)
  moreover have "confidenceThresholds (sensitivityLevel default_options) =
      \<lparr> low = 1 / 2, medium = 9 / 10, high = 5 / 2 \<rparr>"
    by (simp add: default_options_def confidenceThresholds_def)
  moreover have "toFixed 2 (4389 / 10000) = 11 / 25"
    by code_simp
  ultimately show ?thesis
    using sentence_guard sentence_garbage
    by (simp add: detect_def detect_text_def sentence_raw_def[symmetric] sentence_passes
        sentence_length parseNumber_def classify_def Let_def)
qed

end
